(* ===== verification/Prelude.thy ===== *)
theory Prelude
  imports Complex_Main
begin

text \<open>
  Shared vocabulary of the development. JavaScript values that cross the HTTP boundary
  are JSON values (\<open>json\<close>); a property that is absent from a request body is
  JavaScript's \<open>undefined\<close>, written \<open>None\<close> of \<open>json option\<close>. JavaScript numbers
  are modelled exactly as rationals (\<open>rat\<close>): the summary arithmetic is then the exact
  arithmetic the code means, and rounding of IEEE doubles is not modelled. The prelude
  also holds JavaScript's truthiness (\<open>!x\<close>, \<open>x || y\<close>), \<open>typeof x === 'number'\<close>,
  property access on a parsed body, and the list lemmas the components share.
\<close>

named_theorems js_simps "evaluation of the JavaScript helpers of the model"
named_theorems store_simps "characteristic equations of the document store operations"

type_synonym timestamp = nat \<comment> \<open>the value of \<open>new Date()\<close>, in milliseconds\<close>

datatype json =
    JNull
  | JBool bool
  | JNum rat
  | JStr string
  | JArr "json list"
  | JObj "(string \<times> json) list"

text \<open>JavaScript truthiness of a value that may be \<open>undefined\<close> (\<open>None\<close>).\<close>

fun js_truthy :: "json option \<Rightarrow> bool" where
  "js_truthy None = False"
| "js_truthy (Some JNull) = False"
| "js_truthy (Some (JBool b)) = b"
| "js_truthy (Some (JNum n)) = (n \<noteq> 0)"
| "js_truthy (Some (JStr s)) = (s \<noteq> [])"
| "js_truthy (Some (JArr _)) = True"
| "js_truthy (Some (JObj _)) = True"

text \<open>\<open>typeof v === 'number'\<close>.\<close>

fun typeof_number :: "json option \<Rightarrow> bool" where
  "typeof_number (Some (JNum _)) = True"
| "typeof_number _ = False"

text \<open>The number a value holds, \<open>0\<close> for any other value: used only where
  \<open>typeof_number\<close> or the falsy branch of \<open>x || 0\<close> has fixed the value.\<close>

fun num_or_zero :: "json option \<Rightarrow> rat" where
  "num_or_zero (Some (JNum n)) = n"
| "num_or_zero _ = 0"

text \<open>Property access \<open>body.k\<close> on a body produced by \<open>express.json()\<close>: only objects
  have properties, and \<open>JSON.parse\<close> keeps the last of duplicated keys.\<close>

fun body_field :: "json \<Rightarrow> string \<Rightarrow> json option" where
  "body_field (JObj kvs) k = map_of (rev kvs) k"
| "body_field _ k = None"

subsection \<open>Lemmas on the JavaScript helpers\<close>

lemma js_truthy_num_iff [js_simps]:
  "typeof_number v \<Longrightarrow> js_truthy v \<longleftrightarrow> num_or_zero v \<noteq> 0"
  by (cases v rule: typeof_number.cases) auto

lemma typeof_number_iff [js_simps]: "typeof_number v \<longleftrightarrow> (\<exists>n. v = Some (JNum n))"
  by (cases v rule: typeof_number.cases) auto

lemma falsy_num_or_zero [js_simps]: "\<not> js_truthy v \<Longrightarrow> num_or_zero v = 0"
  by (cases v rule: js_truthy.cases) auto

lemma body_field_snoc [js_simps]:
  "body_field (JObj (kvs @ [(k, v)])) k' = (if k' = k then Some v else body_field (JObj kvs) k')"
  by simp

subsection \<open>Lists shared by the components\<close>

lemma sum_list_map_append_single [simp]:
  "sum_list (map f (xs @ [x])) = sum_list (map f xs) + (f x :: 'a :: comm_monoid_add)"
  by simp

lemma distinct_map_snoc [simp]:
  "distinct (map f (xs @ [x])) \<longleftrightarrow> distinct (map f xs) \<and> f x \<notin> f ` set xs"
  by auto

text \<open>A queue whose entries are all \<open>x\<close>, with \<open>x\<close> appended, has \<open>x\<close> at its head.\<close>

lemma snoc_head_same:
  "set xs \<subseteq> {x} \<Longrightarrow> \<exists>ys. xs @ [x] = x # ys"
  by (cases xs) auto

end
