(* ===== verification/ObjectId.thy ===== *)
theory ObjectId
  imports Prelude
begin

text \<open>
  Store identifiers. An ObjectId is represented by its canonical form, the 24-digit
  lowercase hexadecimal string that \<open>String(new ObjectId(id))\<close> prints. The theory
  holds the hexadecimal encoding and its decoding (which shows allocated ids distinct), the part of the
  bson constructor \<open>new ObjectId(s)\<close> that the route helper \<open>isValidObjectId\<close>
  (src/backend/routes.js/pool.js, lines 8--10) relies on, the characterisation of the ids
  that helper accepts, and the allocation of fresh ids by the store (\<open>gen_oid\<close>).
\<close>

type_synonym oid = string

definition is_hex_lower :: "char \<Rightarrow> bool" where
  "is_hex_lower c = (let n = (of_char c :: nat) in (48 \<le> n \<and> n \<le> 57) \<or> (97 \<le> n \<and> n \<le> 102))"

definition is_hex :: "char \<Rightarrow> bool" where
  "is_hex c = (is_hex_lower c \<or> (let n = (of_char c :: nat) in 65 \<le> n \<and> n \<le> 70))"

definition hex_lower :: "char \<Rightarrow> char" where
  "hex_lower c = (let n = (of_char c :: nat) in if 65 \<le> n \<and> n \<le> 70 then char_of (n + 32) else c)"

definition hex_digit :: "nat \<Rightarrow> char" where
  "hex_digit d = (if d < 10 then char_of (48 + d) else char_of (87 + d))"

definition hex_val :: "char \<Rightarrow> nat" where
  "hex_val c = (let n = (of_char c :: nat) in if n \<le> 57 then n - 48 else n - 87)"

text \<open>\<open>to_hex k n\<close>: the last \<open>k\<close> hexadecimal digits of \<open>n\<close>, most significant first.\<close>

fun to_hex :: "nat \<Rightarrow> nat \<Rightarrow> string" where
  "to_hex 0 n = []"
| "to_hex (Suc k) n = to_hex k (n div 16) @ [hex_digit (n mod 16)]"

definition from_hex :: "string \<Rightarrow> nat" where
  "from_hex s = foldl (\<lambda>acc c. 16 * acc + hex_val c) 0 s"

definition bytes_hex :: "string \<Rightarrow> string" where
  "bytes_hex s = concat (map (\<lambda>c. to_hex 2 (of_char c :: nat)) s)"

text \<open>
  \<open>new ObjectId(s)\<close> on a string (bson): a 24-digit hexadecimal string in either case
  gives the id with those digits, a 12-character string is read as the id's 12 bytes,
  anything else throws (\<open>None\<close>).
\<close>

definition objectid_of_string :: "string \<Rightarrow> oid option" where
  "objectid_of_string s =
     (if length s = 24 \<and> list_all is_hex s then Some (map hex_lower s)
      else if length s = 12 then Some (bytes_hex s)
      else None)"

text \<open>
  \<open>isValidObjectId(id)\<close> is \<open>ObjectId.isValid(id) && String(new ObjectId(id)) === id\<close>.
  For a value that is not a string the strict comparison of the printed id with it fails
  (or \<open>isValid\<close> already refused it), so only strings can pass.
\<close>

fun isValidObjectId :: "json option \<Rightarrow> bool" where
  "isValidObjectId (Some (JStr s)) =
     (case objectid_of_string s of Some h \<Rightarrow> h = s | None \<Rightarrow> False)"
| "isValidObjectId _ = False"

text \<open>\<open>new ObjectId(poolId)\<close> in the routes, called only on values that
  \<open>isValidObjectId\<close> has accepted, hence on strings.\<close>

fun new_ObjectId :: "json option \<Rightarrow> oid option" where
  "new_ObjectId (Some (JStr s)) = objectid_of_string s"
| "new_ObjectId _ = None"

text \<open>The store allocates the \<open>n\<close>-th id as the 24-digit encoding of \<open>n\<close>.\<close>

definition gen_oid :: "nat \<Rightarrow> oid" where
  "gen_oid n = to_hex 24 n"

subsection \<open>Digits\<close>

lemma hex_val_hex_digit [simp]: "d < 16 \<Longrightarrow> hex_val (hex_digit d) = d"
  by (simp add: hex_val_def hex_digit_def Let_def)

lemma is_hex_lower_hex_digit [simp]: "d < 16 \<Longrightarrow> is_hex_lower (hex_digit d)"
  by (simp add: is_hex_lower_def hex_digit_def Let_def)

lemma hex_val_less: "is_hex_lower c \<Longrightarrow> hex_val c < 16"
  by (auto simp: is_hex_lower_def hex_val_def Let_def)

lemma is_hex_lower_is_hex: "is_hex_lower c \<Longrightarrow> is_hex c"
  by (simp add: is_hex_def)

lemma hex_lower_id: "is_hex_lower c \<Longrightarrow> hex_lower c = c"
  by (auto simp: is_hex_lower_def hex_lower_def Let_def)

lemma hex_lower_fixed: "is_hex c \<Longrightarrow> hex_lower c = c \<Longrightarrow> is_hex_lower c"
proof -
  assume hx: "is_hex c" and fx: "hex_lower c = c"
  show "is_hex_lower c"
  proof (rule ccontr)
    assume nl: "\<not> is_hex_lower c"
    with hx have up: "65 \<le> (of_char c :: nat) \<and> (of_char c :: nat) \<le> 70"
      by (simp add: is_hex_def Let_def)
    then have "(of_char (hex_lower c) :: nat) = of_char c + 32"
      by (simp add: hex_lower_def Let_def)
    with fx show False by simp
  qed
qed

subsection \<open>Encoding and decoding\<close>

lemma length_to_hex [simp]: "length (to_hex k n) = k"
  by (induction k arbitrary: n) auto

lemma to_hex_hex_lower: "list_all is_hex_lower (to_hex k n)"
  by (induction k arbitrary: n) auto

lemma from_hex_snoc [simp]: "from_hex (s @ [c]) = 16 * from_hex s + hex_val c"
  by (simp add: from_hex_def)

lemma from_hex_Nil [simp]: "from_hex [] = 0"
  by (simp add: from_hex_def)

lemma from_hex_to_hex: "from_hex (to_hex k n) = n mod 16 ^ k"
proof (induction k arbitrary: n)
  case 0
  then show ?case by simp
next
  case (Suc k)
  have "from_hex (to_hex (Suc k) n) = 16 * (n div 16 mod 16 ^ k) + n mod 16"
    by (simp add: Suc.IH)
  also have "\<dots> = n mod (16 * 16 ^ k)"
    by (rule mod_mult2_eq [symmetric])
  finally show ?case by simp
qed

lemma to_hex_inj:
  "n < 16 ^ k \<Longrightarrow> m < 16 ^ k \<Longrightarrow> to_hex k n = to_hex k m \<Longrightarrow> n = m"
  by (metis from_hex_to_hex mod_less)

lemma length_bytes_hex [simp]: "length (bytes_hex s) = 2 * length s"
  by (induction s) (auto simp: bytes_hex_def)

lemma map_hex_lower_eq:
  "list_all is_hex s \<Longrightarrow> map hex_lower s = s \<longleftrightarrow> list_all is_hex_lower s"
  by (induction s) (auto simp: hex_lower_id intro: hex_lower_fixed)

lemma bytes_hex_ne_12: "length s = 12 \<Longrightarrow> bytes_hex s \<noteq> s"
proof
  assume l: "length s = 12" and eq: "bytes_hex s = s"
  from eq have "length (bytes_hex s) = length s" by simp
  with l show False by simp
qed

lemma gen_oid_hex: "length (gen_oid n) = 24 \<and> list_all is_hex_lower (gen_oid n)"
  by (simp add: gen_oid_def to_hex_hex_lower)

lemma gen_oid_inj: "n < 16 ^ 24 \<Longrightarrow> m < 16 ^ 24 \<Longrightarrow> gen_oid n = gen_oid m \<Longrightarrow> n = m"
  unfolding gen_oid_def by (rule to_hex_inj)

subsection \<open>The identifiers the routes accept\<close>

text \<open>\<open>isValidObjectId\<close> accepts exactly the strings of 24 lowercase hexadecimal
  digits: no other JSON value, no 12-character string, no uppercase digit.\<close>

lemma objectid_of_string_hex:
  "length s = 24 \<Longrightarrow> list_all is_hex_lower s \<Longrightarrow> objectid_of_string s = Some s"
proof -
  assume l: "length s = 24" and h: "list_all is_hex_lower s"
  from h have "list_all is_hex s" by (auto simp: list_all_iff is_hex_lower_is_hex)
  with l h show ?thesis by (simp add: objectid_of_string_def map_hex_lower_eq)
qed

lemma isValidObjectId_hex:
  "length s = 24 \<Longrightarrow> list_all is_hex_lower s \<Longrightarrow> isValidObjectId (Some (JStr s))"
  by (simp add: objectid_of_string_hex)

lemma isValidObjectId_shape:
  "isValidObjectId v \<Longrightarrow> \<exists>s. v = Some (JStr s) \<and> length s = 24 \<and> list_all is_hex_lower s"
proof (cases v rule: isValidObjectId.cases)
  case (1 s)
  assume valid: "isValidObjectId v"
  show ?thesis
  proof (cases "length s = 24 \<and> list_all is_hex s")
    case True
    with valid 1 show ?thesis
      by (simp add: objectid_of_string_def map_hex_lower_eq)
  next
    case False
    have "\<not> isValidObjectId v"
    proof (cases "length s = 12")
      case True
      with False 1 show ?thesis
        by (simp add: objectid_of_string_def bytes_hex_ne_12)
    next
      case False
      with \<open>\<not> (length s = 24 \<and> list_all is_hex s)\<close> 1 show ?thesis
        by (auto simp add: objectid_of_string_def)
    qed
    with valid show ?thesis by simp
  qed
qed auto

text \<open>C32: \<open>isValidObjectId\<close> accepts exactly the strings of 24 lowercase hexadecimal
  digits: no other JSON value, no 12-character string, no uppercase digit.\<close>

theorem isValidObjectId_iff:
  "isValidObjectId v \<longleftrightarrow> (\<exists>s. v = Some (JStr s) \<and> length s = 24 \<and> list_all is_hex_lower s)"
  by (blast intro: isValidObjectId_hex dest: isValidObjectId_shape)

lemma isValidObjectId_objectid_of_string:
  "isValidObjectId (Some (JStr s)) \<Longrightarrow> objectid_of_string s = Some s"
  by (auto simp: objectid_of_string_def split: if_splits option.splits)

lemma new_ObjectId_valid:
  "isValidObjectId v \<Longrightarrow> \<exists>s. v = Some (JStr s) \<and> new_ObjectId v = Some s"
  by (cases v rule: isValidObjectId.cases) (auto simp: isValidObjectId_objectid_of_string)

text \<open>Every id the store allocates is accepted by the routes.\<close>

lemma gen_oid_valid: "isValidObjectId (Some (JStr (gen_oid n)))"
  using gen_oid_hex by (simp add: objectid_of_string_hex)

end
