(* ===== verification/Store.thy ===== *)
theory Store
  imports ObjectId "HOL-Library.Multiset"
begin

text \<open>
  The document store as the routes of src/backend/routes.js/pool.js use it: the two
  collections \<open>pools\<close> and \<open>people\<close> of the database \<open>POOLSYSTEM\<close>
  (src/backend/config/db.js), each a list of documents in insertion (natural) order, and
  the driver's id counter. Each operation is one driver call of the routes:
  \<open>insertOne\<close> (lines 45 and 76), \<open>findOne\<close> by \<open>_id\<close> (line 121), \<open>find\<close> by
  \<open>poolId\<close> (line 127), \<open>updateOne\<close> with \<open>$inc\<close> (lines 100--103) and the sorted
  listing (line 16). \<open>_id\<close> is unique in a collection: an insert whose generated id is
  taken fails with a duplicate-key error (\<open>None\<close>), which is how the store keeps the
  uniqueness invariant \<open>store_inv\<close>.
\<close>

record pool_doc =
  pool_id :: oid
  name :: json
  totalAmount :: rat
  adminShare :: rat
  createdAt :: timestamp

record person_doc =
  person_id :: oid
  poolId :: oid
  personName :: json
  amount :: rat
  person_createdAt :: timestamp

record store =
  pools :: "pool_doc list"
  people :: "person_doc list"
  oid_counter :: nat

definition empty_store :: store where
  "empty_store = \<lparr>pools = [], people = [], oid_counter = 0\<rparr>"

text \<open>\<open>db.collection('pools').insertOne(pool)\<close>: the driver adds a fresh \<open>_id\<close>;
  the counter advances whether or not the insert succeeds.\<close>

definition insertOne_pool :: "pool_doc \<Rightarrow> store \<Rightarrow> store \<times> oid option" where
  "insertOne_pool d st =
     (let i = gen_oid (oid_counter st); st' = st\<lparr>oid_counter := Suc (oid_counter st)\<rparr> in
      if i \<in> set (map pool_id (pools st)) then (st', None)
      else (st'\<lparr>pools := pools st @ [d\<lparr>pool_id := i\<rparr>]\<rparr>, Some i))"

definition insertOne_person :: "person_doc \<Rightarrow> store \<Rightarrow> store \<times> oid option" where
  "insertOne_person d st =
     (let i = gen_oid (oid_counter st); st' = st\<lparr>oid_counter := Suc (oid_counter st)\<rparr> in
      if i \<in> set (map person_id (people st)) then (st', None)
      else (st'\<lparr>people := people st @ [d\<lparr>person_id := i\<rparr>]\<rparr>, Some i))"

text \<open>\<open>findOne({ _id })\<close>: the first matching document.\<close>

definition findOne_pool :: "oid \<Rightarrow> store \<Rightarrow> pool_doc option" where
  "findOne_pool i st = find (\<lambda>p. pool_id p = i) (pools st)"

text \<open>\<open>find({ poolId }).toArray()\<close>: all matching documents, in natural order.\<close>

definition find_people :: "oid \<Rightarrow> store \<Rightarrow> person_doc list" where
  "find_people i st = filter (\<lambda>p. poolId p = i) (people st)"

text \<open>\<open>updateOne({ _id }, { $inc: { adminShare: x } })\<close>: the first matching document
  is incremented in place; no match leaves the collection as it is.\<close>

fun inc_adminShare :: "oid \<Rightarrow> rat \<Rightarrow> pool_doc list \<Rightarrow> pool_doc list" where
  "inc_adminShare i x [] = []"
| "inc_adminShare i x (p # ps) =
     (if pool_id p = i then p\<lparr>adminShare := adminShare p + x\<rparr> # ps
      else p # inc_adminShare i x ps)"

definition updateOne_inc :: "oid \<Rightarrow> rat \<Rightarrow> store \<Rightarrow> store" where
  "updateOne_inc i x st = st\<lparr>pools := inc_adminShare i x (pools st)\<rparr>"

text \<open>\<open>find({}).sort({ createdAt: -1 }).toArray()\<close>: newest first; the store does not
  fix the order of equal timestamps, the model keeps their natural order.\<close>

definition find_all_pools_sorted :: "store \<Rightarrow> pool_doc list" where
  "find_all_pools_sorted st = sort_key (\<lambda>p. - int (createdAt p)) (pools st)"

definition store_inv :: "store \<Rightarrow> bool" where
  "store_inv st \<longleftrightarrow> distinct (map pool_id (pools st)) \<and> distinct (map person_id (people st))"

text \<open>Every stored id was allocated by the counter: the condition under which inserts
  succeed.\<close>

definition ids_allocated :: "store \<Rightarrow> bool" where
  "ids_allocated st \<longleftrightarrow>
     (\<forall>p \<in> set (pools st). \<exists>n < oid_counter st. pool_id p = gen_oid n) \<and>
     (\<forall>p \<in> set (people st). \<exists>n < oid_counter st. person_id p = gen_oid n)"

subsection \<open>Characteristic equations\<close>

lemma insertOne_pool_cases:
  "insertOne_pool d st = (st', r) \<Longrightarrow>
     (r = None \<and> st' = st\<lparr>oid_counter := Suc (oid_counter st)\<rparr>) \<or>
     (\<exists>i. r = Some i \<and> i = gen_oid (oid_counter st) \<and> i \<notin> set (map pool_id (pools st)) \<and>
        st' = st\<lparr>oid_counter := Suc (oid_counter st), pools := pools st @ [d\<lparr>pool_id := i\<rparr>]\<rparr>)"
  by (auto simp: insertOne_pool_def Let_def split: if_splits)

lemma insertOne_person_cases:
  "insertOne_person d st = (st', r) \<Longrightarrow>
     (r = None \<and> st' = st\<lparr>oid_counter := Suc (oid_counter st)\<rparr>) \<or>
     (\<exists>i. r = Some i \<and> i = gen_oid (oid_counter st) \<and> i \<notin> set (map person_id (people st)) \<and>
        st' = st\<lparr>oid_counter := Suc (oid_counter st), people := people st @ [d\<lparr>person_id := i\<rparr>]\<rparr>)"
  by (auto simp: insertOne_person_def Let_def split: if_splits)

lemma pool_id_inc_adminShare [simp]: "map pool_id (inc_adminShare i x ps) = map pool_id ps"
  by (induction ps) auto

lemma totalAmount_inc_adminShare [simp]:
  "map totalAmount (inc_adminShare i x ps) = map totalAmount ps"
  by (induction ps) auto

lemma inc_adminShare_absent: "i \<notin> set (map pool_id ps) \<Longrightarrow> inc_adminShare i x ps = ps"
  by (induction ps) auto

lemma find_inc_adminShare:
  "find (\<lambda>p. pool_id p = j) (inc_adminShare i x ps) =
     (if j = i then map_option (\<lambda>p. p\<lparr>adminShare := adminShare p + x\<rparr>) (find (\<lambda>p. pool_id p = j) ps)
      else find (\<lambda>p. pool_id p = j) ps)"
  by (induction ps) auto

lemma find_snoc_fresh:
  "i \<notin> set (map f xs) \<Longrightarrow> find (\<lambda>p. f p = i) (xs @ [x]) = (if f x = i then Some x else None)"
  by (induction xs) auto

lemma find_snoc_other:
  "f x \<noteq> j \<Longrightarrow> find (\<lambda>p. f p = j) (xs @ [x]) = find (\<lambda>p. f p = j) xs"
  by (induction xs) auto

lemma findOne_pool_in: "findOne_pool i st = Some p \<Longrightarrow> p \<in> set (pools st) \<and> pool_id p = i"
  by (auto simp: findOne_pool_def find_Some_iff)

lemmas store_op_defs [store_simps] =
  findOne_pool_def find_people_def updateOne_inc_def find_all_pools_sorted_def

subsection \<open>Insert and lookup\<close>

lemma insertOne_person_pools:
  "insertOne_person d st = (st', r) \<Longrightarrow> pools st' = pools st"
  by (auto dest!: insertOne_person_cases)

subsection \<open>Ids: uniqueness and room for inserts\<close>

lemma gen_oid_fresh:
  assumes "\<forall>p \<in> set xs. \<exists>n < c. f p = gen_oid n" and "c < 16 ^ 24"
  shows "gen_oid c \<notin> set (map f xs)"
proof
  assume "gen_oid c \<in> set (map f xs)"
  then obtain p where "p \<in> set xs" and "f p = gen_oid c" by auto
  with assms(1) obtain n where "n < c" and "gen_oid n = gen_oid c" by metis
  with assms(2) gen_oid_inj [of n c] show False by simp
qed

lemma insertOne_pool_next:
  "ids_allocated st \<Longrightarrow> oid_counter st < 16 ^ 24 \<Longrightarrow>
   insertOne_pool d st =
    (st\<lparr>oid_counter := Suc (oid_counter st),
        pools := pools st @ [d\<lparr>pool_id := gen_oid (oid_counter st)\<rparr>]\<rparr>, Some (gen_oid (oid_counter st)))"
  using gen_oid_fresh [of "pools st" "oid_counter st" pool_id]
  by (simp add: insertOne_pool_def Let_def ids_allocated_def)

text \<open>While fewer than \<open>16^24\<close> ids have been allocated, \<open>insertOne\<close> into
  \<open>pools\<close> succeeds and returns the next id of the counter.\<close>

theorem insertOne_pool_succeeds:
  assumes "ids_allocated st" and "oid_counter st < 16 ^ 24"
  shows "insertOne_pool d st =
    (st\<lparr>oid_counter := Suc (oid_counter st),
        pools := pools st @ [d\<lparr>pool_id := gen_oid (oid_counter st)\<rparr>]\<rparr>, Some (gen_oid (oid_counter st)))"
proof -
  from assms have "gen_oid (oid_counter st) \<notin> set (map pool_id (pools st))"
    by (intro gen_oid_fresh) (auto simp: ids_allocated_def)
  then show ?thesis by (simp add: insertOne_pool_def Let_def)
qed

theorem insertOne_pool_succeeds_witness:
  "ids_allocated empty_store \<and> oid_counter empty_store < 16 ^ 24 \<and>
   insertOne_pool \<lparr>pool_id = [], name = JNull, totalAmount = 5, adminShare = 0, createdAt = 0\<rparr> empty_store =
    (empty_store\<lparr>oid_counter := Suc (oid_counter empty_store),
        pools := pools empty_store @ [\<lparr>pool_id = gen_oid (oid_counter empty_store), name = JNull,
          totalAmount = 5, adminShare = 0, createdAt = 0\<rparr>]\<rparr>, Some (gen_oid (oid_counter empty_store)))"
proof -
  have a: "ids_allocated empty_store" and b: "oid_counter empty_store < 16 ^ 24"
    by (simp_all add: ids_allocated_def empty_store_def)
  show ?thesis using insertOne_pool_succeeds [OF a b] a b by simp
qed

lemma insertOne_person_succeeds:
  "ids_allocated st \<Longrightarrow> oid_counter st < 16 ^ 24 \<Longrightarrow>
   insertOne_person d st =
    (st\<lparr>oid_counter := Suc (oid_counter st),
        people := people st @ [d\<lparr>person_id := gen_oid (oid_counter st)\<rparr>]\<rparr>, Some (gen_oid (oid_counter st)))"
  using gen_oid_fresh [of "people st" "oid_counter st" person_id]
  by (simp add: insertOne_person_def Let_def ids_allocated_def)

lemma store_inv_empty [simp]: "store_inv empty_store" and ids_allocated_empty [simp]: "ids_allocated empty_store"
  by (simp_all add: store_inv_def ids_allocated_def empty_store_def)

lemma store_inv_insertOne_pool: "store_inv st \<Longrightarrow> insertOne_pool d st = (st', r) \<Longrightarrow> store_inv st'"
  by (auto simp: store_inv_def dest!: insertOne_pool_cases)

lemma store_inv_insertOne_person: "store_inv st \<Longrightarrow> insertOne_person d st = (st', r) \<Longrightarrow> store_inv st'"
  by (auto simp: store_inv_def dest!: insertOne_person_cases)

lemma store_inv_updateOne_inc: "store_inv st \<Longrightarrow> store_inv (updateOne_inc i x st)"
  by (simp add: store_inv_def updateOne_inc_def)

lemma ids_allocated_insertOne_pool:
  "ids_allocated st \<Longrightarrow> insertOne_pool d st = (st', r) \<Longrightarrow> ids_allocated st'"
  by (fastforce simp: ids_allocated_def less_Suc_eq dest!: insertOne_pool_cases)

lemma ids_allocated_insertOne_person:
  "ids_allocated st \<Longrightarrow> insertOne_person d st = (st', r) \<Longrightarrow> ids_allocated st'"
  by (fastforce simp: ids_allocated_def less_Suc_eq dest!: insertOne_person_cases)

lemma ball_pool_id_inc_adminShare:
  "(\<forall>p \<in> set (inc_adminShare i x ps). Q (pool_id p)) \<longleftrightarrow> (\<forall>p \<in> set ps. Q (pool_id p))"
  by (induction ps) auto

lemma ids_allocated_updateOne_inc: "ids_allocated st \<Longrightarrow> ids_allocated (updateOne_inc i x st)"
  using ball_pool_id_inc_adminShare [of i x "pools st" "\<lambda>j. \<exists>n < oid_counter st. j = gen_oid n"]
  by (simp add: ids_allocated_def updateOne_inc_def)

lemma oid_counter_updateOne_inc [simp]: "oid_counter (updateOne_inc i x st) = oid_counter st"
  by (simp add: updateOne_inc_def)

lemmas store_inv_preserved =
  store_inv_insertOne_pool store_inv_insertOne_person store_inv_updateOne_inc
  ids_allocated_insertOne_pool ids_allocated_insertOne_person ids_allocated_updateOne_inc

subsection \<open>Atomic increment of the admin share\<close>

lemma updateOne_inc_absent: "findOne_pool i st = None \<Longrightarrow> updateOne_inc i x st = st"
proof -
  assume "findOne_pool i st = None"
  then have "i \<notin> set (map pool_id (pools st))"
    by (auto simp: findOne_pool_def find_None_iff)
  then show ?thesis by (simp add: updateOne_inc_def inc_adminShare_absent)
qed

end
