(* ===== verification/Summary.thy ===== *)
theory Summary
  imports Store
begin

text \<open>
  The summary calculator: the body of the route \<open>GET /:poolId/summary\<close> after both
  reads (src/backend/routes.js/pool.js, lines 129--166), as a pure function of the pool
  document and the list of its investments. \<open>calculatePercentage\<close> (lines 135--139)
  rounds with \<open>parseFloat(x.toFixed(2))\<close>, modelled as ECMAScript specifies
  \<open>Number.prototype.toFixed\<close> on an exact value: the sign is taken off first, the
  nearest multiple of \<open>1/100\<close> is chosen with ties going to the larger one, and a
  magnitude of at least \<open>10^21\<close> is printed unrounded. The theory proves what the
  summary's fields are, the rounding error bound, monotonicity, and how far the participants' percentages can sum from the funded fraction.
\<close>

definition fixed2_nonneg :: "rat \<Rightarrow> rat" where
  "fixed2_nonneg x = (if 10 ^ 21 \<le> x then x else of_int \<lfloor>x * 100 + 1 / 2\<rfloor> / 100)"

text \<open>\<open>parseFloat(x.toFixed(2))\<close>\<close>

definition toFixed2 :: "rat \<Rightarrow> rat" where
  "toFixed2 x = (if x < 0 then - fixed2_nonneg (- x) else fixed2_nonneg x)"

definition calculatePercentage :: "rat \<Rightarrow> rat \<Rightarrow> rat" where
  "calculatePercentage amount' total' = (if total' = 0 then 0 else toFixed2 (amount' / total' * 100))"

text \<open>An investor annotated with its share: \<open>{ ...person, sharePercentage }\<close>.\<close>

record person_share = person_doc +
  sharePercentage :: rat

definition with_share :: "person_doc \<Rightarrow> rat \<Rightarrow> person_share" where
  "with_share p v =
     \<lparr>person_id = person_id p, poolId = poolId p, personName = personName p, amount = amount p,
      person_createdAt = person_createdAt p, sharePercentage = v\<rparr>"

record pool_details =
  pd_id :: oid
  pd_name :: json
  pd_totalAmount :: rat
  pd_createdAt :: timestamp

record investment_status =
  totalInvestment :: rat
  remainingAmount :: rat
  isFunded :: bool

record admin_contribution =
  ac_amount :: rat
  ac_sharePercentage :: rat

record pool_summary =
  poolDetails :: pool_details
  investmentStatus :: investment_status
  adminContribution :: admin_contribution
  investors :: "person_share list"
  investorCount :: nat

text \<open>\<open>x || d\<close> on a number.\<close>

definition js_or :: "rat \<Rightarrow> rat \<Rightarrow> rat" where
  "js_or x d = (if x \<noteq> 0 then x else d)"

definition summarize :: "pool_doc \<Rightarrow> person_doc list \<Rightarrow> pool_summary" where
  "summarize pool ppl =
     (let totalInvestedByPeople = foldl (\<lambda>sum person. sum + amount person) 0 ppl;
          adminShare' = js_or (adminShare pool) 0;
          totalInvestment' = totalInvestedByPeople + adminShare';
          remainingAmount' = totalAmount pool - totalInvestment';
          peopleWithShares =
            map (\<lambda>person. with_share person (calculatePercentage (amount person) (totalAmount pool))) ppl;
          adminSharePercentage = calculatePercentage adminShare' (totalAmount pool)
      in \<lparr>poolDetails = \<lparr>pd_id = pool_id pool, pd_name = name pool,
                          pd_totalAmount = totalAmount pool, pd_createdAt = createdAt pool\<rparr>,
          investmentStatus = \<lparr>totalInvestment = totalInvestment', remainingAmount = remainingAmount',
                              isFunded = (totalInvestment' \<ge> totalAmount pool)\<rparr>,
          adminContribution = \<lparr>ac_amount = adminShare', ac_sharePercentage = adminSharePercentage\<rparr>,
          investors = peopleWithShares,
          investorCount = length ppl\<rparr>)"

subsection \<open>Helpers\<close>

lemma js_or_zero [simp]: "js_or x 0 = x"
  by (simp add: js_or_def)

lemma foldl_amount_sum: "foldl (\<lambda>sum person. sum + amount person) s ppl = s + sum_list (map amount ppl)"
  by (induction ppl arbitrary: s) (auto simp: add.assoc)

lemma with_share_simps [simp]:
  "amount (with_share p v) = amount p" "sharePercentage (with_share p v) = v"
  "personName (with_share p v) = personName p" "poolId (with_share p v) = poolId p"
  "person_id (with_share p v) = person_id p"
  by (simp_all add: with_share_def)

lemma summarize_totals:
  "totalInvestment (investmentStatus (summarize pool ppl)) = sum_list (map amount ppl) + adminShare pool"
  "remainingAmount (investmentStatus (summarize pool ppl)) =
     totalAmount pool - (sum_list (map amount ppl) + adminShare pool)"
  by (simp_all add: summarize_def Let_def foldl_amount_sum)

lemma summarize_isFunded:
  "isFunded (investmentStatus (summarize pool ppl)) \<longleftrightarrow>
     sum_list (map amount ppl) + adminShare pool \<ge> totalAmount pool"
  by (simp add: summarize_def Let_def foldl_amount_sum)

lemma summarize_parts:
  "adminContribution (summarize pool ppl) =
     \<lparr>ac_amount = adminShare pool, ac_sharePercentage = calculatePercentage (adminShare pool) (totalAmount pool)\<rparr>"
  "investors (summarize pool ppl) =
     map (\<lambda>p. with_share p (calculatePercentage (amount p) (totalAmount pool))) ppl"
  "investorCount (summarize pool ppl) = length ppl"
  "pd_totalAmount (poolDetails (summarize pool ppl)) = totalAmount pool"
  by (simp_all add: summarize_def Let_def)

lemmas summarize_fields = summarize_totals summarize_parts

subsection \<open>Rounding to two decimals\<close>

lemma floor_half_bound: "\<bar>of_int \<lfloor>z + 1 / 2\<rfloor> - z\<bar> \<le> (1 / 2 :: rat)"
proof -
  have a: "of_int \<lfloor>z + 1 / 2\<rfloor> \<le> z + 1 / 2" by (rule of_int_floor_le)
  from floor_correct [of "z + 1 / 2"] have b: "z + 1 / 2 < of_int \<lfloor>z + 1 / 2\<rfloor> + 1" by simp
  from a b show ?thesis unfolding abs_le_iff by linarith
qed

lemma fixed2_nonneg_bound: "\<bar>fixed2_nonneg x - x\<bar> \<le> 1 / 200"
proof (cases "10 ^ 21 \<le> x")
  case True
  then show ?thesis by (simp add: fixed2_nonneg_def)
next
  case False
  let ?A = "of_int \<lfloor>x * 100 + 1 / 2\<rfloor> :: rat"
  have "\<bar>?A - x * 100\<bar> \<le> 1 / 2"
    by (rule floor_half_bound)
  then have "\<bar>?A / 100 - x\<bar> \<le> 1 / 200"
    unfolding abs_le_iff by linarith
  with False show ?thesis by (simp add: fixed2_nonneg_def)
qed

lemma toFixed2_bound: "\<bar>toFixed2 x - x\<bar> \<le> 1 / 200"
proof (cases "x < 0")
  case True
  have "\<bar>fixed2_nonneg (- x) - (- x)\<bar> \<le> 1 / 200" by (rule fixed2_nonneg_bound)
  with True show ?thesis unfolding toFixed2_def abs_le_iff by simp
next
  case False
  then show ?thesis using fixed2_nonneg_bound [of x] by (simp add: toFixed2_def)
qed

lemma fixed2_nonneg_nonneg: "0 \<le> x \<Longrightarrow> 0 \<le> fixed2_nonneg x"
  by (simp add: fixed2_nonneg_def)

lemma fixed2_nonneg_below: "x < 10 ^ 21 \<Longrightarrow> fixed2_nonneg x \<le> 10 ^ 21"
proof -
  assume x: "x < 10 ^ 21"
  then have "\<lfloor>x * 100 + 1 / 2\<rfloor> \<le> 10 ^ 23"
    by (simp add: floor_le_iff)
  then have "of_int \<lfloor>x * 100 + 1 / 2\<rfloor> \<le> (10 ^ 23 :: rat)"
    by (metis of_int_le_iff of_int_numeral of_int_power)
  with x show ?thesis by (simp add: fixed2_nonneg_def)
qed

lemma fixed2_nonneg_mono: "x \<le> y \<Longrightarrow> fixed2_nonneg x \<le> fixed2_nonneg y"
proof -
  assume xy: "x \<le> y"
  consider "y < 10 ^ 21" | "x < 10 ^ 21" "10 ^ 21 \<le> y" | "10 ^ 21 \<le> x"
    by linarith
  then show ?thesis
  proof cases
    case 1
    with xy have "\<lfloor>x * 100 + 1 / 2\<rfloor> \<le> \<lfloor>y * 100 + 1 / 2\<rfloor>"
      by (intro floor_mono) simp
    with 1 xy show ?thesis by (simp add: fixed2_nonneg_def divide_right_mono)
  next
    case 2
    from \<open>x < 10 ^ 21\<close> have "fixed2_nonneg x \<le> 10 ^ 21" by (rule fixed2_nonneg_below)
    moreover from \<open>10 ^ 21 \<le> y\<close> have "fixed2_nonneg y = y" by (simp add: fixed2_nonneg_def)
    ultimately show ?thesis using \<open>10 ^ 21 \<le> y\<close> by simp
  next
    case 3
    with xy show ?thesis by (simp add: fixed2_nonneg_def)
  qed
qed

lemma toFixed2_mono: "x \<le> y \<Longrightarrow> toFixed2 x \<le> toFixed2 y"
  using fixed2_nonneg_mono [of x y] fixed2_nonneg_mono [of "- y" "- x"]
    fixed2_nonneg_nonneg [of y] fixed2_nonneg_nonneg [of "- x"]
  by (auto simp: toFixed2_def)

lemma calculatePercentage_bound:
  "\<bar>calculatePercentage a t - (if t = 0 then 0 else a / t * 100)\<bar> \<le> 1 / 200"
  using toFixed2_bound [of "a / t * 100"] by (simp add: calculatePercentage_def)

text \<open>C1: the summary's figures: the total invested is the investors' amounts plus the
  admin share, the remaining amount is the goal minus that total (negative when
  overfunded), the pool is funded exactly when nothing remains, and every investor is
  listed once with the amount it invested.\<close>

theorem summarize_investment_status:
  "totalInvestment (investmentStatus (summarize pool ppl)) = sum_list (map amount ppl) + adminShare pool \<and>
   remainingAmount (investmentStatus (summarize pool ppl)) =
     totalAmount pool - totalInvestment (investmentStatus (summarize pool ppl)) \<and>
   (isFunded (investmentStatus (summarize pool ppl)) \<longleftrightarrow>
     remainingAmount (investmentStatus (summarize pool ppl)) \<le> 0) \<and>
   map amount (investors (summarize pool ppl)) = map amount ppl \<and>
   investorCount (summarize pool ppl) = length (investors (summarize pool ppl))"
  by (simp add: summarize_fields summarize_isFunded comp_def)

text \<open>C29: each share percentage is within \<open>0.005\<close> of the exact percentage of the goal
  the participant contributed.\<close>

theorem summarize_share_error:
  assumes "totalAmount pool \<noteq> 0"
  shows "\<bar>ac_sharePercentage (adminContribution (summarize pool ppl)) - adminShare pool / totalAmount pool * 100\<bar> \<le> 1 / 200 \<and>
         (\<forall>p \<in> set (investors (summarize pool ppl)).
            \<bar>sharePercentage p - amount p / totalAmount pool * 100\<bar> \<le> 1 / 200)"
  using assms calculatePercentage_bound [of _ "totalAmount pool"]
  by (auto simp: summarize_fields)

theorem summarize_share_error_witness:
  "totalAmount \<lparr>pool_id = gen_oid 0, name = JStr ''A'', totalAmount = 3, adminShare = 1, createdAt = 0\<rparr> \<noteq> 0 \<and>
   \<bar>ac_sharePercentage (adminContribution (summarize
       \<lparr>pool_id = gen_oid 0, name = JStr ''A'', totalAmount = 3, adminShare = 1, createdAt = 0\<rparr> []))
     - 1 / 3 * 100\<bar> \<le> 1 / 200"
  using summarize_share_error [of "\<lparr>pool_id = gen_oid 0, name = JStr ''A'', totalAmount = 3, adminShare = 1, createdAt = 0\<rparr>" "[]"]
  by simp

text \<open>C28: for a positive goal, a larger amount never gets a smaller share percentage.\<close>

theorem calculatePercentage_mono:
  assumes "0 < t" and "a \<le> b"
  shows "calculatePercentage a t \<le> calculatePercentage b t"
proof -
  from assms have "a / t * 100 \<le> b / t * 100"
    by (simp add: divide_right_mono)
  with assms(1) show ?thesis
    by (simp add: calculatePercentage_def toFixed2_mono)
qed

theorem calculatePercentage_mono_witness:
  "0 < (1000::rat) \<and> (250::rat) \<le> 300 \<and> calculatePercentage 250 1000 \<le> calculatePercentage 300 1000"
  using calculatePercentage_mono [of 1000 250 300] by simp

text \<open>With a negative goal, which the create route accepts, the order is reversed.\<close>

lemma calculatePercentage_negative_goal_counterexample:
  "\<not> (\<forall>a b. a \<le> b \<longrightarrow> calculatePercentage a (-100) \<le> calculatePercentage b (-100))"
proof
  assume h: "\<forall>a b. a \<le> b \<longrightarrow> calculatePercentage a (-100) \<le> calculatePercentage b (-100)"
  have "calculatePercentage 0 (-100) = 0" and "calculatePercentage 100 (-100) = -100"
    by code_simp+
  with h [rule_format, of 0 100] show False by simp
qed

subsection \<open>The participants' shares together\<close>

lemma sum_toFixed2_bound:
  "\<bar>sum_list (map (\<lambda>a. toFixed2 (a / t * 100)) xs) - sum_list (map (\<lambda>a. a / t * 100) xs)\<bar>
     \<le> of_nat (length xs) / 200"
proof (induction xs)
  case Nil
  then show ?case by simp
next
  case (Cons x xs)
  have "\<bar>toFixed2 (x / t * 100) - x / t * 100\<bar> \<le> 1 / 200" by (rule toFixed2_bound)
  with Cons.IH show ?case
    unfolding abs_le_iff by (simp add: field_simps)
qed

lemma sum_list_div_mult: "sum_list (map (\<lambda>a. a / t * 100) xs) = sum_list xs / t * (100 :: rat)"
  by (induction xs) (simp_all add: add_divide_distrib distrib_right)

text \<open>C27: the admin's and the investors' share percentages add up to the funded
  percentage \<open>100 \<cdot> totalInvestment / totalAmount\<close> up to \<open>0.005\<close> per participant:
  100 only when the pool is exactly funded, and never exactly guaranteed.\<close>

theorem summarize_shares_sum:
  assumes "totalAmount pool \<noteq> 0"
  shows "\<bar>ac_sharePercentage (adminContribution (summarize pool ppl)) +
          sum_list (map sharePercentage (investors (summarize pool ppl))) -
          totalInvestment (investmentStatus (summarize pool ppl)) / totalAmount pool * 100\<bar>
         \<le> of_nat (Suc (length ppl)) / 200"
proof -
  let ?t = "totalAmount pool"
  let ?xs = "adminShare pool # map amount ppl"
  from assms have pct: "\<And>a. calculatePercentage a ?t = toFixed2 (a / ?t * 100)"
    by (simp add: calculatePercentage_def)
  have lhs: "ac_sharePercentage (adminContribution (summarize pool ppl)) +
          sum_list (map sharePercentage (investors (summarize pool ppl))) =
          sum_list (map (\<lambda>a. toFixed2 (a / ?t * 100)) ?xs)"
    by (simp add: summarize_fields pct comp_def)
  have rhs: "totalInvestment (investmentStatus (summarize pool ppl)) / ?t * 100 =
          sum_list (map (\<lambda>a. a / ?t * 100) ?xs)"
    by (simp only: sum_list_div_mult) (simp add: summarize_fields add.commute)
  show ?thesis
    using sum_toFixed2_bound [of ?t ?xs] by (simp only: lhs rhs) simp
qed

theorem summarize_shares_sum_witness:
  "totalAmount \<lparr>pool_id = gen_oid 0, name = JStr ''A'', totalAmount = 3, adminShare = 1, createdAt = 0\<rparr> \<noteq> 0 \<and>
   \<bar>ac_sharePercentage (adminContribution (summarize
        \<lparr>pool_id = gen_oid 0, name = JStr ''A'', totalAmount = 3, adminShare = 1, createdAt = 0\<rparr>
        [\<lparr>person_id = gen_oid 1, poolId = gen_oid 0, personName = JStr ''B'', amount = 1, person_createdAt = 1\<rparr>])) +
    sum_list (map sharePercentage (investors (summarize
        \<lparr>pool_id = gen_oid 0, name = JStr ''A'', totalAmount = 3, adminShare = 1, createdAt = 0\<rparr>
        [\<lparr>person_id = gen_oid 1, poolId = gen_oid 0, personName = JStr ''B'', amount = 1, person_createdAt = 1\<rparr>]))) -
    totalInvestment (investmentStatus (summarize
        \<lparr>pool_id = gen_oid 0, name = JStr ''A'', totalAmount = 3, adminShare = 1, createdAt = 0\<rparr>
        [\<lparr>person_id = gen_oid 1, poolId = gen_oid 0, personName = JStr ''B'', amount = 1, person_createdAt = 1\<rparr>]))
      / 3 * 100\<bar> \<le> of_nat (Suc 1) / 200"
  using summarize_shares_sum [of "\<lparr>pool_id = gen_oid 0, name = JStr ''A'', totalAmount = 3, adminShare = 1, createdAt = 0\<rparr>"
      "[\<lparr>person_id = gen_oid 1, poolId = gen_oid 0, personName = JStr ''B'', amount = 1, person_createdAt = 1\<rparr>]"]
  by simp

end
