(* ===== verification/Api.thy ===== *)
theory Api
  imports Summary
begin

text \<open>
  The API layer: the five route handlers of src/backend/routes.js/pool.js and the router
  that index.js mounts under \<open>/api/pool\<close>. A handler takes the request's data (the
  parsed JSON body, or the path parameter), the clock value \<open>new Date()\<close> would read,
  and the module-level handle \<open>db\<close> of src/backend/config/db.js (\<open>None\<close> while it is
  \<open>null\<close>), and returns the HTTP response and the new handle. Every early
  \<open>return res.status(400)\<close> and \<open>404\<close> of the source is a branch, in the source's
  order; an exception inside the \<open>try\<close> block (a \<open>null\<close> handle, a failed insert)
  is the 500 branch.
\<close>

datatype payload =
    P_error string                       \<comment> \<open>\<open>{ success: false, error }\<close>\<close>
  | P_pools "pool_doc list"              \<comment> \<open>\<open>{ success: true, pools }\<close>\<close>
  | P_created string oid                 \<comment> \<open>\<open>{ success: true, message, poolId }\<close>\<close>
  | P_message string                     \<comment> \<open>\<open>{ success: true, message }\<close>\<close>
  | P_summary pool_summary               \<comment> \<open>\<open>{ success: true, summary }\<close>\<close>
  | P_no_route                           \<comment> \<open>express's default 404 page: no route matched\<close>

record response =
  status :: nat
  payload :: payload

type_synonym db_handle = "store option"

definition err :: "nat \<Rightarrow> string \<Rightarrow> response" where
  "err c m = \<lparr>status = c, payload = P_error m\<rparr>"

definition internal_error :: response where
  "internal_error = err 500 ''Internal server error.''"

subsection \<open>The handlers\<close>

text \<open>\<open>GET /\<close> (lines 13--22).\<close>

definition listPools :: "db_handle \<Rightarrow> response \<times> db_handle" where
  "listPools db =
     (case db of
        None \<Rightarrow> (internal_error, db)
      | Some st \<Rightarrow> (\<lparr>status = 200, payload = P_pools (find_all_pools_sorted st)\<rparr>, db))"

text \<open>\<open>POST /create\<close> (lines 26--51).\<close>

definition createPool :: "timestamp \<Rightarrow> json \<Rightarrow> db_handle \<Rightarrow> response \<times> db_handle" where
  "createPool now body db =
     (let name' = body_field body ''name'';
          totalAmount' = body_field body ''totalAmount'';
          adminShare' = body_field body ''adminShare''
      in if \<not> js_truthy name' \<or> \<not> js_truthy totalAmount' then
           (err 400 ''`name` and `totalAmount` are required.'', db)
         else if \<not> typeof_number totalAmount' \<or> (js_truthy adminShare' \<and> \<not> typeof_number adminShare') then
           (err 400 ''`totalAmount` and `adminShare` must be numbers.'', db)
         else case db of
           None \<Rightarrow> (internal_error, db)
         | Some st \<Rightarrow>
             (let pool = \<lparr>pool_id = [], name = the name', totalAmount = num_or_zero totalAmount',
                          adminShare = (if js_truthy adminShare' then num_or_zero adminShare' else 0),
                          createdAt = now\<rparr>
              in case insertOne_pool pool st of
                   (st', None) \<Rightarrow> (internal_error, Some st')
                 | (st', Some i) \<Rightarrow>
                     (\<lparr>status = 201, payload = P_created ''Pool created successfully.'' i\<rparr>, Some st')))"

text \<open>\<open>POST /add-person\<close> (lines 54--82).\<close>

definition addPerson :: "timestamp \<Rightarrow> json \<Rightarrow> db_handle \<Rightarrow> response \<times> db_handle" where
  "addPerson now body db =
     (let poolId' = body_field body ''poolId'';
          personName' = body_field body ''personName'';
          amount' = body_field body ''amount''
      in if \<not> js_truthy poolId' \<or> \<not> js_truthy personName' \<or> \<not> js_truthy amount' then
           (err 400 ''`poolId`, `personName`, and `amount` are required.'', db)
         else if \<not> isValidObjectId poolId' then
           (err 400 ''Invalid Pool ID format.'', db)
         else if \<not> typeof_number amount' then
           (err 400 ''`amount` must be a number.'', db)
         else case new_ObjectId poolId' of
           None \<Rightarrow> (internal_error, db)
         | Some pid \<Rightarrow>
             (let person = \<lparr>person_id = [], poolId = pid, personName = the personName',
                            amount = num_or_zero amount', person_createdAt = now\<rparr>
              in case db of
                   None \<Rightarrow> (internal_error, db)
                 | Some st \<Rightarrow>
                     (case insertOne_person person st of
                        (st', None) \<Rightarrow> (internal_error, Some st')
                      | (st', Some _) \<Rightarrow>
                          (\<lparr>status = 201, payload = P_message ''Person added to pool successfully.''\<rparr>, Some st'))))"

text \<open>\<open>POST /admin/add-shares\<close> (lines 85--109).\<close>

definition addAdminShares :: "json \<Rightarrow> db_handle \<Rightarrow> response \<times> db_handle" where
  "addAdminShares body db =
     (let poolId' = body_field body ''poolId'';
          extraAmount' = body_field body ''extraAmount''
      in if \<not> js_truthy poolId' \<or> \<not> js_truthy extraAmount' then
           (err 400 ''`poolId` and `extraAmount` are required.'', db)
         else if \<not> isValidObjectId poolId' then
           (err 400 ''Invalid Pool ID format.'', db)
         else if \<not> typeof_number extraAmount' then
           (err 400 ''`extraAmount` must be a number.'', db)
         else case db of
           None \<Rightarrow> (internal_error, db)
         | Some st \<Rightarrow>
             (case new_ObjectId poolId' of
                None \<Rightarrow> (internal_error, db)
              | Some pid \<Rightarrow>
                  (\<lparr>status = 200, payload = P_message ''Admin share updated successfully.''\<rparr>,
                   Some (updateOne_inc pid (num_or_zero extraAmount') st))))"

text \<open>\<open>GET /:poolId/summary\<close> (lines 112--174); the path parameter is always a string.\<close>

definition getPoolSummary :: "string \<Rightarrow> db_handle \<Rightarrow> response \<times> db_handle" where
  "getPoolSummary poolId' db =
     (if \<not> isValidObjectId (Some (JStr poolId')) then
        (err 400 ''Invalid Pool ID format.'', db)
      else case db of
        None \<Rightarrow> (internal_error, db)
      | Some st \<Rightarrow>
          (case objectid_of_string poolId' of
             None \<Rightarrow> (internal_error, db)
           | Some pid \<Rightarrow>
               (case findOne_pool pid st of
                  None \<Rightarrow> (err 404 ''Pool not found.'', db)
                | Some pool \<Rightarrow>
                    (\<lparr>status = 200, payload = P_summary (summarize pool (find_people pid st))\<rparr>, db))))"

subsection \<open>Routing\<close>

datatype http_method = GET | POST

datatype request =
    Req_list
  | Req_create json
  | Req_add_person json
  | Req_add_shares json
  | Req_summary string

text \<open>The router mounted at \<open>/api/pool\<close> (index.js, line 221): the path segments after
  the prefix select a route, in the order the routes are registered; \<open>None\<close> is a
  request no route matches, which express answers with its default 404.\<close>

definition route :: "http_method \<Rightarrow> string list \<Rightarrow> json \<Rightarrow> request option" where
  "route m path body =
     (if m = GET \<and> path = [] then Some Req_list
      else if m = POST \<and> path = [''create''] then Some (Req_create body)
      else if m = POST \<and> path = [''add-person''] then Some (Req_add_person body)
      else if m = POST \<and> path = [''admin'', ''add-shares''] then Some (Req_add_shares body)
      else if m = GET then
        (case path of
           [p, s] \<Rightarrow> (if s = ''summary'' \<and> p \<noteq> [] then Some (Req_summary p) else None)
         | _ \<Rightarrow> None)
      else None)"

fun handle :: "timestamp \<Rightarrow> request \<Rightarrow> db_handle \<Rightarrow> response \<times> db_handle" where
  "handle now Req_list db = listPools db"
| "handle now (Req_create body) db = createPool now body db"
| "handle now (Req_add_person body) db = addPerson now body db"
| "handle now (Req_add_shares body) db = addAdminShares body db"
| "handle now (Req_summary p) db = getPoolSummary p db"

subsection \<open>Observations and the invariant\<close>

text \<open>What a request can write: the two collections of the handle.\<close>

definition collections :: "db_handle \<Rightarrow> (pool_doc list \<times> person_doc list) option" where
  "collections db = map_option (\<lambda>st. (pools st, people st)) db"

text \<open>Ids are unique and allocated by the store's counter, and every pool has a non-zero
  goal (the create route rejects a goal of 0 as missing).\<close>

definition api_inv :: "store \<Rightarrow> bool" where
  "api_inv st \<longleftrightarrow> store_inv st \<and> ids_allocated st \<and> (\<forall>p \<in> set (pools st). totalAmount p \<noteq> 0)"

lemmas response_defs = err_def internal_error_def

subsection \<open>The summary route\<close>

text \<open>C2: \<open>GET /:poolId/summary\<close> answers 400 for a parameter that is not 24 lowercase
  hexadecimal digits, 404 for a well-formed id no pool has, and otherwise 200 with the
  summary of that pool over exactly the investments that reference it; it writes
  nothing.\<close>

theorem getPoolSummary_spec:
  "getPoolSummary p (Some st) =
     (if \<not> (length p = 24 \<and> list_all is_hex_lower p) then (err 400 ''Invalid Pool ID format.'', Some st)
      else case findOne_pool p st of
        None \<Rightarrow> (err 404 ''Pool not found.'', Some st)
      | Some pool \<Rightarrow> (\<lparr>status = 200, payload = P_summary (summarize pool (find_people p st))\<rparr>, Some st))"
proof (cases "length p = 24 \<and> list_all is_hex_lower p")
  case True
  then have v: "isValidObjectId (Some (JStr p))" by (simp add: objectid_of_string_hex)
  then have "objectid_of_string p = Some p" by (rule isValidObjectId_objectid_of_string)
  with True v show ?thesis by (simp add: getPoolSummary_def)
next
  case False
  then have "\<not> isValidObjectId (Some (JStr p))" using isValidObjectId_shape [of "Some (JStr p)"] by blast
  with False show ?thesis by (simp add: getPoolSummary_def)
qed

subsection \<open>Creating a pool\<close>

text \<open>C4: \<open>POST /create\<close> rejects with 400, and leaves the handle as it was, every
  body whose \<open>name\<close> is falsy, whose \<open>totalAmount\<close> is not a non-zero number (missing,
  \<open>0\<close>, a string), or whose \<open>adminShare\<close> is truthy but not a number.\<close>

theorem createPool_rejects:
  assumes "\<not> js_truthy (body_field body ''name'') \<or>
           \<not> (\<exists>t. t \<noteq> 0 \<and> body_field body ''totalAmount'' = Some (JNum t)) \<or>
           (js_truthy (body_field body ''adminShare'') \<and> \<not> typeof_number (body_field body ''adminShare''))"
  shows "\<exists>m. createPool now body db = (err 400 m, db)"
proof -
  from assms have "\<not> js_truthy (body_field body ''name'') \<or> \<not> js_truthy (body_field body ''totalAmount'') \<or>
      \<not> typeof_number (body_field body ''totalAmount'') \<or>
      (js_truthy (body_field body ''adminShare'') \<and> \<not> typeof_number (body_field body ''adminShare''))"
    by (cases "body_field body ''totalAmount''" rule: js_truthy.cases) auto
  then show ?thesis
    by (auto simp: createPool_def Let_def)
qed

theorem createPool_rejects_witness:
  "\<not> (\<exists>t. t \<noteq> 0 \<and> body_field (JObj [(''name'', JStr ''Alpha'')]) ''totalAmount'' = Some (JNum t)) \<and>
   (\<exists>m. createPool 1 (JObj [(''name'', JStr ''Alpha'')]) (Some empty_store) = (err 400 m, Some empty_store))"
  using createPool_rejects [of "JObj [(''name'', JStr ''Alpha'')]" 1 "Some empty_store"] by simp

text \<open>C3: a body with a truthy \<open>name\<close>, a non-zero number \<open>totalAmount\<close> and an
  \<open>adminShare\<close> that is a number or falsy is accepted with 201 and the next id, and the
  pool is appended with those fields, \<open>adminShare\<close> 0 when it was falsy, and the
  request's time.\<close>

theorem createPool_accepts:
  assumes "body_field body ''name'' = Some nm" and "js_truthy (Some nm)"
    and "body_field body ''totalAmount'' = Some (JNum t)" and "t \<noteq> 0"
    and "\<not> js_truthy (body_field body ''adminShare'') \<or> typeof_number (body_field body ''adminShare'')"
    and "ids_allocated st" and "oid_counter st < 16 ^ 24"
  shows "createPool now body (Some st) =
    (\<lparr>status = 201, payload = P_created ''Pool created successfully.'' (gen_oid (oid_counter st))\<rparr>,
     Some (st\<lparr>oid_counter := Suc (oid_counter st),
              pools := pools st @ [\<lparr>pool_id = gen_oid (oid_counter st), name = nm, totalAmount = t,
                 adminShare = num_or_zero (body_field body ''adminShare''), createdAt = now\<rparr>]\<rparr>))"
proof -
  have adm: "(if js_truthy (body_field body ''adminShare'') then num_or_zero (body_field body ''adminShare'') else 0)
      = num_or_zero (body_field body ''adminShare'')"
    by (simp add: falsy_num_or_zero)
  from assms(5) have g: "(js_truthy (body_field body ''adminShare'') \<and>
      \<not> typeof_number (body_field body ''adminShare'')) = False"
    by blast
  from assms(1-4) show ?thesis
    by (simp add: createPool_def Let_def g adm insertOne_pool_next [OF assms(6,7)])
qed

theorem createPool_accepts_witness:
  "body_field (JObj [(''name'', JStr ''Alpha''), (''totalAmount'', JNum 1000)]) ''name'' = Some (JStr ''Alpha'') \<and>
   js_truthy (Some (JStr ''Alpha'')) \<and>
   body_field (JObj [(''name'', JStr ''Alpha''), (''totalAmount'', JNum 1000)]) ''totalAmount'' = Some (JNum 1000) \<and>
   (1000::rat) \<noteq> 0 \<and>
   \<not> js_truthy (body_field (JObj [(''name'', JStr ''Alpha''), (''totalAmount'', JNum 1000)]) ''adminShare'') \<and>
   ids_allocated empty_store \<and> oid_counter empty_store < 16 ^ 24 \<and>
   createPool 1 (JObj [(''name'', JStr ''Alpha''), (''totalAmount'', JNum 1000)]) (Some empty_store) =
    (\<lparr>status = 201, payload = P_created ''Pool created successfully.'' (gen_oid (oid_counter empty_store))\<rparr>,
     Some (empty_store\<lparr>oid_counter := Suc (oid_counter empty_store),
              pools := pools empty_store @ [\<lparr>pool_id = gen_oid (oid_counter empty_store), name = JStr ''Alpha'',
                 totalAmount = 1000,
                 adminShare = num_or_zero (body_field (JObj [(''name'', JStr ''Alpha''), (''totalAmount'', JNum 1000)]) ''adminShare''),
                 createdAt = 1\<rparr>]\<rparr>))"
proof -
  have a: "ids_allocated empty_store" "oid_counter empty_store < 16 ^ 24"
    by (simp, simp add: empty_store_def)
  show ?thesis
    using createPool_accepts [of "JObj [(''name'', JStr ''Alpha''), (''totalAmount'', JNum 1000)]" "JStr ''Alpha''"
        1000 empty_store 1] a by simp
qed

subsection \<open>Investments and admin shares\<close>

lemma valid_pool_id:
  "length pid = 24 \<Longrightarrow> list_all is_hex_lower pid \<Longrightarrow>
   pid \<noteq> [] \<and> isValidObjectId (Some (JStr pid)) \<and> new_ObjectId (Some (JStr pid)) = Some pid"
  by (auto simp: objectid_of_string_hex)

text \<open>C31: \<open>POST /add-person\<close> with a well-formed pool id, a truthy name and a non-zero
  number amount answers 201 and appends the investment, whether or not a pool with that
  id exists: the route never looks the pool up.\<close>

theorem addPerson_accepts:
  assumes "body_field body ''poolId'' = Some (JStr pid)" and "length pid = 24"
    and "list_all is_hex_lower pid"
    and "body_field body ''personName'' = Some pn" and "js_truthy (Some pn)"
    and "body_field body ''amount'' = Some (JNum a)" and "a \<noteq> 0"
    and "ids_allocated st" and "oid_counter st < 16 ^ 24"
  shows "addPerson now body (Some st) =
    (\<lparr>status = 201, payload = P_message ''Person added to pool successfully.''\<rparr>,
     Some (st\<lparr>oid_counter := Suc (oid_counter st),
              people := people st @ [\<lparr>person_id = gen_oid (oid_counter st), poolId = pid,
                 personName = pn, amount = a, person_createdAt = now\<rparr>]\<rparr>))"
  using assms valid_pool_id [OF assms(2,3)]
  by (simp add: addPerson_def Let_def insertOne_person_succeeds)

theorem addPerson_accepts_witness:
  "body_field (JObj [(''poolId'', JStr (gen_oid 5)), (''personName'', JStr ''Bob''), (''amount'', JNum 250)]) ''poolId''
     = Some (JStr (gen_oid 5)) \<and> length (gen_oid 5) = 24 \<and> list_all is_hex_lower (gen_oid 5) \<and>
   body_field (JObj [(''poolId'', JStr (gen_oid 5)), (''personName'', JStr ''Bob''), (''amount'', JNum 250)]) ''personName''
     = Some (JStr ''Bob'') \<and> js_truthy (Some (JStr ''Bob'')) \<and>
   body_field (JObj [(''poolId'', JStr (gen_oid 5)), (''personName'', JStr ''Bob''), (''amount'', JNum 250)]) ''amount''
     = Some (JNum 250) \<and> (250::rat) \<noteq> 0 \<and>
   ids_allocated empty_store \<and> oid_counter empty_store < 16 ^ 24 \<and>
   findOne_pool (gen_oid 5) empty_store = None \<and>
   addPerson 2 (JObj [(''poolId'', JStr (gen_oid 5)), (''personName'', JStr ''Bob''), (''amount'', JNum 250)])
     (Some empty_store) =
    (\<lparr>status = 201, payload = P_message ''Person added to pool successfully.''\<rparr>,
     Some (empty_store\<lparr>oid_counter := Suc (oid_counter empty_store),
              people := people empty_store @ [\<lparr>person_id = gen_oid (oid_counter empty_store), poolId = gen_oid 5,
                 personName = JStr ''Bob'', amount = 250, person_createdAt = 2\<rparr>]\<rparr>))"
proof -
  have h: "length (gen_oid 5) = 24" "list_all is_hex_lower (gen_oid 5)"
    using gen_oid_hex by simp_all
  have a: "ids_allocated empty_store" "oid_counter empty_store < 16 ^ 24"
    "findOne_pool (gen_oid 5) empty_store = None"
    by (simp, simp_all add: empty_store_def findOne_pool_def)
  show ?thesis
    using addPerson_accepts [of "JObj [(''poolId'', JStr (gen_oid 5)), (''personName'', JStr ''Bob''), (''amount'', JNum 250)]"
        "gen_oid 5" "JStr ''Bob''" 250 empty_store 2] h a by simp
qed

text \<open>C30: \<open>POST /admin/add-shares\<close> with a well-formed pool id and a non-zero number
  answers 200 and increments that pool's admin share by the amount (a negative amount
  included); for an id no pool has it answers the same 200 and changes nothing.\<close>

theorem addAdminShares_accepts:
  assumes "body_field body ''poolId'' = Some (JStr pid)" and "length pid = 24"
    and "list_all is_hex_lower pid"
    and "body_field body ''extraAmount'' = Some (JNum x)" and "x \<noteq> 0"
  shows "addAdminShares body (Some st) =
           (\<lparr>status = 200, payload = P_message ''Admin share updated successfully.''\<rparr>,
            Some (updateOne_inc pid x st)) \<and>
         (findOne_pool pid st = None \<longrightarrow> snd (addAdminShares body (Some st)) = Some st)"
  using assms valid_pool_id [OF assms(2,3)]
  by (simp add: addAdminShares_def Let_def updateOne_inc_absent)

theorem addAdminShares_accepts_witness:
  "body_field (JObj [(''poolId'', JStr (gen_oid 3)), (''extraAmount'', JNum 750)]) ''poolId'' = Some (JStr (gen_oid 3)) \<and>
   length (gen_oid 3) = 24 \<and> list_all is_hex_lower (gen_oid 3) \<and>
   body_field (JObj [(''poolId'', JStr (gen_oid 3)), (''extraAmount'', JNum 750)]) ''extraAmount'' = Some (JNum 750) \<and>
   (750::rat) \<noteq> 0 \<and> findOne_pool (gen_oid 3) empty_store = None \<and>
   addAdminShares (JObj [(''poolId'', JStr (gen_oid 3)), (''extraAmount'', JNum 750)]) (Some empty_store) =
     (\<lparr>status = 200, payload = P_message ''Admin share updated successfully.''\<rparr>,
      Some (updateOne_inc (gen_oid 3) 750 empty_store)) \<and>
   snd (addAdminShares (JObj [(''poolId'', JStr (gen_oid 3)), (''extraAmount'', JNum 750)]) (Some empty_store))
     = Some empty_store"
proof -
  have h: "length (gen_oid 3) = 24" "list_all is_hex_lower (gen_oid 3)"
    using gen_oid_hex by simp_all
  have n: "findOne_pool (gen_oid 3) empty_store = None"
    by (simp add: empty_store_def findOne_pool_def)
  show ?thesis
    using addAdminShares_accepts [of "JObj [(''poolId'', JStr (gen_oid 3)), (''extraAmount'', JNum 750)]"
        "gen_oid 3" 750 empty_store] h n updateOne_inc_absent [OF n] by simp
qed

subsection \<open>Where a summary comes from\<close>

lemma handle_summary_payload:
  assumes "handle now req db = (r, db')" and "payload r = P_summary sm"
  shows "\<exists>p st pool. req = Req_summary p \<and> db = Some st \<and> findOne_pool p st = Some pool \<and>
           sm = summarize pool (find_people p st)"
proof (cases req)
  case Req_list
  with assms show ?thesis
    by (auto simp: listPools_def response_defs split: option.splits)
next
  case (Req_create body)
  with assms show ?thesis
    by (auto simp: createPool_def Let_def response_defs split: if_splits option.splits prod.splits)
next
  case (Req_add_person body)
  with assms show ?thesis
    by (auto simp: addPerson_def Let_def response_defs split: if_splits option.splits prod.splits)
next
  case (Req_add_shares body)
  with assms show ?thesis
    by (auto simp: addAdminShares_def Let_def response_defs split: if_splits option.splits)
next
  case (Req_summary p)
  with assms show ?thesis
    by (auto simp: getPoolSummary_def response_defs split: if_splits option.splits)
qed

subsection \<open>Errors write nothing\<close>

lemmas no_write_defs = response_defs collections_def

lemma createPool_error_no_write:
  "createPool now body db = (r, db') \<Longrightarrow> 400 \<le> status r \<Longrightarrow> collections db' = collections db"
  by (auto simp: createPool_def Let_def no_write_defs split: if_splits option.splits prod.splits
      dest!: insertOne_pool_cases)

lemma addPerson_error_no_write:
  "addPerson now body db = (r, db') \<Longrightarrow> 400 \<le> status r \<Longrightarrow> collections db' = collections db"
  by (auto simp: addPerson_def Let_def no_write_defs split: if_splits option.splits prod.splits
      dest!: insertOne_person_cases)

lemma addAdminShares_error_no_write:
  "addAdminShares body db = (r, db') \<Longrightarrow> 400 \<le> status r \<Longrightarrow> collections db' = collections db"
  by (auto simp: addAdminShares_def Let_def no_write_defs split: if_splits option.splits)

lemma getPoolSummary_db [simp]: "snd (getPoolSummary p db) = db"
  by (simp add: getPoolSummary_def split: option.splits)

lemma listPools_db [simp]: "snd (listPools db) = db"
  by (simp add: listPools_def split: option.splits)

text \<open>C5: a request answered with a 4xx or 5xx status leaves both collections exactly as
  they were: validation errors, not-found, a \<open>null\<close> handle and a failed insert write
  nothing.\<close>

theorem handle_error_no_write:
  assumes "handle now req db = (r, db')" and "400 \<le> status r"
  shows "collections db' = collections db"
proof (cases req)
  case Req_list
  with assms show ?thesis by (metis handle.simps(1) listPools_db snd_conv)
next
  case (Req_create body)
  with assms show ?thesis by (simp add: createPool_error_no_write)
next
  case (Req_add_person body)
  with assms show ?thesis by (simp add: addPerson_error_no_write)
next
  case (Req_add_shares body)
  with assms show ?thesis by (simp add: addAdminShares_error_no_write)
next
  case (Req_summary p)
  with assms show ?thesis by (metis handle.simps(5) getPoolSummary_db snd_conv)
qed

theorem handle_error_no_write_witness:
  "handle 1 (Req_create (JObj [(''name'', JStr ''Alpha'')])) (Some empty_store) =
     (err 400 ''`name` and `totalAmount` are required.'', Some empty_store) \<and>
   400 \<le> status (err 400 ''`name` and `totalAmount` are required.'') \<and>
   collections (Some empty_store) = collections (Some empty_store)"
proof -
  have h: "handle 1 (Req_create (JObj [(''name'', JStr ''Alpha'')])) (Some empty_store) =
     (err 400 ''`name` and `totalAmount` are required.'', Some empty_store)"
    by (simp add: createPool_def)
  have "400 \<le> status (err 400 ''`name` and `totalAmount` are required.'')"
    by (simp add: err_def)
  with h handle_error_no_write [OF h] show ?thesis by simp
qed

subsection \<open>The invariant the API keeps\<close>

lemma api_inv_empty [simp]: "api_inv empty_store"
  by (simp add: api_inv_def empty_store_def store_inv_def ids_allocated_def)

lemma goals_inc_adminShare:
  "(\<forall>p \<in> set (inc_adminShare i x ps). totalAmount p \<noteq> 0) \<longleftrightarrow> (\<forall>p \<in> set ps. totalAmount p \<noteq> 0)"
  by (induction ps) auto

lemma api_inv_insertOne_pool:
  assumes "api_inv st" and "insertOne_pool d st = (st', r)" and "totalAmount d \<noteq> 0"
  shows "api_inv st'"
proof -
  from assms(1,2) have "store_inv st'" and "ids_allocated st'"
    by (auto simp: api_inv_def intro: store_inv_insertOne_pool ids_allocated_insertOne_pool)
  moreover from assms have "\<forall>p \<in> set (pools st'). totalAmount p \<noteq> 0"
    by (auto simp: api_inv_def dest!: insertOne_pool_cases)
  ultimately show ?thesis by (simp add: api_inv_def)
qed

lemma api_inv_insertOne_person:
  assumes "api_inv st" and "insertOne_person d st = (st', r)"
  shows "api_inv st'"
proof -
  from assms have "store_inv st'" and "ids_allocated st'"
    by (auto simp: api_inv_def intro: store_inv_insertOne_person ids_allocated_insertOne_person)
  moreover have "pools st' = pools st" by (rule insertOne_person_pools [OF assms(2)])
  ultimately show ?thesis using assms(1) by (simp add: api_inv_def)
qed

lemma createPool_api_inv:
  "createPool now body (Some st) = (r, db') \<Longrightarrow> api_inv st \<Longrightarrow> \<exists>st'. db' = Some st' \<and> api_inv st'"
  unfolding createPool_def Let_def
  by (auto simp: js_truthy_num_iff split: if_splits option.splits prod.splits
      elim!: api_inv_insertOne_pool [rotated])

lemma addPerson_api_inv:
  "addPerson now body (Some st) = (r, db') \<Longrightarrow> api_inv st \<Longrightarrow> \<exists>st'. db' = Some st' \<and> api_inv st'"
  unfolding addPerson_def Let_def
  by (auto split: if_splits option.splits prod.splits elim!: api_inv_insertOne_person [rotated])

lemma api_inv_updateOne_inc: "api_inv st \<Longrightarrow> api_inv (updateOne_inc i x st)"
  using store_inv_updateOne_inc [of st i x] ids_allocated_updateOne_inc [of st i x]
  by (simp add: api_inv_def) (simp add: updateOne_inc_def goals_inc_adminShare)

lemma addAdminShares_api_inv:
  "addAdminShares body (Some st) = (r, db') \<Longrightarrow> api_inv st \<Longrightarrow> \<exists>st'. db' = Some st' \<and> api_inv st'"
  unfolding addAdminShares_def Let_def
  by (auto simp: api_inv_updateOne_inc split: if_splits option.splits)

text \<open>Every request keeps the handle connected and keeps the invariant.\<close>

lemma handle_api_inv:
  assumes "handle now req (Some st) = (r, db')" and "api_inv st"
  shows "\<exists>st'. db' = Some st' \<and> api_inv st'"
proof (cases req)
  case Req_list
  with assms show ?thesis by (metis handle.simps(1) listPools_db snd_conv)
next
  case (Req_create body)
  with assms show ?thesis by (simp add: createPool_api_inv)
next
  case (Req_add_person body)
  with assms show ?thesis by (simp add: addPerson_api_inv)
next
  case (Req_add_shares body)
  with assms show ?thesis by (simp add: addAdminShares_api_inv)
next
  case (Req_summary p)
  with assms show ?thesis by (metis handle.simps(5) getPoolSummary_db snd_conv)
qed


subsection \<open>Requests for allocated ids\<close>

lemma gen_oid_route_facts:
  "gen_oid n \<noteq> [] \<and> isValidObjectId (Some (JStr (gen_oid n))) \<and>
   new_ObjectId (Some (JStr (gen_oid n))) = Some (gen_oid n) \<and> objectid_of_string (gen_oid n) = Some (gen_oid n)"
  using valid_pool_id [of "gen_oid n"] gen_oid_hex [of n] by (simp add: objectid_of_string_hex)

lemma addAdminShares_gen_oid:
  "addAdminShares (JObj [(''poolId'', JStr (gen_oid n)), (''extraAmount'', JNum x)]) (Some st) =
     (if x = 0 then (err 400 ''`poolId` and `extraAmount` are required.'', Some st)
      else (\<lparr>status = 200, payload = P_message ''Admin share updated successfully.''\<rparr>,
            Some (updateOne_inc (gen_oid n) x st)))"
  using gen_oid_route_facts [of n]
  by (simp add: addAdminShares_def Let_def del: isValidObjectId.simps new_ObjectId.simps)

lemma getPoolSummary_gen_oid:
  "getPoolSummary (gen_oid n) (Some st) =
     (case findOne_pool (gen_oid n) st of
        None \<Rightarrow> (err 404 ''Pool not found.'', Some st)
      | Some pool \<Rightarrow> (\<lparr>status = 200, payload = P_summary (summarize pool (find_people (gen_oid n) st))\<rparr>, Some st))"
  using gen_oid_route_facts [of n]
  by (simp add: getPoolSummary_def del: isValidObjectId.simps new_ObjectId.simps)

end
