(* ===== verification/Client.thy ===== *)
theory Client
  imports Api
begin

text \<open>
  The dashboard (src/frontend/vite-project/src/App.jsx) and the standalone hook and view
  of src/frontend/vite-project/src/hooks/useFetch.jsx and views/PoolDetail.jsx, as far as
  they compute: how a response of the API is read by \<open>useFetch\<close> (a state machine over
  \<open>data\<close>, \<open>loading\<close>, \<open>error\<close>) and by \<open>useApi().post\<close>, the request bodies
  the three forms build from their inputs and the admin-share form's guard, the figures
  the detail view derives from a summary (funding percentage, pie chart), and the state
  of the \<open>App\<close> component. Numbers that the views may divide by zero are JavaScript
  numbers with infinities and \<open>NaN\<close> (\<open>jsnum\<close>).
\<close>

datatype jsnum = Fin rat | PosInf | NegInf | NaN

text \<open>\<open>x / y\<close> on JavaScript numbers, for finite operands.\<close>

definition js_div :: "rat \<Rightarrow> rat \<Rightarrow> jsnum" where
  "js_div x y =
     (if y \<noteq> 0 then Fin (x / y) else if 0 < x then PosInf else if x < 0 then NegInf else NaN)"

text \<open>\<open>x * c\<close> for a positive constant \<open>c\<close>.\<close>

fun js_mul_pos :: "jsnum \<Rightarrow> rat \<Rightarrow> jsnum" where
  "js_mul_pos (Fin x) c = Fin (x * c)"
| "js_mul_pos v c = v"

text \<open>Template-string rendering of a status code.\<close>

fun decimal :: "nat \<Rightarrow> string" where
  "decimal n = (if n < 10 then [''0123456789'' ! n] else decimal (n div 10) @ [''0123456789'' ! (n mod 10)])"

declare decimal.simps [simp del]

subsection \<open>What the browser receives\<close>

text \<open>The outcome of \<open>fetch\<close>: a rejected promise with its message, or the server's
  response.\<close>

datatype fetch_result = Net_error string | Got response

definition response_ok :: "response \<Rightarrow> bool" where
  "response_ok r \<longleftrightarrow> 200 \<le> status r \<and> status r < 300"

text \<open>\<open>response.json()\<close>: every route answers JSON except express's default 404 page,
  on which parsing fails with a \<open>SyntaxError\<close> (its engine-specific message is
  \<open>json_syntax_error\<close>).\<close>

definition json_syntax_error :: string where
  "json_syntax_error = ''Unexpected token < in JSON''"

definition response_json :: "response \<Rightarrow> payload option" where
  "response_json r = (case payload r of P_no_route \<Rightarrow> None | p \<Rightarrow> Some p)"

text \<open>\<open>result.success\<close> and \<open>result.error\<close> (the empty string stands for the message of
  \<open>new Error(undefined)\<close>).\<close>

fun success_of :: "payload \<Rightarrow> bool" where
  "success_of (P_error _) = False"
| "success_of _ = True"

fun error_of :: "payload \<Rightarrow> string" where
  "error_of (P_error m) = m"
| "error_of _ = []"

text \<open>\<open>a || b\<close> on strings.\<close>

definition str_or :: "string \<Rightarrow> string \<Rightarrow> string" where
  "str_or a b = (if a = [] then b else a)"

subsection \<open>\<open>useFetch\<close> in App.jsx (lines 125--142)\<close>

record fetch_state =
  data :: "payload option"
  loading :: bool
  error :: "string option"

definition fetch_init :: fetch_state where
  "fetch_init = \<lparr>data = None, loading = True, error = None\<rparr>"

text \<open>The start of \<open>fetchData\<close>: \<open>setLoading(true); setError(null)\<close>.\<close>

definition fetch_start :: "fetch_state \<Rightarrow> fetch_state" where
  "fetch_start s = s\<lparr>loading := True, error := None\<rparr>"

text \<open>The rest of \<open>fetchData\<close> once \<open>fetch\<close> has settled: the \<open>try\<close> block, the
  \<open>catch\<close> that stores the message, and the \<open>finally\<close> that clears \<open>loading\<close>.\<close>

definition fetch_finish :: "fetch_result \<Rightarrow> fetch_state \<Rightarrow> fetch_state" where
  "fetch_finish res s =
     (let outcome =
        (case res of
           Net_error msg \<Rightarrow> Inl msg
         | Got r \<Rightarrow>
             (if \<not> response_ok r then Inl (''HTTP error! status: '' @ decimal (status r))
              else case response_json r of
                None \<Rightarrow> Inl json_syntax_error
              | Some p \<Rightarrow> (if success_of p then Inr p else Inl (error_of p))))
      in case outcome of
           Inl msg \<Rightarrow> s\<lparr>error := Some msg, loading := False\<rparr>
         | Inr p \<Rightarrow> s\<lparr>data := Some p, loading := False\<rparr>)"

definition fetchData :: "fetch_result \<Rightarrow> fetch_state \<Rightarrow> fetch_state" where
  "fetchData res s = fetch_finish res (fetch_start s)"

subsection \<open>\<open>fetchData\<close> of hooks/useFetch.jsx (lines 8--28)\<close>

text \<open>The standalone hook reads the error body of a failed response and falls back to
  the status only when it has no \<open>error\<close>.\<close>

definition fetchData_hook :: "fetch_result \<Rightarrow> fetch_state \<Rightarrow> fetch_state" where
  "fetchData_hook res s =
     (let s0 = s\<lparr>loading := True, error := None\<rparr>;
          outcome =
        (case res of
           Net_error msg \<Rightarrow> Inl msg
         | Got r \<Rightarrow>
             (if \<not> response_ok r then
                Inl (str_or (case response_json r of
                               None \<Rightarrow> ''An unknown network error occurred.''
                             | Some p \<Rightarrow> error_of p)
                            (''HTTP error! status: '' @ decimal (status r)))
              else case response_json r of
                None \<Rightarrow> Inl json_syntax_error
              | Some p \<Rightarrow> (if success_of p then Inr p
                           else Inl (str_or (error_of p) ''The API returned an error.''))))
      in case outcome of
           Inl msg \<Rightarrow> s0\<lparr>error := Some msg, loading := False\<rparr>
         | Inr p \<Rightarrow> s0\<lparr>data := Some p, loading := False\<rparr>)"

subsection \<open>\<open>useApi().post\<close> (App.jsx, lines 107--123)\<close>

text \<open>The value the returned promise resolves to (\<open>Inr\<close>) or the message of the error
  it rejects with (\<open>Inl\<close>).\<close>

definition api_post :: "fetch_result \<Rightarrow> string + payload" where
  "api_post res =
     (case res of
        Net_error msg \<Rightarrow> Inl msg
      | Got r \<Rightarrow>
          (if \<not> response_ok r then
             Inl (case response_json r of None \<Rightarrow> ''An unknown error occurred.'' | Some p \<Rightarrow> error_of p)
           else case response_json r of
             None \<Rightarrow> Inl json_syntax_error
           | Some p \<Rightarrow> Inr p))"

subsection \<open>The forms (App.jsx, lines 162--235)\<close>

text \<open>A toast as \<open>showToast(message, type)\<close> sets it.\<close>

datatype toast_type = T_success | T_error

record toast =
  message :: string
  toast_type :: toast_type

text \<open>The value of an \<open><input type="number">\<close>: the browser keeps it empty (\<open>None\<close>) or a
  valid floating-point number, and \<open>Number(formData.get(k))\<close> is that number, \<open>0\<close> for the
  empty string.\<close>

type_synonym number_input = "rat option"

definition Number_input :: "number_input \<Rightarrow> rat" where
  "Number_input v = (case v of None \<Rightarrow> 0 | Some x \<Rightarrow> x)"

text \<open>The body \<open>CreatePoolForm\<close> posts to \<open>/create\<close>.\<close>

definition createPool_body :: "string \<Rightarrow> number_input \<Rightarrow> number_input \<Rightarrow> json" where
  "createPool_body nm total' admin =
     JObj [(''name'', JStr nm), (''totalAmount'', JNum (Number_input total')),
           (''adminShare'', JNum (js_or (Number_input admin) 0))]"

text \<open>The body \<open>AddPersonForm\<close> posts to \<open>/add-person\<close>.\<close>

definition addPerson_body :: "oid \<Rightarrow> string \<Rightarrow> number_input \<Rightarrow> json" where
  "addPerson_body pid nm amt =
     JObj [(''poolId'', JStr pid), (''personName'', JStr nm), (''amount'', JNum (Number_input amt))]"

text \<open>\<open>AddAdminSharesForm\<close>: a non-positive amount is refused with a toast and no request
  (\<open>Inl\<close>); otherwise the body posted to \<open>/admin/add-shares\<close> (\<open>Inr\<close>).\<close>

definition addShares_request :: "oid \<Rightarrow> number_input \<Rightarrow> toast + json" where
  "addShares_request pid v =
     (let extraAmount = Number_input v in
      if extraAmount \<le> 0 then Inl \<lparr>message = ''Please enter a positive amount.'', toast_type = T_error\<rparr>
      else Inr (JObj [(''poolId'', JStr pid), (''extraAmount'', JNum extraAmount)]))"

text \<open>The \<open>try\<close>/\<open>catch\<close> around \<open>post\<close> shared by the three forms: the toast shown and
  whether \<open>onComplete()\<close> runs.\<close>

definition form_outcome :: "string \<Rightarrow> string \<Rightarrow> fetch_result \<Rightarrow> toast \<times> bool" where
  "form_outcome ok_msg fail_msg res =
     (case api_post res of
        Inr _ \<Rightarrow> (\<lparr>message = ok_msg, toast_type = T_success\<rparr>, True)
      | Inl m \<Rightarrow> (\<lparr>message = str_or m fail_msg, toast_type = T_error\<rparr>, False))"

subsection \<open>Figures of the detail views\<close>

text \<open>\<open>PoolDetailView\<close> in App.jsx (lines 250--256).\<close>

definition fundingPercentage :: "pool_summary \<Rightarrow> rat" where
  "fundingPercentage s =
     (if 0 < pd_totalAmount (poolDetails s)
      then totalInvestment (investmentStatus s) / pd_totalAmount (poolDetails s) * 100 else 0)"

definition pieChartData :: "pool_summary \<Rightarrow> (string \<times> rat) list" where
  "pieChartData s =
     [(''Admin'', ac_amount (adminContribution s)),
      (''Investors'', totalInvestment (investmentStatus s) - ac_amount (adminContribution s)),
      (''Unfunded'', max 0 (remainingAmount (investmentStatus s)))]"

text \<open>\<open>PoolDetail\<close> in views/PoolDetail.jsx (lines 21--26): no guard on the goal and no
  unfunded slice.\<close>

definition fundingPercentage_view :: "pool_summary \<Rightarrow> jsnum" where
  "fundingPercentage_view s =
     js_mul_pos (js_div (totalInvestment (investmentStatus s)) (pd_totalAmount (poolDetails s))) 100"

definition pieChartData_view :: "pool_summary \<Rightarrow> (string \<times> rat) list" where
  "pieChartData_view s =
     [(''Admin'', ac_amount (adminContribution s)),
      (''Investors'', totalInvestment (investmentStatus s) - ac_amount (adminContribution s))]"

text \<open>\<open>data?.pools || []\<close> (App.jsx line 357, views/PoolsList.jsx line 12).\<close>

fun pools_of :: "payload option \<Rightarrow> pool_doc list" where
  "pools_of (Some (P_pools ps)) = ps"
| "pools_of _ = []"

text \<open>The responses of the API: a success status, or an error payload with a message.\<close>

definition api_response :: "response \<Rightarrow> bool" where
  "api_response r \<longleftrightarrow> response_ok r \<or> (\<exists>m. payload r = P_error m \<and> m \<noteq> [])"

subsection \<open>Lemmas\<close>

lemma body_field_obj3 [simp]:
  "body_field (JObj [(a, x), (b, y), (c, z)]) k =
     (if k = c then Some z else if k = b then Some y else if k = a then Some x else None)"
  by simp

lemma createPool_body_result:
  assumes "nm \<noteq> []" and "t \<noteq> 0" and "ids_allocated st" and "oid_counter st < 16 ^ 24"
  shows "createPool now (createPool_body nm (Some t) adm) (Some st) =
    (\<lparr>status = 201, payload = P_created ''Pool created successfully.'' (gen_oid (oid_counter st))\<rparr>,
     Some (st\<lparr>oid_counter := Suc (oid_counter st),
              pools := pools st @ [\<lparr>pool_id = gen_oid (oid_counter st), name = JStr nm, totalAmount = t,
                 adminShare = js_or (Number_input adm) 0, createdAt = now\<rparr>]\<rparr>))"
  using assms
  by (simp add: createPool_def createPool_body_def Number_input_def Let_def insertOne_pool_next js_or_def)

lemma api_response_err [simp]: "m \<noteq> [] \<Longrightarrow> api_response (err c m)"
  by (simp add: api_response_def err_def)

lemma api_response_ok [simp]: "200 \<le> c \<Longrightarrow> c < 300 \<Longrightarrow> api_response \<lparr>status = c, payload = p\<rparr>"
  by (simp add: api_response_def response_ok_def)

lemma handle_api_response: "api_response (fst (handle now req db))"
proof (cases req)
  case Req_list then show ?thesis
    by (simp add: listPools_def internal_error_def split: option.split)
next
  case (Req_create body) then show ?thesis
    by (simp add: createPool_def internal_error_def Let_def split: option.split prod.split)
next
  case (Req_add_person body) then show ?thesis
    by (simp add: addPerson_def internal_error_def Let_def split: option.split prod.split)
next
  case (Req_add_shares body) then show ?thesis
    by (simp add: addAdminShares_def internal_error_def Let_def split: option.split)
next
  case (Req_summary p) then show ?thesis
    by (simp add: getPoolSummary_def internal_error_def split: option.split)
qed

text \<open>C20: the body \<open>CreatePoolForm\<close> builds from a filled form always passes the
  create route's type checks: with a store that has room for the next id, the route
  answers 201 with that id when the goal typed is non-zero, and 400 \<open>required\<close> when
  it is 0; never the \<open>must be numbers\<close> error.\<close>

theorem createPool_form:
  assumes "nm \<noteq> []" and "ids_allocated st" and "oid_counter st < 16 ^ 24"
  shows "fst (createPool now (createPool_body nm (Some t) admin) (Some st)) =
    (if t = 0 then err 400 ''`name` and `totalAmount` are required.''
     else \<lparr>status = 201, payload = P_created ''Pool created successfully.'' (gen_oid (oid_counter st))\<rparr>)"
  using assms
  by (simp add: createPool_def createPool_body_def Number_input_def Let_def insertOne_pool_next)

theorem createPool_form_witness:
  "''Alpha'' \<noteq> [] \<and> ids_allocated empty_store \<and> oid_counter empty_store < 16 ^ 24 \<and>
   fst (createPool 1 (createPool_body ''Alpha'' (Some 1000) None) (Some empty_store)) =
     \<lparr>status = 201, payload = P_created ''Pool created successfully.'' (gen_oid 0)\<rparr>"
proof -
  have a: "ids_allocated empty_store" "oid_counter empty_store < 16 ^ 24"
    by (simp, simp add: empty_store_def)
  show ?thesis
    using createPool_form [of "''Alpha''" empty_store 1 1000 None] a by (simp add: empty_store_def)
qed

text \<open>C21: \<open>AddPersonForm\<close> posts whatever amount is typed: for a listed pool and a
  filled name, an amount of 0 is rejected by the route as missing (400), and every other
  amount, negative ones included, is stored as a new investment of that pool (201).\<close>

theorem addPerson_form:
  assumes "length pid = 24" and "list_all is_hex_lower pid" and "nm \<noteq> []"
    and "ids_allocated st" and "oid_counter st < 16 ^ 24"
  shows "addPerson now (addPerson_body pid nm amt) (Some st) =
    (if Number_input amt = 0 then (err 400 ''`poolId`, `personName`, and `amount` are required.'', Some st)
     else (\<lparr>status = 201, payload = P_message ''Person added to pool successfully.''\<rparr>,
           Some (st\<lparr>oid_counter := Suc (oid_counter st),
                    people := people st @ [\<lparr>person_id = gen_oid (oid_counter st), poolId = pid,
                       personName = JStr nm, amount = Number_input amt, person_createdAt = now\<rparr>]\<rparr>)))"
  using assms valid_pool_id [OF assms(1,2)]
  by (simp add: addPerson_def addPerson_body_def Let_def insertOne_person_succeeds)

theorem addPerson_form_witness:
  "length (gen_oid 0) = 24 \<and> list_all is_hex_lower (gen_oid 0) \<and> ''Bob'' \<noteq> [] \<and>
   ids_allocated empty_store \<and> oid_counter empty_store < 16 ^ 24 \<and>
   addPerson 3 (addPerson_body (gen_oid 0) ''Bob'' (Some (-5))) (Some empty_store) =
     (\<lparr>status = 201, payload = P_message ''Person added to pool successfully.''\<rparr>,
      Some (empty_store\<lparr>oid_counter := 1,
        people := [\<lparr>person_id = gen_oid 0, poolId = gen_oid 0, personName = JStr ''Bob'', amount = -5,
                   person_createdAt = 3\<rparr>]\<rparr>))"
proof -
  have a: "length (gen_oid 0) = 24" "list_all is_hex_lower (gen_oid 0)" "''Bob'' \<noteq> []"
    "ids_allocated empty_store" "oid_counter empty_store < 16 ^ 24"
    using gen_oid_hex [of 0] by (simp, simp, simp, simp, simp add: empty_store_def)
  show ?thesis
    using addPerson_form [OF a, of 3 "Some (-5)"] a by (simp add: Number_input_def empty_store_def)
qed

text \<open>C7: \<open>AddAdminSharesForm\<close> refuses exactly the non-positive amounts, with its own
  toast and no request, and every body it posts for a listed pool is accepted by
  \<open>POST /admin/add-shares\<close>, which increments the admin share by the typed amount.\<close>

theorem addShares_form:
  assumes "length pid = 24" and "list_all is_hex_lower pid"
  shows "(case addShares_request pid v of
            Inl t \<Rightarrow> Number_input v \<le> 0 \<and> t = \<lparr>message = ''Please enter a positive amount.'', toast_type = T_error\<rparr>
          | Inr body \<Rightarrow> 0 < Number_input v \<and>
              addAdminShares body (Some st) =
                (\<lparr>status = 200, payload = P_message ''Admin share updated successfully.''\<rparr>,
                 Some (updateOne_inc pid (Number_input v) st)))"
  using valid_pool_id [OF assms]
  by (simp add: addShares_request_def addAdminShares_def Let_def)

theorem addShares_form_witness:
  "length (gen_oid 0) = 24 \<and> list_all is_hex_lower (gen_oid 0) \<and>
   addAdminShares (JObj [(''poolId'', JStr (gen_oid 0)), (''extraAmount'', JNum 5)]) (Some empty_store) =
     (\<lparr>status = 200, payload = P_message ''Admin share updated successfully.''\<rparr>,
      Some (updateOne_inc (gen_oid 0) 5 empty_store))"
proof -
  have h: "length (gen_oid 0) = 24" "list_all is_hex_lower (gen_oid 0)"
    using gen_oid_hex by auto
  show ?thesis
    using addShares_form [OF h, of "Some 5" empty_store] h
    by (simp add: addShares_request_def Number_input_def)
qed

text \<open>C19: every response of the API that is not a success carries a non-empty message,
  and the form that posted the request shows exactly that message in its error toast
  (never its generic fallback) and does not complete.\<close>

theorem form_toast_api_error:
  assumes "handle now req db = (r, db')" and "\<not> response_ok r"
  shows "\<exists>m. payload r = P_error m \<and> m \<noteq> [] \<and>
           form_outcome ok_msg fail_msg (Got r) = (\<lparr>message = m, toast_type = T_error\<rparr>, False)"
proof -
  from handle_api_response [of now req db] assms obtain m where "payload r = P_error m" "m \<noteq> []"
    by (auto simp: api_response_def)
  with assms(2) show ?thesis
    by (simp add: form_outcome_def api_post_def response_json_def str_or_def)
qed

theorem form_toast_api_error_witness:
  "handle 0 (Req_summary ''x'') None = (err 400 ''Invalid Pool ID format.'', None) \<and>
   \<not> response_ok (err 400 ''Invalid Pool ID format.'') \<and>
   (\<exists>m. payload (err 400 ''Invalid Pool ID format.'') = P_error m \<and> m \<noteq> [] \<and>
      form_outcome ''ok'' ''failed'' (Got (err 400 ''Invalid Pool ID format.'')) =
        (\<lparr>message = m, toast_type = T_error\<rparr>, False))"
proof -
  have h: "handle 0 (Req_summary ''x'') None = (err 400 ''Invalid Pool ID format.'', None)"
    by (simp add: getPoolSummary_def objectid_of_string_def)
  have n: "\<not> response_ok (err 400 ''Invalid Pool ID format.'')"
    by (simp add: response_ok_def err_def)
  show ?thesis using h n form_toast_api_error [OF h n, of "''ok''" "''failed''"] by blast
qed

text \<open>C23: on an error response of the API, \<open>useFetch\<close> of App.jsx discards the
  server's message and stores \<open>HTTP error! status: N\<close>, while the standalone hook
  of hooks/useFetch.jsx stores the server's message.\<close>

theorem fetch_error_messages:
  assumes "\<not> response_ok r" and "payload r = P_error m" and "m \<noteq> []"
  shows "error (fetchData (Got r) s) = Some (''HTTP error! status: '' @ decimal (status r)) \<and>
         error (fetchData_hook (Got r) s) = Some m"
  using assms by (simp add: fetchData_def fetch_finish_def fetch_start_def fetchData_hook_def
      response_json_def str_or_def Let_def)

theorem fetch_error_messages_witness:
  "\<not> response_ok (err 404 ''Pool not found.'') \<and>
   payload (err 404 ''Pool not found.'') = P_error ''Pool not found.'' \<and>
   error (fetchData (Got (err 404 ''Pool not found.'')) fetch_init) = Some ''HTTP error! status: 404'' \<and>
   error (fetchData_hook (Got (err 404 ''Pool not found.'')) fetch_init) = Some ''Pool not found.''"
  using fetch_error_messages [of "err 404 ''Pool not found.''" "''Pool not found.''" fetch_init]
  by (simp add: response_ok_def err_def decimal.simps)

text \<open>C8: a settled \<open>fetchData\<close> of \<open>useFetch\<close> always clears \<open>loading\<close>; it clears
  \<open>error\<close> exactly when the response is a 2xx JSON body with \<open>success\<close>, and then
  stores that body as \<open>data\<close>; on every failure the previous \<open>data\<close> is kept.\<close>

theorem fetchData_settles:
  "\<not> loading (fetchData res s) \<and>
   (error (fetchData res s) = None \<longleftrightarrow>
      (\<exists>r p. res = Got r \<and> response_ok r \<and> response_json r = Some p \<and> success_of p)) \<and>
   data (fetchData res s) =
     (case res of Got r \<Rightarrow> (if response_ok r then (case response_json r of
                     Some p \<Rightarrow> (if success_of p then Some p else data s) | None \<Rightarrow> data s) else data s)
      | _ \<Rightarrow> data s)"
  by (auto simp: fetchData_def fetch_finish_def fetch_start_def Let_def
      split: fetch_result.split option.split)

text \<open>C24: for a summary computed by the API, the pie chart of \<open>PoolDetailView\<close> has the
  admin share, the sum of the investments and the clamped unfunded rest as its slices,
  and the slices add up to the larger of the total investment and the goal.\<close>

theorem pieChartData_summary:
  "map snd (pieChartData (summarize pool ppl)) =
     [js_or (adminShare pool) 0, sum_list (map amount ppl),
      max 0 (totalAmount pool - (js_or (adminShare pool) 0 + sum_list (map amount ppl)))] \<and>
   sum_list (map snd (pieChartData (summarize pool ppl))) =
     max (js_or (adminShare pool) 0 + sum_list (map amount ppl)) (totalAmount pool)"
  by (simp add: pieChartData_def summarize_fields max_def)

text \<open>C26: the funding percentage of views/PoolDetail.jsx, which divides unguarded, agrees
  with the guarded one of App.jsx exactly when the goal is positive, or negative with
  nothing invested; at goal 0 it is \<open>Infinity\<close> or \<open>NaN\<close>.\<close>

theorem fundingPercentage_views_agree:
  "fundingPercentage_view s = Fin (fundingPercentage s) \<longleftrightarrow>
     0 < pd_totalAmount (poolDetails s) \<or>
     (pd_totalAmount (poolDetails s) < 0 \<and> totalInvestment (investmentStatus s) = 0)"
  by (auto simp: fundingPercentage_view_def fundingPercentage_def js_div_def)

end
