(* ===== verification/Views.thy ===== *)
theory Views
  imports Client
begin

text \<open>
  What the dashboard renders: the presentational components of App.jsx (Spinner, Toast,
  Modal, StatCard, FundingProgressBar, InvestmentPieChart), of components/ (Spinner,
  ErrorMessage, InfoCard, InvestmentPieChart), the pool list of App.jsx and of
  views/PoolsList.jsx, and the detail views of App.jsx and views/PoolDetail.jsx, each as
  a function from the state of its \<open>useFetch\<close> to the elements on screen. Markup and
  styling are abstracted to the content a user sees (texts, amounts, dates, buttons,
  slices and their colours). A render either yields elements or throws
  (\<open>Render_error\<close>): evaluating an undefined component, destructuring an absent
  summary, or handing React an object as a child (\<open>react_child_ok\<close>), which happens for
  names the API stores without a type check.
\<close>

datatype 'a rendered = Rendered 'a | Render_error string

fun is_render_error :: "'a rendered \<Rightarrow> bool" where
  "is_render_error (Render_error _) = True"
| "is_render_error (Rendered _) = False"

text \<open>JavaScript truthiness of the \<open>error\<close> state.\<close>

fun str_truthy :: "string option \<Rightarrow> bool" where
  "str_truthy None = False"
| "str_truthy (Some m) = (m \<noteq> [])"

definition reference_error_ErrorMessage :: string where
  "reference_error_ErrorMessage = ''ReferenceError: ErrorMessage is not defined''"

definition invalid_child_error :: string where
  "invalid_child_error = ''Objects are not valid as a React child''"

definition summary_type_error :: string where
  "summary_type_error = ''TypeError: Cannot destructure property of undefined''"

text \<open>A JSON value rendered as a React child: \<open>null\<close> and booleans render nothing,
  numbers and strings their text, arrays their elements; a plain object throws.\<close>

fun react_child_ok :: "json \<Rightarrow> bool" and react_children_ok :: "json list \<Rightarrow> bool" where
  "react_child_ok (JObj _) = False"
| "react_child_ok (JArr xs) = react_children_ok xs"
| "react_child_ok _ = True"
| "react_children_ok [] = True"
| "react_children_ok (x # xs) = (react_child_ok x \<and> react_children_ok xs)"

text \<open>The content of a table cell or a card: a JSON value of a document, an amount
  formatted as currency, a date, a percentage, a count, a fixed text, or a button that
  acts on an id.\<close>

datatype cell =
    C_json json
  | C_money rat
  | C_date timestamp
  | C_percent rat
  | C_number jsnum
  | C_count nat
  | C_text string
  | C_action string oid

fun cell_ok :: "cell \<Rightarrow> bool" where
  "cell_ok (C_json j) = react_child_ok j"
| "cell_ok _ = True"

definition rows_ok :: "cell list list \<Rightarrow> bool" where
  "rows_ok rows \<longleftrightarrow> list_all (list_all cell_ok) rows"

datatype element =
    E_spinner
  | E_error_message string bool
  | E_toast string string
  | E_title cell
  | E_date timestamp
  | E_progress jsnum
  | E_heading string nat
  | E_table "cell list list"
  | E_pie "(string \<times> rat \<times> string) list"
  | E_card string cell "cell option" string
  | E_modal string string "element list"

subsection \<open>Presentational components\<close>

text \<open>\<open>Spinner\<close> (App.jsx line 13, components/Spinner.jsx).\<close>

definition spinner :: element where
  "spinner = E_spinner"

text \<open>\<open>ErrorMessage\<close> (components/ErrorMessage.jsx): the message and, when \<open>onRetry\<close>
  is given, a retry button.\<close>

definition error_message :: "string \<Rightarrow> bool \<Rightarrow> element" where
  "error_message msg has_retry = E_error_message msg has_retry"

text \<open>\<open>Toast\<close> (App.jsx lines 15--30): the message on a green or red background.\<close>

definition toast_view :: "toast \<Rightarrow> element" where
  "toast_view t =
     E_toast (message t) (if toast_type t = T_success then ''bg-green-600'' else ''bg-red-600'')"

text \<open>\<open>Modal\<close> (App.jsx lines 33--55): nothing when closed; the size class looked up in
  \<open>sizeClasses\<close>, \<open>undefined\<close> for a size it lacks.\<close>

definition size_class :: "string \<Rightarrow> string" where
  "size_class sz =
     (case map_of [(''lg'', ''max-w-lg''), (''xl'', ''max-w-xl''), (''2xl'', ''max-w-2xl''),
                   (''4xl'', ''max-w-4xl''), (''6xl'', ''max-w-6xl'')] sz of
        Some c \<Rightarrow> c | None \<Rightarrow> ''undefined'')"

definition modal :: "bool \<Rightarrow> string \<Rightarrow> string \<Rightarrow> element list \<Rightarrow> element option" where
  "modal isOpen title sz children =
     (if \<not> isOpen then None else Some (E_modal title (size_class sz) children))"

text \<open>\<open>StatCard\<close> (App.jsx lines 57--71) and \<open>InfoCard\<close> (components/InfoCard.jsx).\<close>

definition stat_card :: "string \<Rightarrow> cell \<Rightarrow> cell option \<Rightarrow> string \<Rightarrow> element" where
  "stat_card title value subValue color = E_card title value subValue (''bg-'' @ color @ ''-100'')"

definition info_card :: "string \<Rightarrow> cell \<Rightarrow> cell option \<Rightarrow> string \<Rightarrow> element" where
  "info_card title value subValue className =
     E_card title value subValue (''bg-white p-5 rounded-lg border border-gray-200 '' @ className)"

text \<open>\<open>FundingProgressBar\<close> (App.jsx lines 73--83): the bar's width is the percentage,
  unclamped.\<close>

definition progress_bar :: "jsnum \<Rightarrow> element" where
  "progress_bar percentage = E_progress percentage"

text \<open>\<open>InvestmentPieChart\<close> (App.jsx lines 85--100, components/InvestmentPieChart.jsx):
  slice \<open>index\<close> gets \<open>COLORS[index % COLORS.length]\<close>.\<close>

definition pie_cells :: "string list \<Rightarrow> (string \<times> rat) list \<Rightarrow> (string \<times> rat \<times> string) list" where
  "pie_cells colors slices =
     map (\<lambda>(i, (nm, v)). (nm, v, colors ! (i mod length colors))) (zip [0..<length slices] slices)"

definition app_colors :: "string list" where
  "app_colors = [''#4338CA'', ''#16A34A'', ''#D1D5DB'']"

definition investment_pie_chart :: "(string \<times> rat) list \<Rightarrow> element" where
  "investment_pie_chart slices = E_pie (pie_cells app_colors slices)"

definition view_colors :: "string list" where
  "view_colors = [''#4F46E5'', ''#10B981'']"

definition investment_pie_chart_view :: "(string \<times> rat) list \<Rightarrow> element" where
  "investment_pie_chart_view slices = E_pie (pie_cells view_colors slices)"

subsection \<open>Forms\<close>

text \<open>\<open>FormInput\<close> (App.jsx lines 149--154) as the forms use it: a name, a type and the
  \<open>required\<close> attribute. The browser submits a form only when no required input is
  empty (constraint validation); the value of a number input is kept empty or a number.\<close>

datatype input_kind = Text_input | Number_input_kind

record form_input =
  input_name :: string
  input_kind :: input_kind
  input_required :: bool

datatype input_value = V_text string | V_number number_input

fun value_missing :: "input_value \<Rightarrow> bool" where
  "value_missing (V_text s) = (s = [])"
| "value_missing (V_number v) = (v = None)"

definition constraint_valid :: "form_input list \<Rightarrow> (string \<Rightarrow> input_value) \<Rightarrow> bool" where
  "constraint_valid inputs vals \<longleftrightarrow>
     list_all (\<lambda>i. \<not> (input_required i \<and> value_missing (vals (input_name i)))) inputs"

text \<open>The inputs of \<open>CreatePoolForm\<close> (lines 179--181), \<open>AddPersonForm\<close> (lines
  204--205) and \<open>AddAdminSharesForm\<close> (line 231).\<close>

definition create_pool_inputs :: "form_input list" where
  "create_pool_inputs =
     [\<lparr>input_name = ''name'', input_kind = Text_input, input_required = True\<rparr>,
      \<lparr>input_name = ''totalAmount'', input_kind = Number_input_kind, input_required = True\<rparr>,
      \<lparr>input_name = ''adminShare'', input_kind = Number_input_kind, input_required = False\<rparr>]"

definition add_person_inputs :: "form_input list" where
  "add_person_inputs =
     [\<lparr>input_name = ''personName'', input_kind = Text_input, input_required = True\<rparr>,
      \<lparr>input_name = ''amount'', input_kind = Number_input_kind, input_required = True\<rparr>]"

definition add_shares_inputs :: "form_input list" where
  "add_shares_inputs =
     [\<lparr>input_name = ''extraAmount'', input_kind = Number_input_kind, input_required = True\<rparr>]"

subsection \<open>The pool lists\<close>

text \<open>A row of the table of pools: name, goal, creation date and the button that opens
  the pool (App.jsx lines 386--391, views/PoolsList.jsx lines 29--37).\<close>

definition pool_row :: "string \<Rightarrow> pool_doc \<Rightarrow> cell list" where
  "pool_row label p = [C_json (name p), C_money (totalAmount p), C_date (createdAt p), C_action label (pool_id p)]"

text \<open>The main panel of \<open>App\<close> (lines 378--401).\<close>

definition render_pool_list :: "fetch_state \<Rightarrow> element list rendered" where
  "render_pool_list f =
     (if str_truthy (error f) then Render_error reference_error_ErrorMessage
      else if loading f then Rendered [spinner]
      else
        (let rows = map (pool_row ''Details'') (pools_of (data f)) in
         if \<not> rows_ok rows then Render_error invalid_child_error
         else if rows = [] then Rendered [E_table [[C_text ''No pools found. Click 'Create New Pool' to get started.'']]]
         else Rendered [E_table rows]))"

text \<open>\<open>PoolsList\<close> (views/PoolsList.jsx lines 9--46).\<close>

definition render_pools_view :: "fetch_state \<Rightarrow> element list rendered" where
  "render_pools_view f =
     (if loading f then Rendered [spinner]
      else if str_truthy (error f) then Rendered [error_message (the (error f)) True]
      else
        (let rows = map (pool_row ''View Details'') (pools_of (data f)) in
         if \<not> rows_ok rows then Render_error invalid_child_error
         else if rows = [] then Rendered [E_table [[C_text ''No pools found.'']]]
         else Rendered [E_table rows]))"

subsection \<open>The detail views\<close>

definition admin_row :: "pool_summary \<Rightarrow> cell list" where
  "admin_row s =
     [C_text ''Admin'', C_money (ac_amount (adminContribution s)),
      C_percent (ac_sharePercentage (adminContribution s))]"

definition investor_row :: "person_share \<Rightarrow> cell list" where
  "investor_row i = [C_json (personName i), C_money (amount i), C_percent (sharePercentage i)]"

text \<open>\<open>PoolDetailView\<close> of App.jsx past its state hooks (lines 245--343).\<close>

definition render_pool_detail :: "fetch_state \<Rightarrow> element list rendered" where
  "render_pool_detail f =
     (if loading f then Rendered [spinner]
      else if str_truthy (error f) then Render_error reference_error_ErrorMessage
      else case data f of
        None \<Rightarrow> Rendered []
      | Some (P_summary s) \<Rightarrow>
          (let rows = admin_row s #
                 (if investors s \<noteq> [] then map investor_row (investors s)
                  else [[C_text ''No other investors yet.'']])
           in if \<not> rows_ok ([C_json (pd_name (poolDetails s))] # rows) then Render_error invalid_child_error
              else Rendered
                [E_title (C_json (pd_name (poolDetails s))), E_date (pd_createdAt (poolDetails s)),
                 progress_bar (Fin (fundingPercentage s)),
                 E_heading ''All Participants'' (length (investors s) + 1), E_table rows,
                 investment_pie_chart (pieChartData s),
                 stat_card ''Funding Goal'' (C_money (pd_totalAmount (poolDetails s))) None ''blue'',
                 stat_card ''Admin Contribution'' (C_money (ac_amount (adminContribution s)))
                   (Some (C_percent (ac_sharePercentage (adminContribution s)))) ''purple'',
                 stat_card ''Total Investors'' (C_count (length (investors s))) None ''green''])
      | Some _ \<Rightarrow> Render_error summary_type_error)"

text \<open>\<open>PoolDetail\<close> of views/PoolDetail.jsx (lines 13--72).\<close>

definition render_pool_detail_view :: "fetch_state \<Rightarrow> element list rendered" where
  "render_pool_detail_view f =
     (if loading f then Rendered [spinner]
      else if str_truthy (error f) then Rendered [error_message (the (error f)) True]
      else case data f of
        None \<Rightarrow> Rendered []
      | Some (P_summary s) \<Rightarrow>
          (let rows = admin_row s # map investor_row (investors s)
           in if \<not> rows_ok ([C_json (pd_name (poolDetails s))] # rows) then Render_error invalid_child_error
              else Rendered
                [E_title (C_json (pd_name (poolDetails s))), E_date (pd_createdAt (poolDetails s)),
                 E_progress (fundingPercentage_view s),
                 info_card ''Total Raised'' (C_money (totalInvestment (investmentStatus s)))
                   (Some (C_number (fundingPercentage_view s))) [],
                 info_card ''Funding Goal'' (C_money (pd_totalAmount (poolDetails s))) None [],
                 info_card ''Amount Remaining'' (C_money (remainingAmount (investmentStatus s))) None
                   (if isFunded (investmentStatus s) then ''bg-green-50'' else ''bg-orange-50''),
                 investment_pie_chart_view (pieChartData_view s),
                 E_heading ''Participants'' (investorCount s + 1), E_table rows])
      | Some _ \<Rightarrow> Render_error summary_type_error)"

text \<open>A pool and an investment used by the examples below.\<close>

definition views_demo_pool :: pool_doc where
  "views_demo_pool = \<lparr>pool_id = gen_oid 0, name = JStr ''Alpha'', totalAmount = 1000, adminShare = 0, createdAt = 1\<rparr>"

definition views_demo_person :: person_doc where
  "views_demo_person = \<lparr>person_id = gen_oid 1, poolId = gen_oid 0, personName = JStr ''Bob'', amount = 250,
                        person_createdAt = 2\<rparr>"

subsection \<open>Lemmas\<close>

lemma rows_ok_map_pool_row:
  "rows_ok (map (pool_row l) ps) \<longleftrightarrow> list_all (\<lambda>p. react_child_ok (name p)) ps"
  by (induction ps) (simp_all add: rows_ok_def pool_row_def)

lemma fetch_finish_ok_data:
  "response_ok r \<Longrightarrow> response_json r = Some p \<Longrightarrow> success_of p \<Longrightarrow>
   fetch_finish (Got r) f = f\<lparr>data := Some p, loading := False\<rparr>"
  by (simp add: fetch_finish_def Let_def)

lemma createPool_created_name:
  assumes "createPool now body (Some st) = (r, Some st')" and "status r = 201"
  shows "\<exists>p \<in> set (pools st'). name p = the (body_field body ''name'')"
  using assms
  by (auto simp: createPool_def Let_def err_def internal_error_def
      split: if_splits prod.splits option.splits dest!: insertOne_pool_cases)

lemma summarize_poolDetails:
  "poolDetails (summarize pool ppl) =
     \<lparr>pd_id = pool_id pool, pd_name = name pool, pd_totalAmount = totalAmount pool, pd_createdAt = createdAt pool\<rparr>"
  by (simp add: summarize_def Let_def)

lemma rows_ok_Nil [simp]: "rows_ok []"
  by (simp add: rows_ok_def)

lemma rows_ok_Cons [simp]: "rows_ok (r # rows) \<longleftrightarrow> list_all cell_ok r \<and> rows_ok rows"
  by (simp add: rows_ok_def)

lemma rows_ok_investors:
  "rows_ok (map (investor_row \<circ> (\<lambda>p. with_share p (v p))) ppl) \<longleftrightarrow>
   list_all (\<lambda>p. react_child_ok (personName p)) ppl"
  by (induction ppl) (simp_all add: rows_ok_def investor_row_def)

lemma pie_cells_data: "map (\<lambda>(n, v, c). (n, v)) (pie_cells colors slices) = slices"
proof -
  have "map (\<lambda>(n, v, c). (n, v)) (pie_cells colors slices) =
      map (\<lambda>(nm, v). (nm, v)) (map snd (zip [0..<length slices] slices))"
    by (simp add: pie_cells_def comp_def case_prod_beta)
  then show ?thesis by simp
qed

text \<open>C10: a pool name the API accepts without a type check breaks every dashboard: after a
  create request whose \<open>name\<close> is a JSON object is answered 201, the next list the
  dashboard fetches makes its render throw (React refuses an object as a child).\<close>

theorem object_name_breaks_list:
  assumes "createPool now body (Some st) = (r, Some st')" and "status r = 201"
    and "body_field body ''name'' = Some (JObj kvs)"
  shows "render_pool_list (fetchData (Got (fst (listPools (Some st')))) f) = Render_error invalid_child_error"
proof -
  obtain p where p: "p \<in> set (pools st')" "name p = JObj kvs"
    using createPool_created_name [OF assms(1,2)] assms(3) by auto
  have "fetchData (Got (fst (listPools (Some st')))) f =
      f\<lparr>data := Some (P_pools (find_all_pools_sorted st')), loading := False, error := None\<rparr>"
    by (simp add: listPools_def fetchData_def fetch_start_def fetch_finish_ok_data response_ok_def
        response_json_def)
  moreover have "\<not> list_all (\<lambda>p. react_child_ok (name p)) (find_all_pools_sorted st')"
    using p by (auto simp: list_all_iff find_all_pools_sorted_def intro!: bexI [of _ p])
  ultimately show ?thesis
    by (simp add: render_pool_list_def rows_ok_map_pool_row)
qed

theorem object_name_breaks_list_witness:
  "createPool 1 (JObj [(''name'', JObj []), (''totalAmount'', JNum 1000)]) (Some empty_store) =
     (fst (createPool 1 (JObj [(''name'', JObj []), (''totalAmount'', JNum 1000)]) (Some empty_store)),
      Some (the (snd (createPool 1 (JObj [(''name'', JObj []), (''totalAmount'', JNum 1000)]) (Some empty_store))))) \<and>
   status (fst (createPool 1 (JObj [(''name'', JObj []), (''totalAmount'', JNum 1000)]) (Some empty_store))) = 201 \<and>
   body_field (JObj [(''name'', JObj []), (''totalAmount'', JNum 1000)]) ''name'' = Some (JObj []) \<and>
   render_pool_list (fetchData (Got (fst (listPools (Some (the (snd (createPool 1
       (JObj [(''name'', JObj []), (''totalAmount'', JNum 1000)]) (Some empty_store))))))))
     fetch_init) = Render_error invalid_child_error"
proof -
  let ?b = "JObj [(''name'', JObj []), (''totalAmount'', JNum 1000)]"
  have c: "createPool 1 ?b (Some empty_store) =
     (fst (createPool 1 ?b (Some empty_store)), Some (the (snd (createPool 1 ?b (Some empty_store)))))"
    "status (fst (createPool 1 ?b (Some empty_store))) = 201"
    by (simp_all add: createPool_def insertOne_pool_def empty_store_def Let_def)
  have n: "body_field ?b ''name'' = Some (JObj [])" by simp
  show ?thesis using object_name_breaks_list [OF c n, of fetch_init] c n by blast
qed

text \<open>C18: for every summary the API computes with investments, both detail views list the
  admin first and then every investment of the pool in store order, each with its name,
  amount and share, under a heading that counts them all: App.jsx counts
  \<open>investors.length + 1\<close> and views/PoolDetail.jsx \<open>investorCount + 1\<close>, which agree.\<close>

theorem detail_views_participants:
  assumes "data f = Some (P_summary (summarize pool ppl))" and "\<not> loading f" and "\<not> str_truthy (error f)"
    and "ppl \<noteq> []" and "react_child_ok (name pool)" and "list_all (\<lambda>p. react_child_ok (personName p)) ppl"
  shows "\<exists>xs ys. render_pool_detail f = Rendered xs \<and> render_pool_detail_view f = Rendered ys \<and>
     E_heading ''All Participants'' (length ppl + 1) \<in> set xs \<and> E_heading ''Participants'' (length ppl + 1) \<in> set ys \<and>
     E_table (admin_row (summarize pool ppl) #
       map (\<lambda>p. investor_row (with_share p (calculatePercentage (amount p) (totalAmount pool)))) ppl)
       \<in> set xs \<inter> set ys"
  using assms
  by (simp add: render_pool_detail_def render_pool_detail_view_def Let_def summarize_poolDetails
      summarize_parts rows_ok_investors admin_row_def)

theorem detail_views_participants_witness:
  "data \<lparr>data = Some (P_summary (summarize views_demo_pool [views_demo_person])), loading = False, error = None\<rparr> =
     Some (P_summary (summarize views_demo_pool [views_demo_person])) \<and>
   \<not> loading \<lparr>data = Some (P_summary (summarize views_demo_pool [views_demo_person])), loading = False, error = None\<rparr> \<and>
   \<not> str_truthy (error \<lparr>data = Some (P_summary (summarize views_demo_pool [views_demo_person])), loading = False,
                            error = None\<rparr>) \<and>
   [views_demo_person] \<noteq> [] \<and> react_child_ok (name views_demo_pool) \<and>
   list_all (\<lambda>p. react_child_ok (personName p)) [views_demo_person] \<and>
   (\<exists>xs ys. render_pool_detail \<lparr>data = Some (P_summary (summarize views_demo_pool [views_demo_person])),
                                  loading = False, error = None\<rparr> = Rendered xs \<and>
      render_pool_detail_view \<lparr>data = Some (P_summary (summarize views_demo_pool [views_demo_person])),
                                 loading = False, error = None\<rparr> = Rendered ys \<and>
      E_heading ''All Participants'' 2 \<in> set xs \<and> E_heading ''Participants'' 2 \<in> set ys)"
proof -
  let ?f = "\<lparr>data = Some (P_summary (summarize views_demo_pool [views_demo_person])), loading = False, error = None\<rparr>"
  have h: "data ?f = Some (P_summary (summarize views_demo_pool [views_demo_person]))" "\<not> loading ?f"
    "\<not> str_truthy (error ?f)" "[views_demo_person] \<noteq> []" "react_child_ok (name views_demo_pool)"
    "list_all (\<lambda>p. react_child_ok (personName p)) [views_demo_person]"
    by (simp_all add: views_demo_pool_def views_demo_person_def)
  show ?thesis using detail_views_participants [OF h] h by (auto simp: numeral_2_eq_2)
qed

text \<open>C25: the funding bar of App.jsx is not clamped: for a positive goal its width stays
  within 100% exactly when the pool is not overfunded, and is non-negative exactly when
  the total investment is (negative amounts are accepted).\<close>

theorem fundingPercentage_bounds:
  assumes "0 < totalAmount pool"
  shows "(fundingPercentage (summarize pool ppl) \<le> 100 \<longleftrightarrow>
            sum_list (map amount ppl) + adminShare pool \<le> totalAmount pool) \<and>
         (0 \<le> fundingPercentage (summarize pool ppl) \<longleftrightarrow> 0 \<le> sum_list (map amount ppl) + adminShare pool)"
  using assms
  by (simp add: fundingPercentage_def summarize_poolDetails summarize_totals divide_le_eq zero_le_divide_iff
      mult.commute [of _ 100]) (intro conjI iffI; linarith)

theorem fundingPercentage_bounds_witness:
  "0 < totalAmount views_demo_pool \<and>
   (fundingPercentage (summarize views_demo_pool [views_demo_person]) \<le> 100) \<and>
   0 \<le> fundingPercentage (summarize views_demo_pool [views_demo_person])"
proof -
  have t: "0 < totalAmount views_demo_pool" by (simp add: views_demo_pool_def)
  show ?thesis using fundingPercentage_bounds [OF t, of "[views_demo_person]"] t
    by (simp add: views_demo_pool_def views_demo_person_def)
qed

text \<open>The pie chart of App.jsx gives its three slices (admin, investors, unfunded)
  three colours and the one of components/InvestmentPieChart.jsx its two slices two;
  both show the data they are given, and the two-colour chart would repeat the admin's
  colour on App's unfunded slice.\<close>

theorem pie_chart_colours:
  "map (\<lambda>(n, v, c). (n, v)) (pie_cells app_colors (pieChartData s)) = pieChartData s \<and>
   map (\<lambda>(n, v, c). (n, c)) (pie_cells app_colors (pieChartData s)) =
     [(''Admin'', ''#4338CA''), (''Investors'', ''#16A34A''), (''Unfunded'', ''#D1D5DB'')] \<and>
   map (\<lambda>(n, v, c). (n, c)) (pie_cells view_colors (pieChartData_view s)) =
     [(''Admin'', ''#4F46E5''), (''Investors'', ''#10B981'')] \<and>
   map (\<lambda>(n, v, c). c) (pie_cells view_colors (pieChartData s)) = [''#4F46E5'', ''#10B981'', ''#4F46E5'']"
  by (simp add: pie_cells_data pie_cells_def pieChartData_def pieChartData_view_def app_colors_def
      view_colors_def upt_rec)

end
