(* ===== verification/Server.thy ===== *)
theory Server
  imports Api
begin

text \<open>
  The server process: the module-level connection handle of src/backend/config/db.js
  (\<open>let db = null\<close>, set by \<open>connect\<close>, read by \<open>get\<close>) and the start-up of
  src/backend/index.js, which mounts the router under \<open>/api/pool\<close> and calls
  \<open>app.listen\<close> only from the callback of a successful \<open>connect\<close>. The process is a
  machine driven by events from its environment: the outcome of the connection attempt,
  an HTTP request, or an I/O failure of the store, which the handlers' \<open>catch\<close> turns
  into a 500 without a write. \<open>reachable\<close> collects the states of every run; the
  theorems show the handle is never \<open>null\<close> while requests are served and the API
  invariant holds in every reachable state.
\<close>

datatype connect_result = Connected store | Connect_error string

datatype phase = Starting | Listening | Connect_failed

record server =
  db :: db_handle
  phase :: phase

definition initial_server :: server where
  "initial_server = \<lparr>db = None, phase = Starting\<rparr>"

text \<open>\<open>connect(done)\<close> of db.js with the callback index.js passes: on success \<open>db\<close>
  is set and the server listens; on failure \<open>db\<close> stays \<open>null\<close> and nothing listens.\<close>

definition connect :: "connect_result \<Rightarrow> server \<Rightarrow> server" where
  "connect res s =
     (case res of
        Connected st \<Rightarrow> s\<lparr>db := Some st, phase := Listening\<rparr>
      | Connect_error e \<Rightarrow> s\<lparr>phase := Connect_failed\<rparr>)"

text \<open>\<open>get()\<close> of db.js.\<close>

definition get :: "server \<Rightarrow> db_handle" where
  "get s = db s"

text \<open>One request through the middleware and the router mounted at \<open>/api/pool\<close>.\<close>

definition serve :: "timestamp \<Rightarrow> http_method \<Rightarrow> string list \<Rightarrow> json \<Rightarrow> server \<Rightarrow> response \<times> server" where
  "serve now m path body s =
     (case route m path body of
        None \<Rightarrow> (\<lparr>status = 404, payload = P_no_route\<rparr>, s)
      | Some req \<Rightarrow> (case handle now req (get s) of (r, db') \<Rightarrow> (r, s\<lparr>db := db'\<rparr>)))"

datatype event =
    Boot connect_result
  | Request timestamp http_method "string list" json
  | Store_fault

fun step :: "event \<Rightarrow> server \<Rightarrow> response option \<times> server" where
  "step (Boot res) s = (if phase s = Starting then (None, connect res s) else (None, s))"
| "step (Request now m path body) s =
     (if phase s = Listening then (case serve now m path body s of (r, s') \<Rightarrow> (Some r, s'))
      else (None, s))"
| "step Store_fault s = (if phase s = Listening then (Some internal_error, s) else (None, s))"

text \<open>The database the server connects to holds what the API wrote: its contents satisfy
  the API invariant.\<close>

fun admissible :: "event \<Rightarrow> bool" where
  "admissible (Boot (Connected st)) = api_inv st"
| "admissible _ = True"

inductive reachable :: "server \<Rightarrow> bool" where
  init: "reachable initial_server"
| step: "reachable s \<Longrightarrow> admissible e \<Longrightarrow> step e s = (r, s') \<Longrightarrow> reachable s'"

fun run :: "event list \<Rightarrow> server \<Rightarrow> response list \<times> server" where
  "run [] s = ([], s)"
| "run (e # es) s =
     (case step e s of (r, s') \<Rightarrow> (case run es s' of (rs, s'') \<Rightarrow> (case r of None \<Rightarrow> rs | Some x \<Rightarrow> x # rs, s'')))"

subsection \<open>The server invariant\<close>

definition server_inv :: "server \<Rightarrow> bool" where
  "server_inv s \<longleftrightarrow>
     (case phase s of
        Listening \<Rightarrow> (\<exists>st. db s = Some st \<and> api_inv st)
      | _ \<Rightarrow> db s = None)"

lemma server_inv_initial: "server_inv initial_server"
  by (simp add: server_inv_def initial_server_def)

lemma serve_inv:
  assumes "server_inv s" and "phase s = Listening" and "serve now m path body s = (r, s')"
  shows "server_inv s'"
proof (cases "route m path body")
  case None
  with assms show ?thesis by (simp add: serve_def)
next
  case (Some req)
  from assms(1,2) obtain st where st: "db s = Some st" and inv: "api_inv st"
    by (auto simp: server_inv_def)
  obtain r' db' where h: "handle now req (Some st) = (r', db')" by fastforce
  from handle_api_inv [OF h inv] obtain st' where "db' = Some st'" and "api_inv st'" by blast
  with assms(2,3) Some st h show ?thesis
    by (auto simp: serve_def get_def server_inv_def)
qed

lemma step_inv:
  assumes "server_inv s" and "admissible e" and "step e s = (r, s')"
  shows "server_inv s'"
proof (cases e)
  case (Boot res)
  with assms show ?thesis
    by (cases res) (auto simp: connect_def server_inv_def split: if_splits)
next
  case (Request now m path body)
  with assms serve_inv [OF assms(1), of now m path body] show ?thesis
    by (auto split: if_splits prod.splits)
next
  case Store_fault
  with assms show ?thesis by (auto split: if_splits)
qed

lemma reachable_imp_server_inv: "reachable s \<Longrightarrow> server_inv s"
proof (induction rule: reachable.induct)
  case init
  show ?case by (rule server_inv_initial)
next
  case (step s e r s')
  then show ?case by (blast intro: step_inv)
qed

lemma reachable_listening_db:
  "reachable s \<Longrightarrow> phase s = Listening \<Longrightarrow> \<exists>st. get s = Some st \<and> api_inv st"
  by (drule reachable_imp_server_inv) (auto simp: server_inv_def get_def)

text \<open>C12: in every reachable state of the server in which it listens, the connection
  handle is set and the stored data satisfies the API invariant: unique allocated ids and
  non-zero goals.\<close>

theorem reachable_server_inv:
  assumes "reachable s" and "phase s = Listening"
  shows "\<exists>st. get s = Some st \<and> api_inv st"
  using assms by (rule reachable_listening_db)

lemma reachable_listening: "api_inv st \<Longrightarrow> reachable \<lparr>db = Some st, phase = Listening\<rparr>"
proof -
  assume inv: "api_inv st"
  have s: "step (Boot (Connected st)) initial_server = (None, \<lparr>db = Some st, phase = Listening\<rparr>)"
    by (simp add: initial_server_def connect_def)
  from inv have "admissible (Boot (Connected st))" by simp
  from reachable.step [OF reachable.init this s] show ?thesis .
qed

theorem reachable_server_inv_witness:
  "reachable \<lparr>db = Some empty_store, phase = Listening\<rparr> \<and>
   phase \<lparr>db = Some empty_store, phase = Listening\<rparr> = Listening \<and>
   (\<exists>st. get \<lparr>db = Some empty_store, phase = Listening\<rparr> = Some st \<and> api_inv st)"
proof -
  have r: "reachable \<lparr>db = Some empty_store, phase = Listening\<rparr>"
    by (rule reachable_listening) simp
  have l: "phase \<lparr>db = Some empty_store, phase = Listening\<rparr> = Listening" by simp
  show ?thesis using r l reachable_server_inv [OF r l] by blast
qed


lemma stored_pool_id:
  "api_inv st \<Longrightarrow> findOne_pool pid st = Some pool \<Longrightarrow> \<exists>n. pid = gen_oid n"
  by (auto simp: api_inv_def ids_allocated_def dest!: findOne_pool_in)

end
