(* ===== verification/Dashboard.thy ===== *)
theory Dashboard
  imports Views Server
begin

text \<open>
  The \<open>App\<close> component of App.jsx (lines 347--405) with its \<open>PoolDetailView\<close> child
  (lines 240--343), composed with the server of Server.thy. The state is what React
  holds: \<open>App\<close>'s four \<open>useState\<close> hooks, the list's \<open>useFetch\<close>, and, while a pool is
  viewed, the detail view's \<open>useFetch\<close> and its two modal flags. Every fetch in flight is
  counted; its settling is a separate event, so that interleavings of settles, clicks and
  other clients' requests are explicit. A GET is served when its response arrives; the
  summary fetches of the detail view are kept with the pool id of their URL, and settle
  in the order they were sent. A form's \<open>post\<close> is one step (request, server,
  response). A control can be used whenever the page renders it: a modal's overlay only
  stops pointer clicks, and the buttons behind it stay reachable from the keyboard, so
  no event is guarded by which modals are open. An \<open>input required\<close> must be
  filled for the form to submit. A render that throws (\<open>app_crashed\<close>) unmounts the
  page, after which no event has an effect.
\<close>

record detail_state =
  detail_fetch :: fetch_state
  detail_pending :: "oid list"
  isAddPersonModalOpen :: bool
  isAddSharesModalOpen :: bool

record app =
  viewingPoolId :: "oid option"
  isCreateModalOpen :: bool
  toast :: "toast option"
  dataVersion :: nat
  list_fetch :: fetch_state
  list_pending :: nat
  detail :: "detail_state option"

text \<open>The first render: the list's \<open>useFetch\<close> starts its fetch from its effect.\<close>

definition app_init :: app where
  "app_init = \<lparr>viewingPoolId = None, isCreateModalOpen = False, toast = None, dataVersion = 0,
               list_fetch = fetch_init, list_pending = 1, detail = None\<rparr>"

text \<open>\<open>PoolDetailView\<close> mounting for pool \<open>pid\<close>: its \<open>useFetch\<close> starts the
  summary fetch of \<open>pid\<close>.\<close>

definition detail_mount :: "oid \<Rightarrow> detail_state" where
  "detail_mount pid = \<lparr>detail_fetch = fetch_init, detail_pending = [pid],
                   isAddPersonModalOpen = False, isAddSharesModalOpen = False\<rparr>"

text \<open>\<open>handleDataUpdate\<close>: the version bump changes the list's URL, so its effect runs
  \<open>fetchData\<close> again.\<close>

definition handleDataUpdate :: "app \<Rightarrow> app" where
  "handleDataUpdate a =
     a\<lparr>dataVersion := Suc (dataVersion a), list_fetch := fetch_start (list_fetch a),
       list_pending := Suc (list_pending a)\<rparr>"

text \<open>\<open>fetchData\<close> of the detail view's \<open>useFetch\<close> for the URL of pool \<open>pid\<close>: its
  \<open>retry()\<close>, and the effect that runs again when the \<open>poolId\<close> prop changes.\<close>

definition detail_retry :: "oid \<Rightarrow> detail_state \<Rightarrow> detail_state" where
  "detail_retry pid d =
     d\<lparr>detail_fetch := fetch_start (detail_fetch d), detail_pending := detail_pending d @ [pid]\<rparr>"

text \<open>The page throws while rendering when the list or the mounted detail view does
  (Views.thy): through \<open>{error && <ErrorMessage .../>}\<close> (line 380) and \<open>if (error)
  return <ErrorMessage .../>\<close> (line 246), since App.jsx neither defines nor imports
  \<open>ErrorMessage\<close>, and through a stored name that React cannot render.\<close>

definition list_view_crashes :: "fetch_state \<Rightarrow> bool" where
  "list_view_crashes f \<longleftrightarrow> is_render_error (render_pool_list f)"

definition detail_view_crashes :: "fetch_state \<Rightarrow> bool" where
  "detail_view_crashes f \<longleftrightarrow> is_render_error (render_pool_detail f)"

definition app_crashed :: "app \<Rightarrow> bool" where
  "app_crashed a \<longleftrightarrow>
     list_view_crashes (list_fetch a) \<or>
     (case detail a of None \<Rightarrow> False | Some d \<Rightarrow> detail_view_crashes (detail_fetch d))"

text \<open>The table of pools is on screen (line 381), and the detail view shows its figures,
  buttons and modals (past the early returns of lines 245--247).\<close>

definition list_shown :: "app \<Rightarrow> bool" where
  "list_shown a \<longleftrightarrow> \<not> loading (list_fetch a) \<and> \<not> str_truthy (error (list_fetch a))"

definition detail_ready :: "detail_state \<Rightarrow> bool" where
  "detail_ready d \<longleftrightarrow>
     \<not> loading (detail_fetch d) \<and> \<not> str_truthy (error (detail_fetch d)) \<and> data (detail_fetch d) \<noteq> None"

text \<open>A request of the browser to \<open>API_BASE_URL\<close>: a \<open>Request\<close> event of the server, or
  a rejected \<open>fetch\<close> when nothing listens.\<close>

definition failed_to_fetch :: string where
  "failed_to_fetch = ''Failed to fetch''"

definition http :: "timestamp \<Rightarrow> http_method \<Rightarrow> string list \<Rightarrow> json \<Rightarrow> server \<Rightarrow> fetch_result \<times> server" where
  "http now m path body s =
     (case step (Request now m path body) s of
        (Some r, s') \<Rightarrow> (Got r, s')
      | (None, s') \<Rightarrow> (Net_error failed_to_fetch, s'))"

text \<open>The end of a form in the detail view: \<open>onComplete\<close> closes the modal, refetches
  the summary and bumps the version.\<close>

definition detail_form_done ::
  "toast \<times> bool \<Rightarrow> (detail_state \<Rightarrow> detail_state) \<Rightarrow> oid \<Rightarrow> detail_state \<Rightarrow> app \<Rightarrow> app" where
  "detail_form_done outcome close pid d a =
     (case outcome of (tt, ok) \<Rightarrow>
        if ok then handleDataUpdate (a\<lparr>toast := Some tt, detail := Some (detail_retry pid (close d))\<rparr>)
        else a\<lparr>toast := Some tt\<rparr>)"

datatype ui_event =
    Click_create_pool
  | Close_create_modal
  | Submit_create_pool string number_input number_input
  | Click_details oid
  | Close_details
  | Click_add_investor
  | Close_add_person_modal
  | Submit_add_person string number_input
  | Click_add_admin_shares
  | Close_add_shares_modal
  | Submit_add_shares number_input
  | Toast_timeout
  | List_fetch_settles
  | Detail_fetch_settles

text \<open>One user action or settled fetch, on the server and the page.\<close>

fun ui_step :: "timestamp \<Rightarrow> ui_event \<Rightarrow> server \<Rightarrow> app \<Rightarrow> server \<times> app" where
  "ui_step now Click_create_pool s a = (s, a\<lparr>isCreateModalOpen := True\<rparr>)"
| "ui_step now Close_create_modal s a = (s, a\<lparr>isCreateModalOpen := False\<rparr>)"
| "ui_step now (Submit_create_pool nm t adm) s a =
     (if isCreateModalOpen a \<and>
         constraint_valid create_pool_inputs
           (\<lambda>k. if k = ''name'' then V_text nm else if k = ''totalAmount'' then V_number t else V_number adm)
      then
        (case http now POST [''create''] (createPool_body nm t adm) s of
           (res, s') \<Rightarrow>
             (case form_outcome ''Pool created successfully!'' ''Failed to create pool.'' res of
                (tt, ok) \<Rightarrow>
                  (s', if ok then handleDataUpdate (a\<lparr>toast := Some tt, isCreateModalOpen := False\<rparr>)
                       else a\<lparr>toast := Some tt\<rparr>)))
      else (s, a))"
| "ui_step now (Click_details pid) s a =
     (s, if list_shown a \<and> pid \<in> set (map pool_id (pools_of (data (list_fetch a)))) \<and>
            viewingPoolId a \<noteq> Some pid
         then a\<lparr>viewingPoolId := Some pid,
                 detail := Some (case detail a of None \<Rightarrow> detail_mount pid | Some d \<Rightarrow> detail_retry pid d)\<rparr>
         else a)"
| "ui_step now Close_details s a = (s, a\<lparr>viewingPoolId := None, detail := None\<rparr>)"
| "ui_step now Click_add_investor s a =
     (s, case detail a of
           None \<Rightarrow> a
         | Some d \<Rightarrow> if detail_ready d then a\<lparr>detail := Some (d\<lparr>isAddPersonModalOpen := True\<rparr>)\<rparr> else a)"
| "ui_step now Close_add_person_modal s a =
     (s, case detail a of
           None \<Rightarrow> a
         | Some d \<Rightarrow> a\<lparr>detail := Some (d\<lparr>isAddPersonModalOpen := False\<rparr>)\<rparr>)"
| "ui_step now (Submit_add_person nm amt) s a =
     (case (viewingPoolId a, detail a) of
        (Some pid, Some d) \<Rightarrow>
          (if detail_ready d \<and> isAddPersonModalOpen d \<and>
              constraint_valid add_person_inputs (\<lambda>k. if k = ''personName'' then V_text nm else V_number amt)
           then
             (case http now POST [''add-person''] (addPerson_body pid nm amt) s of
                (res, s') \<Rightarrow>
                  (s', detail_form_done
                         (form_outcome ''Investor added successfully!'' ''Failed to add investor.'' res)
                         (\<lambda>d. d\<lparr>isAddPersonModalOpen := False\<rparr>) pid d a))
           else (s, a))
      | _ \<Rightarrow> (s, a))"
| "ui_step now Click_add_admin_shares s a =
     (s, case detail a of
           None \<Rightarrow> a
         | Some d \<Rightarrow> if detail_ready d then a\<lparr>detail := Some (d\<lparr>isAddSharesModalOpen := True\<rparr>)\<rparr> else a)"
| "ui_step now Close_add_shares_modal s a =
     (s, case detail a of
           None \<Rightarrow> a
         | Some d \<Rightarrow> a\<lparr>detail := Some (d\<lparr>isAddSharesModalOpen := False\<rparr>)\<rparr>)"
| "ui_step now (Submit_add_shares v) s a =
     (case (viewingPoolId a, detail a) of
        (Some pid, Some d) \<Rightarrow>
          (if detail_ready d \<and> isAddSharesModalOpen d \<and> constraint_valid add_shares_inputs (\<lambda>k. V_number v)
           then
             (case addShares_request pid v of
                Inl tt \<Rightarrow> (s, a\<lparr>toast := Some tt\<rparr>)
              | Inr body \<Rightarrow>
                  (case http now POST [''admin'', ''add-shares''] body s of
                     (res, s') \<Rightarrow>
                       (s', detail_form_done
                              (form_outcome ''Admin shares added successfully!'' ''Failed to add shares.'' res)
                              (\<lambda>d. d\<lparr>isAddSharesModalOpen := False\<rparr>) pid d a)))
           else (s, a))
      | _ \<Rightarrow> (s, a))"
| "ui_step now Toast_timeout s a = (s, a\<lparr>toast := None\<rparr>)"
| "ui_step now List_fetch_settles s a =
     (if 0 < list_pending a then
        (case http now GET [] (JObj []) s of
           (res, s') \<Rightarrow>
             (s', a\<lparr>list_fetch := fetch_finish res (list_fetch a), list_pending := list_pending a - 1\<rparr>))
      else (s, a))"
| "ui_step now Detail_fetch_settles s a =
     (case detail a of
        Some d \<Rightarrow>
          (case detail_pending d of
             q # qs \<Rightarrow>
               (case http now GET [q, ''summary''] (JObj []) s of
                  (res, s') \<Rightarrow>
                    (s', a\<lparr>detail := Some (d\<lparr>detail_fetch := fetch_finish res (detail_fetch d),
                                            detail_pending := qs\<rparr>)\<rparr>))
           | [] \<Rightarrow> (s, a))
      | None \<Rightarrow> (s, a))"

text \<open>The whole system: the page (once crashed, inert) and the server, which also
  serves other clients and may lose its store connection.\<close>

datatype sys_event = UI timestamp ui_event | Srv event

fun sys_step :: "sys_event \<Rightarrow> server \<times> app \<Rightarrow> server \<times> app" where
  "sys_step (UI now e) (s, a) = (if app_crashed a then (s, a) else ui_step now e s a)"
| "sys_step (Srv e) (s, a) = (snd (step e s), a)"

inductive sys_reachable :: "server \<times> app \<Rightarrow> bool" where
  sys_init: "sys_reachable (initial_server, app_init)"
| sys_ui: "sys_reachable sa \<Longrightarrow> sys_reachable (sys_step (UI now e) sa)"
| sys_srv: "sys_reachable sa \<Longrightarrow> admissible e \<Longrightarrow> sys_reachable (sys_step (Srv e) sa)"

fun sys_run :: "sys_event list \<Rightarrow> server \<times> app \<Rightarrow> server \<times> app" where
  "sys_run [] sa = sa"
| "sys_run (e # es) sa = sys_run es (sys_step e sa)"

definition fetch_inv :: "fetch_state \<Rightarrow> nat \<Rightarrow> bool" where
  "fetch_inv f n \<longleftrightarrow> (loading f \<longrightarrow> 0 < n) \<and> (error f \<noteq> None \<longrightarrow> \<not> loading f)"

definition app_inv :: "app \<Rightarrow> bool" where
  "app_inv a \<longleftrightarrow>
     (viewingPoolId a = None \<longleftrightarrow> detail a = None) \<and>
     fetch_inv (list_fetch a) (list_pending a) \<and>
     (case detail a of None \<Rightarrow> True | Some d \<Rightarrow> fetch_inv (detail_fetch d) (length (detail_pending d)))"

definition sys_inv :: "server \<times> app \<Rightarrow> bool" where
  "sys_inv sa \<longleftrightarrow> server_inv (fst sa) \<and> app_inv (snd sa)"

definition demo_page :: "server \<times> app" where
  "demo_page = sys_run [Srv (Boot (Connected empty_store)), UI 0 List_fetch_settles, UI 0 Click_create_pool]
                 (initial_server, app_init)"

text \<open>A page viewing pool Alpha, whose summary fetch is still in flight, over a list that
  also shows pool Beta.\<close>

definition switch_demo_store :: store where
  "switch_demo_store = empty_store\<lparr>oid_counter := 2,
     pools := [\<lparr>pool_id = gen_oid 0, name = JStr ''Alpha'', totalAmount = 1000, adminShare = 0, createdAt = 1\<rparr>,
               \<lparr>pool_id = gen_oid 1, name = JStr ''Beta'', totalAmount = 500, adminShare = 0, createdAt = 2\<rparr>]\<rparr>"

definition switch_demo :: "server \<times> app" where
  "switch_demo = sys_run [Srv (Boot (Connected switch_demo_store)), UI 0 List_fetch_settles,
     UI 0 (Click_details (gen_oid 0))] (initial_server, app_init)"

subsection \<open>Invariants of the page and the server\<close>

lemma http_server_inv:
  "server_inv s \<Longrightarrow> http now m p b s = (r, s') \<Longrightarrow> server_inv s'"
  using step_inv [of s "Request now m p b"]
  by (auto simp: http_def split: prod.splits option.splits)

lemma ui_step_server_inv: "server_inv s \<Longrightarrow> server_inv (fst (ui_step now e s a))"
  by (cases e) (auto split: prod.split option.split sum.split list.split elim: http_server_inv)

lemma fetch_inv_start [simp]: "fetch_inv (fetch_start f) (Suc n)"
  by (simp add: fetch_inv_def fetch_start_def)

lemma fetch_inv_finish [simp]: "fetch_inv (fetch_finish res f) n"
  by (simp add: fetch_inv_def fetch_finish_def Let_def split: fetch_result.split option.split sum.split)

lemma fetch_inv_init [simp]: "fetch_inv fetch_init (Suc 0)"
  by (simp add: fetch_inv_def fetch_init_def)

lemma fetch_inv_detail_retry [simp]:
  "fetch_inv (detail_fetch (detail_retry pid d)) (length (detail_pending (detail_retry pid d)))"
  by (simp add: detail_retry_def)

lemma app_inv_toast [simp]: "app_inv (a\<lparr>toast := t\<rparr>) = app_inv a"
  by (simp add: app_inv_def)

lemma detail_form_done_inv:
  "app_inv a \<Longrightarrow> detail a = Some d \<Longrightarrow> detail_fetch (close d) = detail_fetch d \<Longrightarrow>
   detail_pending (close d) = detail_pending d \<Longrightarrow> app_inv (detail_form_done out close pid d a)"
  by (auto simp: detail_form_done_def app_inv_def detail_retry_def handleDataUpdate_def split: prod.split)

lemma ui_step_app_inv: "app_inv a \<Longrightarrow> app_inv (snd (ui_step now e s a))"
proof (cases e)
  case (Submit_add_person nm amt)
  assume "app_inv a" then show ?thesis using Submit_add_person
    by (auto intro!: detail_form_done_inv split: prod.split option.split)
next
  case (Submit_add_shares v)
  assume "app_inv a" then show ?thesis using Submit_add_shares
    by (auto intro!: detail_form_done_inv split: prod.split option.split sum.split)
qed (auto simp: app_inv_def detail_mount_def handleDataUpdate_def split: prod.split option.split list.split)

lemma app_inv_init: "app_inv app_init"
  by (simp add: app_inv_def app_init_def)

lemma sys_step_ui_inv: "sys_inv sa \<Longrightarrow> sys_inv (sys_step (UI now e) sa)"
  using ui_step_server_inv ui_step_app_inv
  by (cases sa) (auto simp: sys_inv_def)

lemma sys_step_srv_inv: "sys_inv sa \<Longrightarrow> admissible e \<Longrightarrow> sys_inv (sys_step (Srv e) sa)"
  using step_inv [of "fst sa" e "fst (step e (fst sa))" "snd (step e (fst sa))"]
  by (cases sa) (simp add: sys_inv_def)

lemma sys_reachable_sys_inv: "sys_reachable sa \<Longrightarrow> sys_inv sa"
proof (induction rule: sys_reachable.induct)
  case sys_init
  show ?case by (simp add: sys_inv_def server_inv_initial app_inv_init)
qed (simp_all add: sys_step_ui_inv sys_step_srv_inv)

lemma http_listening:
  "phase s = Listening \<Longrightarrow>
   http now m p b s = (case serve now m p b s of (r, s') \<Rightarrow> (Got r, s'))"
  by (simp add: http_def split: prod.split)

lemma set_find_all_pools_sorted [simp]: "set (find_all_pools_sorted st) = set (pools st)"
  by (simp add: find_all_pools_sorted_def)

lemma app_init_running: "\<not> app_crashed app_init" "loading (list_fetch app_init)" "0 < list_pending app_init"
  unfolding app_crashed_def app_init_def by (simp_all add: list_view_crashes_def render_pool_list_def fetch_init_def)

lemma sys_reachable_run:
  "sys_reachable sa \<Longrightarrow> list_all (\<lambda>e. case e of Srv ev \<Rightarrow> admissible ev | UI _ _ \<Rightarrow> True) es \<Longrightarrow>
   sys_reachable (sys_run es sa)"
proof (induction es arbitrary: sa)
  case Nil then show ?case by simp
next
  case (Cons e es)
  from Cons.prems have "sys_reachable (sys_step e sa)"
    by (cases e) (auto intro: sys_reachable.intros)
  with Cons show ?case by simp
qed

lemma demo_page_eq:
  "demo_page = (\<lparr>db = Some empty_store, phase = Listening\<rparr>,
     app_init\<lparr>isCreateModalOpen := True, list_fetch := \<lparr>data = Some (P_pools []), loading = False, error = None\<rparr>,
              list_pending := 0\<rparr>)"
  by (simp add: demo_page_def initial_server_def connect_def app_init_def fetch_init_def app_crashed_def
      list_view_crashes_def render_pool_list_def http_def serve_def route_def get_def listPools_def find_all_pools_sorted_def
      empty_store_def fetch_finish_def response_ok_def response_json_def)

lemma demo_page_reachable: "sys_reachable demo_page"
  unfolding demo_page_def by (rule sys_reachable_run) (auto intro: sys_init)



lemma gen_oid_0_1: "gen_oid 0 \<noteq> gen_oid 1"
  using gen_oid_inj [of 0 1] by auto

lemma api_inv_switch_demo_store: "api_inv switch_demo_store"
  using gen_oid_hex [of 0] gen_oid_hex [of 1] gen_oid_0_1
  by (auto simp: api_inv_def store_inv_def ids_allocated_def switch_demo_store_def empty_store_def
      less_Suc_eq numeral_2_eq_2)

lemma switch_demo_sorted:
  "find_all_pools_sorted switch_demo_store = rev (pools switch_demo_store)"
  by (simp add: find_all_pools_sorted_def switch_demo_store_def empty_store_def)

lemma switch_demo_pools:
  "list_all (\<lambda>p. react_child_ok (name p)) (pools switch_demo_store)" "pools switch_demo_store \<noteq> []"
  "gen_oid 0 \<in> pool_id ` set (pools switch_demo_store)" "gen_oid (Suc 0) \<in> pool_id ` set (pools switch_demo_store)"
  by (simp_all add: switch_demo_store_def empty_store_def)

lemma switch_demo_eq:
  "switch_demo = (\<lparr>db = Some switch_demo_store, phase = Listening\<rparr>,
     app_init\<lparr>list_fetch := \<lparr>data = Some (P_pools (rev (pools switch_demo_store))), loading = False, error = None\<rparr>,
              list_pending := 0, viewingPoolId := Some (gen_oid 0), detail := Some (detail_mount (gen_oid 0))\<rparr>)"
  using api_inv_switch_demo_store
  by (simp add: switch_demo_def initial_server_def connect_def app_init_def fetch_init_def app_crashed_def
      list_view_crashes_def render_pool_list_def http_def serve_def route_def get_def listPools_def
      switch_demo_sorted fetch_finish_def response_ok_def response_json_def list_shown_def
      rows_ok_map_pool_row switch_demo_pools detail_mount_def Let_def)

lemma switch_demo_reachable: "sys_reachable switch_demo"
  unfolding switch_demo_def
  by (rule sys_reachable_run) (auto intro: sys_init simp: api_inv_switch_demo_store)

text \<open>C13: the detail view shows a summary of a pool other than the one viewed.
  \<open>useFetch\<close> neither aborts nor ignores a superseded request, and switching pools keeps
  the same \<open>PoolDetailView\<close> instance (only its \<open>poolId\<close> prop changes). While the
  summary of pool \<open>p\<close> is in flight, activating the Details button of another listed pool
  \<open>q\<close> (the overlay does not stop the keyboard) starts the fetch of \<open>q\<close>; when the
  fetch of \<open>p\<close> settles first, the view of \<open>q\<close> is ready and shows the summary of
  \<open>p\<close>, and its forms post with \<open>poolId\<close> \<open>q\<close>.\<close>

theorem detail_shows_stale_summary:
  assumes "sys_reachable (s, a)" and "\<not> app_crashed a" and "phase s = Listening" and "get s = Some st"
    and "viewingPoolId a = Some p" and "detail a = Some d" and "detail_pending d = [p]"
    and "list_shown a" and "q \<in> set (map pool_id (pools_of (data (list_fetch a))))" and "q \<noteq> p"
    and "findOne_pool p st = Some pool"
  shows "viewingPoolId (snd (sys_step (UI now' Detail_fetch_settles) (sys_step (UI now (Click_details q)) (s, a))))
           = Some q \<and>
         (\<exists>d'. detail (snd (sys_step (UI now' Detail_fetch_settles) (sys_step (UI now (Click_details q)) (s, a))))
                 = Some d' \<and>
            detail_ready d' \<and> detail_pending d' = [q] \<and>
            data (detail_fetch d') = Some (P_summary (summarize pool (find_people p st))))"
proof -
  from sys_reachable_sys_inv [OF assms(1)] have "server_inv s" by (simp add: sys_inv_def)
  with assms(3,4) have "api_inv st" by (auto simp: server_inv_def get_def)
  from stored_pool_id [OF this assms(11)] obtain n where p: "p = gen_oid n" by blast
  show ?thesis
    using assms(2-11) gen_oid_route_facts [of n]
    by (simp add: p http_listening serve_def route_def get_def getPoolSummary_gen_oid detail_retry_def
        fetch_start_def fetch_finish_def response_ok_def response_json_def detail_ready_def app_crashed_def
        list_view_crashes_def detail_view_crashes_def render_pool_detail_def)
qed

theorem detail_shows_stale_summary_witness:
  "sys_reachable (fst switch_demo, snd switch_demo) \<and> \<not> app_crashed (snd switch_demo) \<and>
   phase (fst switch_demo) = Listening \<and> get (fst switch_demo) = Some switch_demo_store \<and>
   viewingPoolId (snd switch_demo) = Some (gen_oid 0) \<and>
   detail (snd switch_demo) = Some (detail_mount (gen_oid 0)) \<and>
   detail_pending (detail_mount (gen_oid 0)) = [gen_oid 0] \<and>
   list_shown (snd switch_demo) \<and>
   gen_oid 1 \<in> set (map pool_id (pools_of (data (list_fetch (snd switch_demo))))) \<and> gen_oid 1 \<noteq> gen_oid 0 \<and>
   findOne_pool (gen_oid 0) switch_demo_store = Some (hd (pools switch_demo_store)) \<and>
   viewingPoolId (snd (sys_step (UI 2 Detail_fetch_settles)
     (sys_step (UI 1 (Click_details (gen_oid 1))) (fst switch_demo, snd switch_demo)))) = Some (gen_oid 1) \<and>
   (\<exists>d'. detail (snd (sys_step (UI 2 Detail_fetch_settles)
       (sys_step (UI 1 (Click_details (gen_oid 1))) (fst switch_demo, snd switch_demo)))) = Some d' \<and>
      detail_ready d' \<and> detail_pending d' = [gen_oid 1] \<and>
      data (detail_fetch d') =
        Some (P_summary (summarize (hd (pools switch_demo_store)) (find_people (gen_oid 0) switch_demo_store))))"
proof -
  have r: "sys_reachable (fst switch_demo, snd switch_demo)" using switch_demo_reachable by simp
  have h: "\<not> app_crashed (snd switch_demo)" "phase (fst switch_demo) = Listening"
    "get (fst switch_demo) = Some switch_demo_store" "viewingPoolId (snd switch_demo) = Some (gen_oid 0)"
    "detail (snd switch_demo) = Some (detail_mount (gen_oid 0))"
    "detail_pending (detail_mount (gen_oid 0)) = [gen_oid 0]" "list_shown (snd switch_demo)"
    "gen_oid 1 \<in> set (map pool_id (pools_of (data (list_fetch (snd switch_demo)))))"
    "gen_oid 1 \<noteq> gen_oid 0"
    using gen_oid_0_1
    by (simp_all add: switch_demo_eq app_crashed_def list_view_crashes_def detail_view_crashes_def
        render_pool_list_def render_pool_detail_def rows_ok_map_pool_row switch_demo_pools Let_def
        get_def detail_mount_def app_init_def list_shown_def fetch_init_def)
  have f: "findOne_pool (gen_oid 0) switch_demo_store = Some (hd (pools switch_demo_store))"
    by (simp add: findOne_pool_def switch_demo_store_def empty_store_def)
  show ?thesis
    using detail_shows_stale_summary [OF r h f, of 2 1] r h f by blast
qed

text \<open>C22: App.jsx uses \<open>ErrorMessage\<close> without importing it, so a failed fetch blanks
  the page: when the server does not listen, the list's fetch settles with an error and
  the next render throws; at the first load of a page whose backend has not started,
  the dashboard crashes.\<close>

theorem failed_fetch_crashes:
  assumes "\<not> app_crashed a" and "0 < list_pending a" and "phase s \<noteq> Listening"
  shows "app_crashed (snd (sys_step (UI now List_fetch_settles) (s, a)))"
  using assms
  by (cases "phase s") (auto simp: http_def fetch_finish_def failed_to_fetch_def app_crashed_def
      list_view_crashes_def render_pool_list_def)

theorem failed_fetch_crashes_witness:
  "\<not> app_crashed app_init \<and> 0 < list_pending app_init \<and> phase initial_server \<noteq> Listening \<and>
   app_crashed (snd (sys_step (UI 0 List_fetch_settles) (initial_server, app_init)))"
proof -
  have h: "\<not> app_crashed app_init" "0 < list_pending app_init" "phase initial_server \<noteq> Listening"
    using app_init_running by (simp_all add: initial_server_def)
  show ?thesis using failed_fetch_crashes [OF h, of 0] h by simp
qed

end
