(* ===== verification/Ledger.thy ===== *)
theory Ledger
  imports Server
begin

text \<open>
  The contract of the data model (spec sections 3 and 4.3) as an abstract ledger, and
  its refinement by the store and the API. A ledger maps pool ids to pools (name,
  goal, admin share, creation time) and holds, for every id, the multiset of
  investments that reference it (orphans included, as the spec allows). The abstract
  operations are the three writes of the API: create a pool under a fresh id, record an
  investment, and increment a pool's admin share (a no-op for an unknown id). The
  abstraction \<open>abs_store\<close> reads a store through the driver calls the routes use
  (\<open>findOne\<close>, \<open>find\<close>), so that the refinement is stated over what the API can
  observe; the id counter is not part of the contract.
\<close>

record apool =
  a_name :: json
  a_goal :: rat
  a_admin :: rat
  a_created :: timestamp

record investment =
  i_name :: json
  i_amount :: rat
  i_created :: timestamp

record ledger =
  l_pools :: "oid \<Rightarrow> apool option"
  l_investments :: "oid \<Rightarrow> investment multiset"

datatype ledger_op = L_create oid apool | L_invest oid investment | L_add_admin oid rat

fun ledger_pre :: "ledger_op \<Rightarrow> ledger \<Rightarrow> bool" where
  "ledger_pre (L_create i p) L = (l_pools L i = None)"
| "ledger_pre _ L = True"

fun ledger_apply :: "ledger_op \<Rightarrow> ledger \<Rightarrow> ledger" where
  "ledger_apply (L_create i p) L = L\<lparr>l_pools := (l_pools L)(i \<mapsto> p)\<rparr>"
| "ledger_apply (L_invest i v) L =
     L\<lparr>l_investments := (l_investments L)(i := l_investments L i + {#v#})\<rparr>"
| "ledger_apply (L_add_admin i x) L =
     L\<lparr>l_pools := (l_pools L)(i := map_option (\<lambda>p. p\<lparr>a_admin := a_admin p + x\<rparr>) (l_pools L i))\<rparr>"

subsection \<open>Abstraction of the store\<close>

definition apool_of :: "pool_doc \<Rightarrow> apool" where
  "apool_of p = \<lparr>a_name = name p, a_goal = totalAmount p, a_admin = adminShare p, a_created = createdAt p\<rparr>"

definition investment_of :: "person_doc \<Rightarrow> investment" where
  "investment_of d = \<lparr>i_name = personName d, i_amount = amount d, i_created = person_createdAt d\<rparr>"

definition abs_store :: "store \<Rightarrow> ledger" where
  "abs_store st =
     \<lparr>l_pools = (\<lambda>i. map_option apool_of (findOne_pool i st)),
      l_investments = (\<lambda>i. mset (map investment_of (find_people i st)))\<rparr>"

text \<open>The write a successful request promises (spec section 4.3), read from the request
  and the id the response reports; reads and failures promise none.\<close>

definition request_effect :: "timestamp \<Rightarrow> request \<Rightarrow> response \<Rightarrow> ledger_op option" where
  "request_effect now req r =
     (if status r \<notin> {200, 201} then None else
      case (req, payload r) of
        (Req_create body, P_created _ i) \<Rightarrow>
          Some (L_create i \<lparr>a_name = the (body_field body ''name''),
                           a_goal = num_or_zero (body_field body ''totalAmount''),
                           a_admin = num_or_zero (body_field body ''adminShare''), a_created = now\<rparr>)
      | (Req_add_person body, _) \<Rightarrow>
          (case body_field body ''poolId'' of
             Some (JStr p) \<Rightarrow>
               Some (L_invest p \<lparr>i_name = the (body_field body ''personName''),
                                 i_amount = num_or_zero (body_field body ''amount''), i_created = now\<rparr>)
           | _ \<Rightarrow> None)
      | (Req_add_shares body, _) \<Rightarrow>
          (case body_field body ''poolId'' of
             Some (JStr p) \<Rightarrow> Some (L_add_admin p (num_or_zero (body_field body ''extraAmount'')))
           | _ \<Rightarrow> None)
      | _ \<Rightarrow> None)"

text \<open>A listening server over a store with one pool, used by the examples below.\<close>

definition ledger_demo_store :: store where
  "ledger_demo_store = empty_store\<lparr>oid_counter := 1,
     pools := [\<lparr>pool_id = gen_oid 0, name = JStr ''Alpha'', totalAmount = 1000, adminShare = 0, createdAt = 1\<rparr>]\<rparr>"

definition ledger_demo_server :: server where
  "ledger_demo_server = \<lparr>db = Some ledger_demo_store, phase = Listening\<rparr>"

subsection \<open>The store implements the ledger operations\<close>

lemma abs_store_counter [simp]: "abs_store (st\<lparr>oid_counter := n\<rparr>) = abs_store st"
  by (simp add: abs_store_def findOne_pool_def find_people_def)

lemma apool_of_id [simp]: "apool_of (p\<lparr>pool_id := i\<rparr>) = apool_of p"
  by (simp add: apool_of_def)

lemma investment_of_id [simp]: "investment_of (d\<lparr>person_id := i\<rparr>) = investment_of d"
  by (simp add: investment_of_def)

lemma findOne_pool_snoc_fresh:
  "i \<notin> set (map pool_id (pools st)) \<Longrightarrow>
   findOne_pool j (st\<lparr>pools := pools st @ [d\<lparr>pool_id := i\<rparr>]\<rparr>) =
     (if j = i then Some (d\<lparr>pool_id := i\<rparr>) else findOne_pool j st)"
  by (simp add: findOne_pool_def find_snoc_fresh find_snoc_other)

lemma findOne_pool_fresh: "i \<notin> set (map pool_id (pools st)) \<Longrightarrow> findOne_pool i st = None"
  by (auto simp: findOne_pool_def find_None_iff)

lemma abs_store_insertOne_pool:
  assumes "insertOne_pool d st = (st', r)"
  shows "(r = None \<and> abs_store st' = abs_store st) \<or>
         (\<exists>i. r = Some i \<and> ledger_pre (L_create i (apool_of d)) (abs_store st) \<and>
              abs_store st' = ledger_apply (L_create i (apool_of d)) (abs_store st))"
  using insertOne_pool_cases [OF assms]
proof
  assume "r = None \<and> st' = st\<lparr>oid_counter := Suc (oid_counter st)\<rparr>"
  then show ?thesis by simp
next
  assume "\<exists>i. r = Some i \<and> i = gen_oid (oid_counter st) \<and> i \<notin> set (map pool_id (pools st)) \<and>
        st' = st\<lparr>oid_counter := Suc (oid_counter st), pools := pools st @ [d\<lparr>pool_id := i\<rparr>]\<rparr>"
  then obtain i where i: "r = Some i" "i \<notin> set (map pool_id (pools st))"
    and st': "st' = (st\<lparr>pools := pools st @ [d\<lparr>pool_id := i\<rparr>]\<rparr>)\<lparr>oid_counter := Suc (oid_counter st)\<rparr>"
    by auto
  have "abs_store st' = ledger_apply (L_create i (apool_of d)) (abs_store st)"
    unfolding st' abs_store_counter
    using i(2) by (simp add: abs_store_def findOne_pool_snoc_fresh find_people_def fun_eq_iff)
  with i show ?thesis by (simp add: abs_store_def findOne_pool_fresh)
qed

lemma abs_store_insertOne_person:
  assumes "insertOne_person d st = (st', r)"
  shows "(r = None \<and> abs_store st' = abs_store st) \<or>
         (\<exists>i. r = Some i \<and> abs_store st' = ledger_apply (L_invest (poolId d) (investment_of d)) (abs_store st))"
  using insertOne_person_cases [OF assms]
  by (auto simp: abs_store_def findOne_pool_def find_people_def fun_eq_iff)

lemma abs_store_updateOne_inc:
  "abs_store (updateOne_inc i x st) = ledger_apply (L_add_admin i x) (abs_store st)"
  by (auto simp: abs_store_def findOne_pool_def find_people_def updateOne_inc_def fun_eq_iff
      find_inc_adminShare option.map_comp apool_of_def comp_def)

lemma ledger_demo_find:
  "findOne_pool (gen_oid 0) ledger_demo_store =
     Some \<lparr>pool_id = gen_oid 0, name = JStr ''Alpha'', totalAmount = 1000, adminShare = 0, createdAt = 1\<rparr>"
  "find_people (gen_oid 0) ledger_demo_store = []"
  by (simp_all add: ledger_demo_store_def findOne_pool_def find_people_def empty_store_def)

lemma if_truthy_num_or_zero [simp]: "(if js_truthy v then num_or_zero v else 0) = num_or_zero v"
  by (simp add: falsy_num_or_zero)

lemma find_people_updateOne_inc [simp]: "find_people j (updateOne_inc i x st) = find_people j st"
  by (simp add: find_people_def updateOne_inc_def)

lemmas effect_defs = request_effect_def err_def internal_error_def

lemma handle_abs:
  assumes "handle now req (Some st) = (r, db')"
  shows "\<exists>st'. db' = Some st' \<and>
     (case request_effect now req r of
        None \<Rightarrow> abs_store st' = abs_store st
      | Some op \<Rightarrow> ledger_pre op (abs_store st) \<and> abs_store st' = ledger_apply op (abs_store st))"
proof (cases req)
  case Req_list
  with assms show ?thesis by (auto simp: listPools_def effect_defs)
next
  case (Req_summary p)
  with assms show ?thesis
    by (auto simp: getPoolSummary_def effect_defs split: if_splits option.splits)
next
  case (Req_create body)
  with assms show ?thesis
    by (auto simp: createPool_def Let_def effect_defs apool_of_def
        split: if_splits prod.splits option.splits dest!: abs_store_insertOne_pool)
next
  case (Req_add_person body)
  with assms show ?thesis
    by (auto simp: addPerson_def Let_def effect_defs investment_of_def
        split: if_splits prod.splits option.splits dest!: abs_store_insertOne_person new_ObjectId_valid)
next
  case (Req_add_shares body)
  with assms show ?thesis
    by (auto simp: addAdminShares_def Let_def effect_defs abs_store_updateOne_inc
        split: if_splits option.splits dest!: new_ObjectId_valid)
qed

lemma ledger_apply_keeps:
  "ledger_pre op L \<Longrightarrow> l_pools L i = Some p \<Longrightarrow> \<exists>p'. l_pools (ledger_apply op L) i = Some p' \<and>
     a_name p' = a_name p \<and> a_goal p' = a_goal p \<and> a_created p' = a_created p"
  by (cases op) auto

lemma step_request_handle:
  assumes "step (Request now m path body) s = (Some r, s')" and "get s = Some st"
  shows "(route m path body = None \<and> s' = s) \<or>
         (\<exists>req db'. route m path body = Some req \<and> handle now req (Some st) = (r, db') \<and> get s' = db')"
  using assms
  by (auto simp: serve_def get_def split: if_splits option.splits prod.splits)

text \<open>C9: the running server refines the ledger of the spec: a request answered by a
  listening server changes what the store shows (its pools by id and each id's
  investments) by exactly the write the spec promises for a successful create,
  add-person or add-shares, with a fresh id for a created pool, and leaves it unchanged
  for reads, unknown routes and every failure.\<close>

theorem step_refines_ledger:
  assumes "get s = Some st" and "step (Request now m path body) s = (Some r, s')"
  shows "\<exists>st'. get s' = Some st' \<and>
    (case route m path body of
       None \<Rightarrow> abs_store st' = abs_store st
     | Some req \<Rightarrow>
         (case request_effect now req r of
            None \<Rightarrow> abs_store st' = abs_store st
          | Some op \<Rightarrow> ledger_pre op (abs_store st) \<and> abs_store st' = ledger_apply op (abs_store st)))"
  using step_request_handle [OF assms(2,1)]
proof
  assume "route m path body = None \<and> s' = s"
  with assms(1) show ?thesis by simp
next
  assume "\<exists>req db'. route m path body = Some req \<and> handle now req (Some st) = (r, db') \<and> get s' = db'"
  then obtain req db' where "route m path body = Some req" "handle now req (Some st) = (r, db')" "get s' = db'"
    by blast
  with handle_abs [of now req st r db'] show ?thesis by auto
qed

theorem step_refines_ledger_witness:
  "get ledger_demo_server = Some ledger_demo_store \<and>
   step (Request 2 POST [''admin'', ''add-shares''] (JObj [(''poolId'', JStr (gen_oid 0)), (''extraAmount'', JNum 750)]))
     ledger_demo_server =
   (Some (the (fst (step (Request 2 POST [''admin'', ''add-shares'']
        (JObj [(''poolId'', JStr (gen_oid 0)), (''extraAmount'', JNum 750)])) ledger_demo_server))),
    snd (step (Request 2 POST [''admin'', ''add-shares'']
        (JObj [(''poolId'', JStr (gen_oid 0)), (''extraAmount'', JNum 750)])) ledger_demo_server)) \<and>
   (\<exists>st'. get (snd (step (Request 2 POST [''admin'', ''add-shares'']
        (JObj [(''poolId'', JStr (gen_oid 0)), (''extraAmount'', JNum 750)])) ledger_demo_server)) = Some st' \<and>
      abs_store st' = ledger_apply (L_add_admin (gen_oid 0) 750) (abs_store ledger_demo_store))"
proof -
  let ?e = "Request 2 POST [''admin'', ''add-shares''] (JObj [(''poolId'', JStr (gen_oid 0)), (''extraAmount'', JNum 750)])"
  have g: "get ledger_demo_server = Some ledger_demo_store"
    by (simp add: ledger_demo_server_def get_def)
  have st: "step ?e ledger_demo_server = (Some (the (fst (step ?e ledger_demo_server))), snd (step ?e ledger_demo_server))"
    by (simp add: ledger_demo_server_def serve_def route_def split: prod.split)
  have eff: "request_effect 2 (Req_add_shares (JObj [(''poolId'', JStr (gen_oid 0)), (''extraAmount'', JNum 750)]))
      (the (fst (step ?e ledger_demo_server))) = Some (L_add_admin (gen_oid 0) 750)"
    by (simp add: ledger_demo_server_def serve_def route_def get_def addAdminShares_gen_oid request_effect_def)
  have r: "route POST [''admin'', ''add-shares''] (JObj [(''poolId'', JStr (gen_oid 0)), (''extraAmount'', JNum 750)]) =
      Some (Req_add_shares (JObj [(''poolId'', JStr (gen_oid 0)), (''extraAmount'', JNum 750)]))"
    by (simp add: route_def)
  show ?thesis
    using step_refines_ledger [OF g st] g st eff r by auto
qed

text \<open>C17: the goal, name and creation time of a pool are never changed (spec section 3):
  after any request to a listening server, every pool the store held is still found
  under its id with the same name, goal and creation time.\<close>

theorem step_keeps_pool_identity:
  assumes "get s = Some st" and "step (Request now m path body) s = (Some r, s')"
    and "findOne_pool i st = Some p"
  shows "\<exists>st' p'. get s' = Some st' \<and> findOne_pool i st' = Some p' \<and>
           name p' = name p \<and> totalAmount p' = totalAmount p \<and> createdAt p' = createdAt p"
proof -
  have pool: "l_pools (abs_store st) i = Some (apool_of p)"
    using assms(3) by (simp add: abs_store_def)
  obtain st' where st': "get s' = Some st'"
    and ab: "abs_store st' = abs_store st \<or>
             (\<exists>op. ledger_pre op (abs_store st) \<and> abs_store st' = ledger_apply op (abs_store st))"
  proof (rule disjE [OF step_request_handle [OF assms(2,1)]])
    assume "route m path body = None \<and> s' = s"
    then show thesis using assms(1) that by auto
  next
    assume "\<exists>req db'. route m path body = Some req \<and> handle now req (Some st) = (r, db') \<and> get s' = db'"
    then obtain req db' where "handle now req (Some st) = (r, db')" "get s' = db'" by blast
    with handle_abs [of now req st r db'] that show thesis
      by (auto split: option.splits)
  qed
  from ab obtain q where q: "l_pools (abs_store st') i = Some q" "a_name q = name p"
      "a_goal q = totalAmount p" "a_created q = createdAt p"
  proof
    assume "abs_store st' = abs_store st"
    with pool that show thesis by (simp add: apool_of_def)
  next
    assume "\<exists>op. ledger_pre op (abs_store st) \<and> abs_store st' = ledger_apply op (abs_store st)"
    then obtain op where op: "ledger_pre op (abs_store st)" "abs_store st' = ledger_apply op (abs_store st)"
      by blast
    from ledger_apply_keeps [OF op(1) pool] op(2) that show thesis by (auto simp: apool_of_def)
  qed
  from q st' show ?thesis by (auto simp: abs_store_def apool_of_def)
qed

theorem step_keeps_pool_identity_witness:
  "get ledger_demo_server = Some ledger_demo_store \<and>
   findOne_pool (gen_oid 0) ledger_demo_store =
     Some \<lparr>pool_id = gen_oid 0, name = JStr ''Alpha'', totalAmount = 1000, adminShare = 0, createdAt = 1\<rparr> \<and>
   (\<exists>st' p'. get (snd (step (Request 2 POST [''admin'', ''add-shares'']
        (JObj [(''poolId'', JStr (gen_oid 0)), (''extraAmount'', JNum 750)])) ledger_demo_server)) = Some st' \<and>
      findOne_pool (gen_oid 0) st' = Some p' \<and> name p' = JStr ''Alpha'' \<and> totalAmount p' = 1000 \<and> createdAt p' = 1)"
proof -
  let ?e = "Request 2 POST [''admin'', ''add-shares''] (JObj [(''poolId'', JStr (gen_oid 0)), (''extraAmount'', JNum 750)])"
  have g: "get ledger_demo_server = Some ledger_demo_store"
    by (simp add: ledger_demo_server_def get_def)
  have st: "step ?e ledger_demo_server = (Some (the (fst (step ?e ledger_demo_server))), snd (step ?e ledger_demo_server))"
    by (simp add: ledger_demo_server_def serve_def route_def split: prod.split)
  show ?thesis
    using step_keeps_pool_identity [OF g st ledger_demo_find(1)] g ledger_demo_find(1) by simp
qed

end
