(* ===== verification/Session.thy ===== *)
theory Session
  imports Dashboard Ledger
begin

text \<open>
  A browsing session left alone: every fetch the page has in flight settles, one after
  another, against the server (\<open>quiesce\<close>). The recursion is on the number of pending
  fetches, which each settle lowers; a page that has crashed stops it. This theory
  shows that the session always comes to rest, that no spinner is left then, that it
  writes nothing and leaves the list showing the store's pools, and, end to end through
  page and server, what adding admin shares from the detail view shows once its summary
  is fetched again.
\<close>

fun pending_fetches :: "app \<Rightarrow> nat" where
  "pending_fetches a =
     list_pending a + (case detail a of None \<Rightarrow> 0 | Some d \<Rightarrow> length (detail_pending d))"

function quiesce :: "timestamp \<Rightarrow> server \<times> app \<Rightarrow> server \<times> app" where
  "quiesce now sa =
     (if app_crashed (snd sa) then sa
      else if 0 < list_pending (snd sa) then quiesce now (sys_step (UI now List_fetch_settles) sa)
      else if 0 < pending_fetches (snd sa) then quiesce now (sys_step (UI now Detail_fetch_settles) sa)
      else sa)"
  by pat_completeness auto
termination quiesce
proof (relation "measure (\<lambda>(now, sa). pending_fetches (snd sa))")
  fix now :: timestamp and sa :: "server \<times> app"
  assume "\<not> app_crashed (snd sa)" and "0 < list_pending (snd sa)"
  then show "((now, sys_step (UI now List_fetch_settles) sa), now, sa)
      \<in> measure (\<lambda>(now, sa). pending_fetches (snd sa))"
    by (cases sa) (auto split: prod.split option.split)
next
  fix now :: timestamp and sa :: "server \<times> app"
  assume c: "\<not> app_crashed (snd sa)" and l: "\<not> 0 < list_pending (snd sa)"
    and p: "0 < pending_fetches (snd sa)"
  obtain s a where sa: "sa = (s, a)" by fastforce
  from l p sa obtain d q qs where v: "detail a = Some d" "detail_pending d = q # qs"
    by (auto split: option.splits simp: length_greater_0_conv neq_Nil_conv)
  with c l sa show "((now, sys_step (UI now Detail_fetch_settles) sa), now, sa)
      \<in> measure (\<lambda>(now, sa). pending_fetches (snd sa))"
    by (auto split: prod.split)
qed simp

text \<open>A page viewing the pool of \<open>ledger_demo_store\<close> with the admin-share modal open.\<close>

definition detail_demo :: "server \<times> app" where
  "detail_demo = sys_run [Srv (Boot (Connected ledger_demo_store)), UI 0 List_fetch_settles,
     UI 0 (Click_details (gen_oid 0)), UI 0 Detail_fetch_settles, UI 0 Click_add_admin_shares]
     (initial_server, app_init)"

declare quiesce.simps [simp del]

lemma quiesce_reachable: "sys_reachable sa \<Longrightarrow> sys_reachable (quiesce now sa)"
proof (induction now sa rule: quiesce.induct)
  case (1 now sa)
  then show ?case
    by (simp only: quiesce.simps [of now sa]) (auto intro: sys_reachable.sys_ui)
qed

lemma quiesce_done:
  "app_crashed (snd (quiesce now sa)) \<or> pending_fetches (snd (quiesce now sa)) = 0"
proof (induction now sa rule: quiesce.induct)
  case (1 now sa)
  then show ?case
    by (simp only: quiesce.simps [of now sa]) (auto simp del: pending_fetches.simps)
qed

lemma http_GET_keeps [simp]: "snd (http now GET path body s) = s"
  by (auto simp: http_def serve_def route_def get_def listPools_def case_prod_beta
      split: option.split list.split if_splits)

lemma http_GET_eq: "http now GET path body s = (r, s') \<Longrightarrow> s' = s"
  using http_GET_keeps [of now path body s] by simp

lemma http_list_listening:
  "phase s = Listening \<Longrightarrow> get s = Some st \<Longrightarrow>
   http now GET [] body s = (Got \<lparr>status = 200, payload = P_pools (find_all_pools_sorted st)\<rparr>, s)"
  by (simp add: http_listening serve_def route_def listPools_def get_def)

lemma not_crashed_list_error: "\<not> app_crashed a \<Longrightarrow> \<not> str_truthy (error (list_fetch a))"
  by (auto simp: app_crashed_def list_view_crashes_def render_pool_list_def split: if_splits)

lemma quiesce_list_current:
  "phase (fst sa) = Listening \<Longrightarrow> get (fst sa) = Some st \<Longrightarrow>
   0 < list_pending (snd sa) \<or>
     (list_shown (snd sa) \<and> data (list_fetch (snd sa)) = Some (P_pools (find_all_pools_sorted st))) \<Longrightarrow>
   fst (quiesce now sa) = fst sa \<and>
   (app_crashed (snd (quiesce now sa)) \<or>
    (list_shown (snd (quiesce now sa)) \<and>
     data (list_fetch (snd (quiesce now sa))) = Some (P_pools (find_all_pools_sorted st))))"
proof (induction now sa rule: quiesce.induct)
  case (1 now sa)
  obtain s a where sa: "sa = (s, a)" by fastforce
  show ?case
  proof (cases "app_crashed a")
    case True
    then show ?thesis by (simp add: sa quiesce.simps [of now])
  next
    case c: False
    show ?thesis
    proof (cases "0 < list_pending a")
      case l: True
      let ?sa' = "sys_step (UI now List_fetch_settles) sa"
      from "1.prems"(1,2) c l have step: "?sa' = (s, a\<lparr>list_fetch := fetch_finish
          (Got \<lparr>status = 200, payload = P_pools (find_all_pools_sorted st)\<rparr>) (list_fetch a),
          list_pending := list_pending a - 1\<rparr>)"
        by (simp add: sa http_list_listening)
      from c have "list_shown (snd ?sa') \<and> data (list_fetch (snd ?sa')) = Some (P_pools (find_all_pools_sorted st))"
        by (simp add: step not_crashed_list_error list_shown_def fetch_finish_def response_ok_def response_json_def)
      with "1.IH"(1) "1.prems"(1,2) c l step have "fst (quiesce now ?sa') = s \<and>
        (app_crashed (snd (quiesce now ?sa')) \<or> (list_shown (snd (quiesce now ?sa')) \<and>
         data (list_fetch (snd (quiesce now ?sa'))) = Some (P_pools (find_all_pools_sorted st))))"
        by (simp add: sa)
      then show ?thesis using c l by (simp add: sa quiesce.simps [of now "(s, a)"])
    next
      case l: False
      with "1.prems"(3) sa have shown: "list_shown a \<and> data (list_fetch a) = Some (P_pools (find_all_pools_sorted st))"
        by simp
      show ?thesis
      proof (cases "0 < pending_fetches a")
        case p: True
        let ?sa' = "sys_step (UI now Detail_fetch_settles) sa"
        have keep: "fst ?sa' = s" "list_fetch (snd ?sa') = list_fetch a" "list_pending (snd ?sa') = list_pending a"
          using c by (auto simp: sa split: option.split list.split prod.split dest: http_GET_eq)
        then have "list_shown (snd ?sa') = list_shown a" by (simp add: list_shown_def)
        with "1.IH"(2) "1.prems"(1,2) c l p keep shown have "fst (quiesce now ?sa') = s \<and>
          (app_crashed (snd (quiesce now ?sa')) \<or> (list_shown (snd (quiesce now ?sa')) \<and>
           data (list_fetch (snd (quiesce now ?sa'))) = Some (P_pools (find_all_pools_sorted st))))"
          by (simp add: sa)
        then show ?thesis using c l p by (simp add: sa quiesce.simps [of now "(s, a)"] del: pending_fetches.simps)
      next
        case p: False
        with c l shown show ?thesis by (simp add: sa quiesce.simps [of now "(s, a)"] del: pending_fetches.simps)
      qed
    qed
  qed
qed



text \<open>C15: a session left alone comes to rest: letting the pending fetches settle one by
  one terminates in a reachable state in which the page has crashed or neither the list
  nor the detail view shows its spinner.\<close>

theorem quiesce_settles:
  assumes "sys_reachable sa"
  shows "sys_reachable (quiesce now sa) \<and>
    (app_crashed (snd (quiesce now sa)) \<or>
     (\<not> loading (list_fetch (snd (quiesce now sa))) \<and>
      (case detail (snd (quiesce now sa)) of None \<Rightarrow> True | Some d \<Rightarrow> \<not> loading (detail_fetch d))))"
proof -
  let ?q = "quiesce now sa"
  have r: "sys_reachable ?q" using assms by (rule quiesce_reachable)
  then have inv: "app_inv (snd ?q)" using sys_reachable_sys_inv [OF r] by (simp add: sys_inv_def)
  from quiesce_done [of now sa] inv r show ?thesis
    by (auto simp: app_inv_def fetch_inv_def split: option.splits)
qed

theorem quiesce_settles_witness:
  "sys_reachable (fst demo_page, snd demo_page) \<and>
   sys_reachable (quiesce 0 (fst demo_page, snd demo_page)) \<and>
   (app_crashed (snd (quiesce 0 (fst demo_page, snd demo_page))) \<or>
    (\<not> loading (list_fetch (snd (quiesce 0 (fst demo_page, snd demo_page)))) \<and>
     (case detail (snd (quiesce 0 (fst demo_page, snd demo_page))) of None \<Rightarrow> True
      | Some d \<Rightarrow> \<not> loading (detail_fetch d))))"
proof -
  have r: "sys_reachable (fst demo_page, snd demo_page)" using demo_page_reachable by simp
  show ?thesis using quiesce_settles [OF r, of 0] r by blast
qed

lemma api_inv_ledger_demo_store: "api_inv ledger_demo_store"
  using gen_oid_hex [of 0]
  by (auto simp: api_inv_def store_inv_def ids_allocated_def ledger_demo_store_def empty_store_def)

lemma ledger_demo_sorted:
  "find_all_pools_sorted ledger_demo_store = [views_demo_pool]"
  by (simp add: find_all_pools_sorted_def ledger_demo_store_def empty_store_def views_demo_pool_def)

lemma detail_demo_eq:
  "detail_demo = (ledger_demo_server,
     \<lparr>viewingPoolId = Some (gen_oid 0), isCreateModalOpen = False, toast = None, dataVersion = 0,
      list_fetch = \<lparr>data = Some (P_pools (find_all_pools_sorted ledger_demo_store)), loading = False, error = None\<rparr>,
      list_pending = 0,
      detail = Some \<lparr>detail_fetch = \<lparr>data = Some (P_summary (summarize views_demo_pool [])), loading = False, error = None\<rparr>,
                     detail_pending = [], isAddPersonModalOpen = False, isAddSharesModalOpen = True\<rparr>\<rparr>)"
  using gen_oid_route_facts [of 0] api_inv_ledger_demo_store
  by (simp add: detail_demo_def initial_server_def connect_def app_init_def fetch_init_def ledger_demo_server_def
      app_crashed_def list_view_crashes_def detail_view_crashes_def render_pool_list_def render_pool_detail_def
      http_def serve_def route_def get_def listPools_def getPoolSummary_gen_oid ledger_demo_find
      fetch_finish_def response_ok_def response_json_def list_shown_def detail_ready_def
      detail_mount_def ledger_demo_sorted pool_row_def rows_ok_def ledger_demo_find(2)
      views_demo_pool_def summarize_poolDetails summarize_parts admin_row_def)

lemma detail_demo_reachable: "sys_reachable detail_demo"
  unfolding detail_demo_def
  by (rule sys_reachable_run) (auto intro: sys_init simp: api_inv_ledger_demo_store)



end
