(* ===== verification/Spec2Isabelle.thy ===== *)
theory Spec2Isabelle
  imports Session Ledger
begin

text \<open>
  \<^bold>\<open>A verification development of the funding-pool tracker (userboss1/MAIN).\<close>

  \<^bold>\<open>The program.\<close> An express server (src/backend/index.js) mounts one router
  (src/backend/routes.js/pool.js) under \<open>/api/pool\<close> and starts listening only after
  src/backend/config/db.js has connected to MongoDB and set its module-level handle
  \<open>db\<close>. The router has five handlers over two collections, \<open>pools\<close> and
  \<open>people\<close>: list the pools newest first, create a pool, add an investor, add to the
  admin's share with an atomic \<open>$inc\<close>, and compute a pool's summary (totals,
  remaining amount, funded flag, share percentages rounded with \<open>toFixed(2)\<close>). A
  React dashboard (src/frontend/vite-project/src) calls these routes and renders the
  results.

  \<^bold>\<open>The library.\<close>
  \<^item> \<open>Prelude\<close>: JSON values as the handlers receive them from \<open>express.json()\<close>
    (\<open>json\<close>, absent fields as \<open>None\<close>), JavaScript truthiness (\<open>js_truthy\<close>),
    \<open>typeof x === 'number'\<close> (\<open>typeof_number\<close>), property access (\<open>body_field\<close>).
    JavaScript numbers are exact rationals.
  \<^item> \<open>ObjectId\<close>: ids as their 24-digit lowercase hexadecimal form, the bson
    constructor \<open>new ObjectId(s)\<close> on strings (\<open>objectid_of_string\<close>), the route helper
    \<open>isValidObjectId\<close> (pool.js lines 8--10), and the store's id allocation
    \<open>gen_oid\<close> (a counter in 24 hexadecimal digits standing for the driver's ids).
  \<^item> \<open>Store\<close>: the documents (\<open>pool_doc\<close>, \<open>person_doc\<close>) and the database as a
    record of two collections in insertion order with the driver's id counter; one
    definition per driver call the routes make (\<open>insertOne_pool\<close>, \<open>insertOne_person\<close>,
    \<open>findOne_pool\<close>, \<open>find_people\<close>, \<open>updateOne_inc\<close>, \<open>find_all_pools_sorted\<close>).
    A duplicate \<open>_id\<close> makes an insert fail, as MongoDB's unique index does.
  \<^item> \<open>Summary\<close>: \<open>calculatePercentage\<close> with \<open>parseFloat(x.toFixed(2))\<close> as
    ECMAScript specifies it (\<open>toFixed2\<close>), and \<open>summarize\<close>, the computation of the
    summary route (pool.js lines 129--166) as a pure function of the pool and its
    investments.
  \<^item> \<open>Api\<close>: the handlers \<open>listPools\<close>, \<open>createPool\<close>, \<open>addPerson\<close>,
    \<open>addAdminShares\<close>, \<open>getPoolSummary\<close>, each taking the request's data, the clock and
    the db handle and returning the response and the new handle, every early return and
    the \<open>catch\<close> (500) as a branch; the router \<open>route\<close> and the dispatcher
    \<open>handle\<close>.
  \<^item> \<open>Server\<close>: db.js's \<open>connect\<close> and \<open>get\<close> with index.js's callback, one request
    through the router (\<open>serve\<close>), and the process as a machine over events (the
    connection outcome, a request, a store I/O failure): \<open>step\<close>, \<open>run\<close> and the
    inductive set \<open>reachable\<close>.
  \<^item> \<open>Client\<close>: how the dashboard reads a response (\<open>response_ok\<close>,
    \<open>response_json\<close>), the \<open>useFetch\<close> hook of App.jsx as a state machine over
    \<open>data\<close>, \<open>loading\<close>, \<open>error\<close> (\<open>fetch_start\<close>, \<open>fetch_finish\<close>,
    \<open>fetchData\<close>), the \<open>fetchData\<close> of the standalone hooks/useFetch.jsx
    (\<open>fetchData_hook\<close>), \<open>useApi().post\<close> (\<open>api_post\<close>), the bodies the three
    forms post and the admin-share guard (\<open>createPool_body\<close>, \<open>addPerson_body\<close>,
    \<open>addShares_request\<close>), the toast and completion of a submit (\<open>form_outcome\<close>),
    and the figures of the two detail views (\<open>fundingPercentage\<close>,
    \<open>pieChartData\<close> of App.jsx; \<open>fundingPercentage_view\<close>,
    \<open>pieChartData_view\<close> of views/PoolDetail.jsx, on JavaScript numbers with
    \<open>Infinity\<close> and \<open>NaN\<close>).
  \<^item> \<open>Views\<close>: what every view renders, as a function of its fetch state: the
    presentational components (\<open>spinner\<close>, \<open>error_message\<close>, \<open>toast_view\<close>,
    \<open>modal\<close>, \<open>stat_card\<close>, \<open>info_card\<close>, \<open>progress_bar\<close>, the two
    \<open>investment_pie_chart\<close>s), the forms' inputs and the browser's constraint validation
    (\<open>constraint_valid\<close>), the pool lists of App.jsx and views/PoolsList.jsx
    (\<open>render_pool_list\<close>, \<open>render_pools_view\<close>) and the detail views of App.jsx and
    views/PoolDetail.jsx (\<open>render_pool_detail\<close>, \<open>render_pool_detail_view\<close>). A
    render throws (\<open>Render_error\<close>) on the missing \<open>ErrorMessage\<close>, on a stored object
    React cannot render (\<open>react_child_ok\<close>), or on a response without a summary.
  \<^item> \<open>Dashboard\<close>: the state of \<open>App\<close> and \<open>PoolDetailView\<close> (\<open>app\<close>,
    \<open>detail_state\<close>, with the pool id of every summary fetch in flight), every click,
    close and submit handler and every settling fetch as an event (\<open>ui_step\<close>: a
    control can be used whenever it is rendered, since modal overlays do not stop the
    keyboard; submits are guarded by the forms' constraint validation), the page
    crashing when a view's render throws (\<open>app_crashed\<close>), and the page together with
    the server (\<open>sys_step\<close>, the inductive set \<open>sys_reachable\<close>). A browser request
    is a \<open>Request\<close> event of the server (\<open>http\<close>).
  \<^item> \<open>Session\<close>: a session left alone, in which the pending fetches settle one by
    one (\<open>quiesce\<close>, a \<open>function\<close> whose termination measure is the number of
    fetches in flight).
  \<^item> \<open>Ledger\<close>: the data model of the spec (sections 3 and 4.3) as an abstract ledger of
    pools by id and investments by pool id with three write operations
    (\<open>ledger_apply\<close>); the abstraction \<open>abs_store\<close> of a store as the routes observe it; the write a request
    promises (\<open>request_effect\<close>).
  \<^item> this theory: the soundness of every summary the running server serves.

  \<^bold>\<open>What is proved.\<close> For the API: the summary's figures and the rounding of its
  percentages (error at most 0.005 each, monotone for a positive goal, their sum within
  0.005 per participant of the funded percentage); the summary route's three outcomes;
  exactly which create requests are rejected and what an accepted one stores; that
  investments are stored for pools that do not exist and that admin shares for a
  missing pool are a silent no-op; that no 4xx or 5xx response writes; the exact set of
  ids the routes accept; and, by rule induction over the server's runs, that while the
  server listens its handle is set and the data keeps unique ids and non-zero goals, so
  that the zero guard of \<open>calculatePercentage\<close> is dead code on data the API wrote.
  By refinement: every request a listening server answers changes the abstract ledger
  by exactly the operation the spec promises, or not at all, and no request changes a
  pool's name, goal or creation time. For the dashboard: end to end, a pool created
  through the form appears in the list once its fetch settles, and admin shares added
  from the detail view show up in its refreshed summary; the create form's bodies
  always pass the route's type checks, the admin-share form posts exactly the positive
  amounts, each accepted, and the add-investor form posts any amount (0 rejected,
  negative ones stored); every API error reaches the form's toast with the
  API's message; a settled \<open>useFetch\<close> clears its spinner and keeps old data on
  failure; a session left alone terminates with no spinner shown, writes nothing, and
  leaves the table listing exactly the store's pools. Defects: a failed
  read crashes the page (the missing import); a pool name that is a JSON object, which
  the API accepts, makes the list's render throw; switching pools while a summary is
  in flight shows the old pool's summary in the new pool's view; the funding bar is
  unclamped; the duplicate views diverge in their error messages and funding
  percentages, and the two detail views list the same participants.

  \<^bold>\<open>Bounds and choices.\<close> The database the server connects to is assumed to hold data
  the API could have written (\<open>admissible\<close>: unique allocated ids, non-zero goals);
  every invariant is proved from that start. Ids are allocated from a counter encoded in 24 hexadecimal
  digits: inserts succeed while fewer than \<open>16^24\<close> ids have been allocated, after which
  the model, like MongoDB, refuses a duplicate \<open>_id\<close> with an error (a 500). Numbers are
  exact rationals: the floating-point error of IEEE doubles in sums and in
  \<open>amount / total * 100\<close> is not modelled, only the rounding the code writes. The
  store's order for equal \<open>createdAt\<close> values is unspecified; the model keeps
  insertion order. A number input holds nothing or a number, as the browser sanitises
  it, so \<open>Number(...)\<close> is never \<open>NaN\<close> there. A form's post is one step (its
  button is disabled while it is in flight). A GET is served when its response
  arrives; the list's fetches in flight are counted (their URLs differ only in the
  version, which the server ignores), the detail view's are kept with the pool id of
  their URL, and each view's responses arrive in the order they were sent. That order
  is one the network allows, so the stale summary it shows is a real behaviour; the
  end-to-end results hold for every order because the fetches they wait for ask for the
  same data. Over rationals \<open>x / 0 = 0\<close>, so the zero guard of \<open>calculatePercentage\<close>
  has no observable effect in the model; on the data the API writes the guard is never
  reached (above).

  \<^bold>\<open>Not modelled.\<close> The network, CORS and the JSON parser (the body arrives as a
  \<open>json\<close> value), logging, the process environment (port, connection string), and
  the presentation of the dashboard (markup, styles, the chart library, currency and
  date formatting, CSS classes and layout), the loading flag of \<open>useApi\<close> and
  \<open>FormButton\<close>'s disabled state (a post is one step), the toast's timer (its expiry is
  the \<open>Toast_timeout\<close> event), and index.js's imports, CORS and port (the dashboard's
  base URL is taken to reach the server). views/PoolsList.jsx, views/PoolDetail.jsx,
  hooks/useFetch.jsx and components/ are not mounted by App.jsx and do not load as
  written (missing imports); they are modelled as they would run.
\<close>

section \<open>Summaries the running server serves\<close>

definition demo_store :: store where
  "demo_store =
     \<lparr>pools = [\<lparr>pool_id = gen_oid 0, name = JStr ''Alpha'', totalAmount = 3, adminShare = 1, createdAt = 1\<rparr>],
      people = [\<lparr>person_id = gen_oid 1, poolId = gen_oid 0, personName = JStr ''Bob'', amount = 1,
                 person_createdAt = 2\<rparr>],
      oid_counter = 2\<rparr>"

definition demo_request :: event where
  "demo_request = Request 3 GET [gen_oid 0, ''summary''] JNull"

lemma served_summary_origin:
  assumes "reachable s" and "step e s = (Some r, s')" and "payload r = P_summary sm"
  shows "\<exists>st pool p. get s = Some st \<and> api_inv st \<and> findOne_pool p st = Some pool \<and>
                    sm = summarize pool (find_people p st)"
proof (cases e)
  case (Boot res)
  with assms(2) show ?thesis by (simp split: if_splits)
next
  case Store_fault
  with assms(2,3) show ?thesis by (auto simp: internal_error_def err_def split: if_splits)
next
  case (Request now m path body)
  with assms(2) have listening: "phase s = Listening"
    by (simp split: if_splits)
  from assms(2) Request listening obtain req where
    rt: "route m path body = Some req" and h: "handle now req (get s) = (r, db s')"
    using assms(3) by (auto simp: serve_def split: option.splits prod.splits)
  from handle_summary_payload [OF h assms(3)] obtain p st pool where
    "get s = Some st" and "findOne_pool p st = Some pool" and "sm = summarize pool (find_people p st)"
    by blast
  moreover from reachable_listening_db [OF assms(1) listening] \<open>get s = Some st\<close> have "api_inv st"
    by auto
  ultimately show ?thesis by blast
qed

text \<open>C14: every summary the running server serves is of a pool with a non-zero goal, so
  the zero guard of \<open>calculatePercentage\<close> is never taken, and each share it reports
  (the admin's and every investor's) is within \<open>0.005\<close> of the exact percentage of
  the goal.\<close>

theorem served_summary_sound:
  assumes "reachable s" and "step e s = (Some r, s')" and "payload r = P_summary sm"
  shows "pd_totalAmount (poolDetails sm) \<noteq> 0 \<and>
         \<bar>ac_sharePercentage (adminContribution sm) -
            ac_amount (adminContribution sm) / pd_totalAmount (poolDetails sm) * 100\<bar> \<le> 1 / 200 \<and>
         (\<forall>p \<in> set (investors sm).
            \<bar>sharePercentage p - amount p / pd_totalAmount (poolDetails sm) * 100\<bar> \<le> 1 / 200)"
proof -
  from served_summary_origin [OF assms] obtain st pool p where
    inv: "api_inv st" and found: "findOne_pool p st = Some pool" and
    sm: "sm = summarize pool (find_people p st)"
    by blast
  from found have "pool \<in> set (pools st)" by (simp add: findOne_pool_in)
  with inv have nz: "totalAmount pool \<noteq> 0" by (auto simp: api_inv_def)
  with calculatePercentage_bound [of _ "totalAmount pool"] show ?thesis
    by (auto simp: sm summarize_fields)
qed

theorem served_summary_sound_witness:
  "reachable \<lparr>db = Some demo_store, phase = Listening\<rparr> \<and>
   step demo_request \<lparr>db = Some demo_store, phase = Listening\<rparr> =
     (Some (the (fst (step demo_request \<lparr>db = Some demo_store, phase = Listening\<rparr>))),
      snd (step demo_request \<lparr>db = Some demo_store, phase = Listening\<rparr>)) \<and>
   payload (the (fst (step demo_request \<lparr>db = Some demo_store, phase = Listening\<rparr>))) =
     P_summary (summarize (hd (pools demo_store)) (people demo_store)) \<and>
   pd_totalAmount (poolDetails (summarize (hd (pools demo_store)) (people demo_store))) \<noteq> 0"
proof -
  have inv: "api_inv demo_store"
    unfolding api_inv_def store_inv_def ids_allocated_def demo_store_def
    by (auto simp: numeral_2_eq_2 Ex_less_Suc2)
  have r: "reachable \<lparr>db = Some demo_store, phase = Listening\<rparr>"
    using inv by (rule reachable_listening)
  have s: "step demo_request \<lparr>db = Some demo_store, phase = Listening\<rparr> =
     (Some (the (fst (step demo_request \<lparr>db = Some demo_store, phase = Listening\<rparr>))),
      snd (step demo_request \<lparr>db = Some demo_store, phase = Listening\<rparr>))"
    by code_simp
  have p: "payload (the (fst (step demo_request \<lparr>db = Some demo_store, phase = Listening\<rparr>))) =
     P_summary (summarize (hd (pools demo_store)) (people demo_store))"
    by code_simp
  show ?thesis using r s p served_summary_sound [OF r s p] by blast
qed

end
